theory Spec2Isabelle
  imports Main "HOL-Library.Word" "HOL-Library.Multiset"
begin

section \<open>Machine types and constants (vnode\_msg.h)\<close>

text \<open>
  The control channel of the container daemon: \<open>vnode_msg.c\<close> (wire codec),
  \<open>vnode_cmd.c\<close> (server side of the command protocol), \<open>vnode_server.c\<close> (the
  daemon's connections) and \<open>vnode_client.c\<close> (client side). Memory is a list of bytes, \<open>uint32_t\<close> and \<open>int32_t\<close> are
  \<open>32 word\<close>, \<open>size_t\<close> is 64 bits wide and is modelled by \<open>nat\<close> (every offset
  computed below stays under \<open>2 ^ 33 + 8\<close>, see \<open>parse_loop\<close>), file descriptors and
  handler return codes are \<open>int\<close>. What the C code leaves undefined (an index past an
  array, a failed \<open>assert\<close>, a read of freed memory) is an explicit \<open>fault\<close>
  value; so is the one state in which the model leaves the daemon, a client queue
  that links a freed entry (\<open>Freed_entry_linked\<close>).
\<close>

type_synonym u8 = "8 word"
type_synonym u32 = "32 word"
type_synonym i32 = "32 word"

datatype fault =
    Assertion_failed
  | Handler_table_overrun u32
  | Buffer_overrun
  | Argv_overrun
  | Use_after_free
  | Freed_entry_linked

definition VNODE_MSG_NONE :: u32 where "VNODE_MSG_NONE = 0"
definition VNODE_MSG_CMDREQ :: u32 where "VNODE_MSG_CMDREQ = 1"
definition VNODE_MSG_CMDREQACK :: u32 where "VNODE_MSG_CMDREQACK = 2"
definition VNODE_MSG_CMDSTATUS :: u32 where "VNODE_MSG_CMDSTATUS = 3"
definition VNODE_MSG_CMDSIGNAL :: u32 where "VNODE_MSG_CMDSIGNAL = 4"
definition VNODE_MSG_MAX :: u32 where "VNODE_MSG_MAX = 5"

definition VNODE_TLV_NONE :: u32 where "VNODE_TLV_NONE = 0"
definition VNODE_TLV_CMDID :: u32 where "VNODE_TLV_CMDID = 1"
definition VNODE_TLV_STDIN :: u32 where "VNODE_TLV_STDIN = 2"
definition VNODE_TLV_STDOUT :: u32 where "VNODE_TLV_STDOUT = 3"
definition VNODE_TLV_STDERR :: u32 where "VNODE_TLV_STDERR = 4"
definition VNODE_TLV_CMDARG :: u32 where "VNODE_TLV_CMDARG = 5"
definition VNODE_TLV_CMDPID :: u32 where "VNODE_TLV_CMDPID = 6"
definition VNODE_TLV_CMDSTATUS :: u32 where "VNODE_TLV_CMDSTATUS = 7"
definition VNODE_TLV_SIGNUM :: u32 where "VNODE_TLV_SIGNUM = 8"
definition VNODE_TLV_MAX :: nat where "VNODE_TLV_MAX = 9"

definition VNODE_ARGMAX :: nat where "VNODE_ARGMAX = 1024"
definition VNODE_MSGSIZMAX :: nat where "VNODE_MSGSIZMAX = 65535"

text \<open>\<open>sizeof(vnode_msghdr_t)\<close> and \<open>sizeof(vnode_tlv_t)\<close>: two packed \<open>uint32_t\<close>.\<close>

definition HDRSIZE :: nat where "HDRSIZE = 8"
definition TLVSIZE :: nat where "TLVSIZE = 8"

section \<open>Bytes in memory\<close>

text \<open>
  Integers on the wire are native-endian; the model fixes little-endian (x86). A read
  past the end of the modelled memory yields 0: \<open>vnode_parsemsg_junk\<close> below shows
  that a parse depends on no byte after the payload.
\<close>

definition byte_at :: "u8 list \<Rightarrow> nat \<Rightarrow> u8" where
  "byte_at m i = (if i < length m then m ! i else 0)"

definition put32 :: "u32 \<Rightarrow> u8 list" where
  "put32 w = [of_nat (unat w mod 256), of_nat (unat w div 256 mod 256),
              of_nat (unat w div 65536 mod 256), of_nat (unat w div 16777216 mod 256)]"

definition get32 :: "u8 list \<Rightarrow> nat \<Rightarrow> u32" where
  "get32 m off = of_nat (unat (byte_at m off) + 256 * unat (byte_at m (off + 1))
                   + 65536 * unat (byte_at m (off + 2)) + 16777216 * unat (byte_at m (off + 3)))"

text \<open>\<open>memcpy\<close> of \<open>bs\<close> to position \<open>pos\<close> of a buffer that is long enough.\<close>

definition write_at :: "u8 list \<Rightarrow> nat \<Rightarrow> u8 list \<Rightarrow> u8 list" where
  "write_at buf pos bs = take pos buf @ bs @ drop (pos + length bs) buf"

section \<open>Message buffers (vnode\_msg.h)\<close>

text \<open>
  \<open>vnode_msgbuf_t\<close>: \<open>msg\<close> is the allocated block (\<open>msgbufsize\<close> is its length),
  holding the 8-byte header \<open>{type, datalen}\<close> and then the TLV payload.
\<close>

record vnode_msgbuf =
  msg :: "u8 list"
  infd :: int
  outfd :: int
  errfd :: int

abbreviation msgbufsize :: "vnode_msgbuf \<Rightarrow> nat" where
  "msgbufsize mb \<equiv> length (msg mb)"

definition hdr_type :: "u8 list \<Rightarrow> u32" where
  "hdr_type m = get32 m 0"

definition hdr_datalen :: "u8 list \<Rightarrow> u32" where
  "hdr_datalen m = get32 m 4"

definition set_hdr :: "u8 list \<Rightarrow> u32 \<Rightarrow> u32 \<Rightarrow> u8 list" where
  "set_hdr m ty dl = write_at m 0 (put32 ty @ put32 dl)"

text \<open>
  The allocator is part of the environment: asked for \<open>n\<close> bytes, \<open>heap n\<close> is
  \<open>None\<close> when \<open>realloc\<close> fails and otherwise the previous content of the fresh
  memory (uninitialised as far as the program knows).
\<close>

type_synonym heap = "nat \<Rightarrow> (nat \<Rightarrow> u8) option"

definition INIT_MSGBUF :: vnode_msgbuf where
  "INIT_MSGBUF = \<lparr>msg = [], infd = -1, outfd = -1, errfd = -1\<rparr>"

definition vnode_resizemsgbuf :: "heap \<Rightarrow> vnode_msgbuf \<Rightarrow> nat \<Rightarrow> int \<times> vnode_msgbuf" where
  "vnode_resizemsgbuf heap mb sz =
     (case heap sz of
        None \<Rightarrow> (-1, mb)
      | Some junk \<Rightarrow>
          (0, mb\<lparr>msg := take sz (msg mb) @ map junk [length (msg mb)..<sz]\<rparr>))"

definition vnode_initmsgbuf :: "heap \<Rightarrow> int \<times> vnode_msgbuf" where
  "vnode_initmsgbuf heap = vnode_resizemsgbuf heap INIT_MSGBUF VNODE_MSGSIZMAX"

definition vnode_msglen :: "vnode_msgbuf \<Rightarrow> nat" where
  "vnode_msglen mb = HDRSIZE + unat (hdr_datalen (msg mb))"

section \<open>TLV serialisation and parsing (vnode\_msg.c)\<close>

record vnode_tlv =
  tlv_type :: u32
  tlv_vallen :: u32
  tlv_val :: "u8 list"

text \<open>
  \<open>vnode_addtlv\<close>: the TLV goes to \<open>msg->data + offset\<close>; the buffer grows by
  \<open>tlvlen\<close> when \<open>msglen + tlvlen\<close> exceeds it. \<open>valp\<close> is the memory \<open>vallen\<close>
  bytes are copied from. A write that would still end past the block is a fault
  (it cannot happen when \<open>offset\<close> is the sum of the lengths returned so far).
\<close>

definition vnode_addtlv ::
  "heap \<Rightarrow> vnode_msgbuf \<Rightarrow> nat \<Rightarrow> u32 \<Rightarrow> u32 \<Rightarrow> u8 list \<Rightarrow> fault + (int \<times> vnode_msgbuf)" where
  "vnode_addtlv heap mb offset ty vallen valp =
     (let msglen = HDRSIZE + offset;
          tlvlen = TLVSIZE + unat vallen;
          (rc, mb') = (if msglen + tlvlen > msgbufsize mb
                       then vnode_resizemsgbuf heap mb (msgbufsize mb + tlvlen)
                       else (0, mb))
      in if rc \<noteq> 0 then Inr (-1, mb')
         else if msglen + tlvlen > msgbufsize mb' \<or> length valp < unat vallen
         then Inl Buffer_overrun
         else Inr (int tlvlen,
                   mb'\<lparr>msg := write_at (msg mb') msglen
                                (put32 ty @ put32 vallen @ take (unat vallen) valp)\<rparr>))"

type_synonym 'st vnode_tlvhandler = "vnode_tlv \<Rightarrow> 'st \<Rightarrow> int \<times> 'st"

text \<open>The TLV that \<open>tlv\<close> points to at \<open>msg->data + offset\<close>.\<close>

definition tlv_at :: "u8 list \<Rightarrow> nat \<Rightarrow> vnode_tlv" where
  "tlv_at m offset =
     \<lparr>tlv_type = get32 m (HDRSIZE + offset),
      tlv_vallen = get32 m (HDRSIZE + offset + 4),
      tlv_val = take (unat (get32 m (HDRSIZE + offset + 4)))
                     (drop (HDRSIZE + offset + TLVSIZE) m)\<rparr>"

text \<open>
  The \<open>while\<close> loop of \<open>vnode_parsemsg\<close>. \<open>tab\<close> is the handler array
  (\<open>VNODE_TLV_MAX\<close> entries at every call site, \<open>None\<close> for \<open>NULL\<close>); the code
  indexes it with \<open>tlv->type\<close> unchecked, so a type past the array is a fault.
  \<open>offset < datalen < 2 ^ 32\<close> and \<open>vallen < 2 ^ 32\<close>, so the 64-bit \<open>offset\<close>
  never wraps.
\<close>

function parse_loop ::
  "'st vnode_tlvhandler option list \<Rightarrow> u8 list \<Rightarrow> nat \<Rightarrow> nat \<Rightarrow> int \<Rightarrow> 'st \<Rightarrow> fault + (int \<times> 'st)"
where
  "parse_loop tab m datalen offset tmp st =
     (if offset < datalen then
        (if tlv_vallen (tlv_at m offset) = 0
            \<or> offset + TLVSIZE + unat (tlv_vallen (tlv_at m offset)) > datalen
         then parse_loop tab m datalen (offset + TLVSIZE + unat (tlv_vallen (tlv_at m offset))) tmp st
         else if \<not> unat (tlv_type (tlv_at m offset)) < length tab
         then Inl (Handler_table_overrun (tlv_type (tlv_at m offset)))
         else (case tab ! unat (tlv_type (tlv_at m offset)) of
                 None \<Rightarrow>
                   parse_loop tab m datalen
                     (offset + TLVSIZE + unat (tlv_vallen (tlv_at m offset))) tmp st
               | Some h \<Rightarrow>
                   (if fst (h (tlv_at m offset) st) \<noteq> 0 then Inr (h (tlv_at m offset) st)
                    else parse_loop tab m datalen
                           (offset + TLVSIZE + unat (tlv_vallen (tlv_at m offset)))
                           (fst (h (tlv_at m offset) st)) (snd (h (tlv_at m offset) st)))))
      else Inr (tmp, st))"
  by pat_completeness auto
termination
  by (relation "measure (\<lambda>(tab, m, datalen, offset, tmp, st). datalen - offset)")
     (auto simp: TLVSIZE_def)

declare parse_loop.simps [simp del]

definition vnode_parsemsg ::
  "u8 list \<Rightarrow> 'st \<Rightarrow> 'st vnode_tlvhandler option list \<Rightarrow> fault + (int \<times> 'st)" where
  "vnode_parsemsg m st tab = parse_loop tab m (unat (hdr_datalen m)) 0 (-1) st"


text \<open>
  The \<open>ADDTLV\<close> macro of \<open>vnode_cmd.c\<close>, applied to a list of TLVs in turn:
  \<open>offset\<close> advances by each returned \<open>tlvlen\<close>, a negative return ends the
  sender with -1.
\<close>

fun ADDTLV ::
  "heap \<Rightarrow> vnode_msgbuf \<Rightarrow> nat \<Rightarrow> vnode_tlv list \<Rightarrow> fault + (int \<times> nat \<times> vnode_msgbuf)" where
  "ADDTLV heap mb offset [] = Inr (0, offset, mb)"
| "ADDTLV heap mb offset (t # ts) =
     (case vnode_addtlv heap mb offset (tlv_type t) (tlv_vallen t) (tlv_val t) of
        Inl f \<Rightarrow> Inl f
      | Inr (tlvlen, mb') \<Rightarrow>
          if tlvlen < 0 then Inr (-1, offset, mb')
          else ADDTLV heap mb' (offset + nat tlvlen) ts)"

section \<open>Sending and receiving datagrams (vnode\_msg.c)\<close>

text \<open>
  The \<open>msghdr\<close> handed to \<open>sendmsg(2)\<close>: the bytes of the single \<open>iovec\<close> and the
  three descriptors of the \<open>SCM_RIGHTS\<close> control message, \<open>None\<close> when
  \<open>msg_control\<close> stays \<open>NULL\<close>.
\<close>

record sendmsg_call =
  sm_fd :: int
  sm_iov :: "u8 list"
  sm_rights :: "(int \<times> int \<times> int) option"

definition vnode_sendmsg :: "int \<Rightarrow> vnode_msgbuf \<Rightarrow> fault + sendmsg_call" where
  "vnode_sendmsg fd mb =
     (if infd mb \<ge> 0 then
        (if \<not> outfd mb \<ge> 0 then Inl Assertion_failed
         else if \<not> errfd mb \<ge> 0 then Inl Assertion_failed
         else Inr \<lparr>sm_fd = fd, sm_iov = take (vnode_msglen mb) (msg mb),
                   sm_rights = Some (infd mb, outfd mb, errfd mb)\<rparr>)
      else Inr \<lparr>sm_fd = fd, sm_iov = take (vnode_msglen mb) (msg mb), sm_rights = None\<rparr>)"

text \<open>
  What \<open>recvmsg(2)\<close> delivers: an error with its \<open>errno\<close>, or the bytes of one
  datagram (none at end of file) with the descriptors of a first \<open>SCM_RIGHTS\<close>
  control message, if there is one.
\<close>

datatype recvmsg_result =
    Recv_error int
  | Recv_data "u8 list" "(int \<times> int \<times> int) option"

definition EAGAIN :: int where "EAGAIN = 11"

definition vnode_recvmsg :: "heap \<Rightarrow> recvmsg_result \<Rightarrow> vnode_msgbuf \<Rightarrow> int \<times> vnode_msgbuf" where
  "vnode_recvmsg heap rx mb0 =
     (let (rc, mb1) = (if msgbufsize mb0 < VNODE_MSGSIZMAX
                       then vnode_resizemsgbuf heap mb0 VNODE_MSGSIZMAX else (0, mb0))
      in if rc \<noteq> 0 then (-1, mb1)
         else
           (let mb2 = mb1\<lparr>infd := -1, outfd := -1, errfd := -1\<rparr>
            in case rx of
                 Recv_error errno \<Rightarrow> (if errno = EAGAIN then (0, mb2) else (-1, mb2))
               | Recv_data bytes rights \<Rightarrow>
                   (let got = take (msgbufsize mb2) bytes;
                        recvlen = length got;
                        mb3 = mb2\<lparr>msg := write_at (msg mb2) 0 got\<rparr>;
                        mb4 = (case rights of
                                 None \<Rightarrow> mb3
                               | Some (a, b, c) \<Rightarrow> mb3\<lparr>infd := a, outfd := b, errfd := c\<rparr>)
                    in if recvlen = 0 then (-1, mb2)
                       else if recvlen < HDRSIZE then (0, mb4)
                       else if hdr_type (msg mb4) = VNODE_MSG_NONE
                               \<or> hdr_type (msg mb4) \<ge> VNODE_MSG_MAX then (0, mb4)
                       else if recvlen - HDRSIZE \<noteq> unat (hdr_datalen (msg mb4)) then (0, mb4)
                       else (int recvlen, mb4))))"

section \<open>TLV values (vnode\_tlv.h)\<close>

definition tlv_string :: "vnode_tlv \<Rightarrow> int \<times> u8 list option" where
  "tlv_string tlv =
     (if byte_at (tlv_val tlv) (unat (tlv_vallen tlv - 1)) \<noteq> 0 then (-1, None)
      else (0, Some (tlv_val tlv)))"

definition tlv_int32 :: "vnode_tlv \<Rightarrow> int \<times> i32 option" where
  "tlv_int32 tlv =
     (if tlv_vallen tlv \<noteq> 4 then (-1, None) else (0, Some (get32 (tlv_val tlv) 0)))"

text \<open>A TLV holding an \<open>int32_t\<close>, as \<open>ADDTLV(t, sizeof(v), &v)\<close> writes it.\<close>

definition int32_tlv :: "u32 \<Rightarrow> i32 \<Rightarrow> vnode_tlv" where
  "int32_tlv ty v = \<lparr>tlv_type = ty, tlv_vallen = 4, tlv_val = put32 v\<rparr>"

text \<open>
  A C string is the memory up to its first NUL; \<open>ADDTLV(VNODE_TLV_CMDARG,
  strlen(s) + 1, s)\<close> copies it with the terminator.
\<close>

definition strlen :: "u8 list \<Rightarrow> nat" where
  "strlen s = length (takeWhile (\<lambda>b. b \<noteq> 0) s)"

text \<open>
  What a reader of the C string at a pointer sees of the memory there: the bytes up
  to the first NUL, with that terminator.
\<close>

definition cstring :: "u8 list \<Rightarrow> u8 list" where
  "cstring s = takeWhile (\<lambda>b. b \<noteq> 0) s @ [0]"

definition cmdarg_tlv :: "u8 list \<Rightarrow> vnode_tlv" where
  "cmdarg_tlv s = \<lparr>tlv_type = VNODE_TLV_CMDARG, tlv_vallen = of_nat (strlen s + 1),
                   tlv_val = takeWhile (\<lambda>b. b \<noteq> 0) s @ [0]\<rparr>"

section \<open>The environment of one call\<close>

text \<open>
  What the operating system answers during one call of a function of the daemon:
  the allocator for message buffers, \<open>malloc\<close> for the \<open>n\<close>-th structure the
  function allocates, the return value of \<open>sendmsg(2)\<close> for a given call, and the
  return value of \<open>fork(2)\<close> in the parent.
\<close>

record env =
  env_heap :: heap
  env_malloc :: "nat \<Rightarrow> bool"
  env_sendmsg :: "sendmsg_call \<Rightarrow> int"
  env_fork :: i32

text \<open>
  An environment in which nothing fails: memory is there (zero-filled), \<open>sendmsg\<close>
  sends the whole datagram, \<open>fork\<close> returns \<open>child\<close>.
\<close>

definition env_ok :: "i32 \<Rightarrow> env" where
  "env_ok child = \<lparr>env_heap = (\<lambda>n. Some (\<lambda>i. 0)), env_malloc = (\<lambda>n. True),
                    env_sendmsg = (\<lambda>call. int (length (sm_iov call))), env_fork = child\<rparr>"

text \<open>System calls and callbacks, in the order the code makes them.\<close>

datatype action =
    Sendmsg sendmsg_call
  | Close int
  | Kill i32 i32
  | Fork i32 "u8 list option" "u8 list list"
  | Cmddonecb nat i32 i32 i32 nat
  | Ioerrorcb

section \<open>Senders (vnode\_cmd.c)\<close>

text \<open>
  \<open>vnode_send_cmdreq\<close>, \<open>vnode_send_cmdreqack\<close>, \<open>vnode_send_cmdstatus\<close> and
  \<open>vnode_send_cmdsignal\<close> share one body: \<open>vnode_initmsgbuf\<close>, the \<open>ADDTLV\<close>
  sequence, the three descriptors and the header (\<open>build_with\<close>), then
  \<open>vnode_sendmsg\<close>, and 0 exactly when \<open>sendmsg\<close> returned \<open>vnode_msglen\<close>
  (\<open>send_with\<close>). \<open>hdr.datalen = offset\<close> truncates the \<open>size_t\<close> to 32 bits.
\<close>

definition build_with ::
  "heap \<Rightarrow> u32 \<Rightarrow> (heap \<Rightarrow> vnode_msgbuf \<Rightarrow> nat \<Rightarrow> fault + (int \<times> nat \<times> vnode_msgbuf))
     \<Rightarrow> int \<Rightarrow> int \<Rightarrow> int \<Rightarrow> fault + (int \<times> vnode_msgbuf)" where
  "build_with heap mtype addtlvs ifd ofd efd =
     (case vnode_initmsgbuf heap of (rc0, mb0) \<Rightarrow>
        if rc0 \<noteq> 0 then Inr (-1, mb0)
        else case addtlvs heap mb0 0 of
               Inl f \<Rightarrow> Inl f
             | Inr (rc1, offset, mb1) \<Rightarrow>
                 if rc1 \<noteq> 0 then Inr (-1, mb1)
                 else
                   (let mb2 = mb1\<lparr>infd := ifd, outfd := ofd, errfd := efd\<rparr>
                    in Inr (0, mb2\<lparr>msg := set_hdr (msg mb2) mtype (of_nat offset)\<rparr>)))"

definition send_with ::
  "env \<Rightarrow> int \<Rightarrow> u32 \<Rightarrow> (heap \<Rightarrow> vnode_msgbuf \<Rightarrow> nat \<Rightarrow> fault + (int \<times> nat \<times> vnode_msgbuf))
     \<Rightarrow> int \<Rightarrow> int \<Rightarrow> int \<Rightarrow> fault + (int \<times> action list)" where
  "send_with e fd mtype addtlvs ifd ofd efd =
     (case build_with (env_heap e) mtype addtlvs ifd ofd efd of
        Inl f \<Rightarrow> Inl f
      | Inr (rc, mb) \<Rightarrow>
          if rc \<noteq> 0 then Inr (-1, [])
          else case vnode_sendmsg fd mb of
                 Inl f \<Rightarrow> Inl f
               | Inr call \<Rightarrow>
                   Inr (if env_sendmsg e call = int (vnode_msglen mb) then 0 else -1,
                        [Sendmsg call]))"

definition send_tlvs ::
  "env \<Rightarrow> int \<Rightarrow> u32 \<Rightarrow> vnode_tlv list \<Rightarrow> int \<Rightarrow> int \<Rightarrow> int \<Rightarrow> fault + (int \<times> action list)" where
  "send_tlvs e fd mtype tlvs ifd ofd efd =
     send_with e fd mtype (\<lambda>heap mb offset. ADDTLV heap mb offset tlvs) ifd ofd efd"

text \<open>
  \<open>argv\<close> is an array of pointers, \<open>None\<close> for \<open>NULL\<close>; the loop
  \<open>for (cmdarg = argv; *cmdarg; cmdarg++) ADDTLV(VNODE_TLV_CMDARG, ...)\<close> stops at
  the first \<open>NULL\<close> and runs off the array when there is none.
\<close>

fun ADDTLV_argv ::
  "heap \<Rightarrow> vnode_msgbuf \<Rightarrow> nat \<Rightarrow> u8 list option list \<Rightarrow> fault + (int \<times> nat \<times> vnode_msgbuf)" where
  "ADDTLV_argv heap mb offset [] = Inl Argv_overrun"
| "ADDTLV_argv heap mb offset (None # rest) = Inr (0, offset, mb)"
| "ADDTLV_argv heap mb offset (Some s # rest) =
     (case ADDTLV heap mb offset [cmdarg_tlv s] of
        Inl f \<Rightarrow> Inl f
      | Inr (rc, offset', mb') \<Rightarrow>
          if rc \<noteq> 0 then Inr (rc, offset', mb') else ADDTLV_argv heap mb' offset' rest)"

definition vnode_send_cmdreq ::
  "env \<Rightarrow> int \<Rightarrow> i32 \<Rightarrow> u8 list option list \<Rightarrow> int \<Rightarrow> int \<Rightarrow> int \<Rightarrow> fault + (int \<times> action list)" where
  "vnode_send_cmdreq e fd cmdid argv ifd ofd efd =
     send_with e fd VNODE_MSG_CMDREQ
       (\<lambda>heap mb offset.
          case ADDTLV heap mb offset [int32_tlv VNODE_TLV_CMDID cmdid] of
            Inl f \<Rightarrow> Inl f
          | Inr (rc, offset', mb') \<Rightarrow>
              if rc \<noteq> 0 then Inr (rc, offset', mb') else ADDTLV_argv heap mb' offset' argv)
       ifd ofd efd"

definition vnode_send_cmdreqack :: "env \<Rightarrow> int \<Rightarrow> i32 \<Rightarrow> i32 \<Rightarrow> fault + (int \<times> action list)" where
  "vnode_send_cmdreqack e fd cmdid pid =
     send_tlvs e fd VNODE_MSG_CMDREQACK
       [int32_tlv VNODE_TLV_CMDID cmdid, int32_tlv VNODE_TLV_CMDPID pid] (-1) (-1) (-1)"

definition vnode_send_cmdstatus :: "env \<Rightarrow> int \<Rightarrow> i32 \<Rightarrow> i32 \<Rightarrow> fault + (int \<times> action list)" where
  "vnode_send_cmdstatus e fd cmdid status =
     send_tlvs e fd VNODE_MSG_CMDSTATUS
       [int32_tlv VNODE_TLV_CMDID cmdid, int32_tlv VNODE_TLV_CMDSTATUS status] (-1) (-1) (-1)"

definition vnode_send_cmdsignal :: "env \<Rightarrow> int \<Rightarrow> i32 \<Rightarrow> i32 \<Rightarrow> fault + (int \<times> action list)" where
  "vnode_send_cmdsignal e fd cmdid signum =
     send_tlvs e fd VNODE_MSG_CMDSIGNAL
       [int32_tlv VNODE_TLV_CMDID cmdid, int32_tlv VNODE_TLV_SIGNUM signum] (-1) (-1) (-1)"

section \<open>Command structures (vnode\_cmd.h)\<close>

text \<open>
  \<open>vnode_cmdreq_t\<close>: \<open>cmdarg\<close> is an array of \<open>VNODE_ARGMAX\<close> pointers, indexed
  below only under \<open>VNODE_ARGMAX\<close>; \<open>CMDREQ_INIT\<close> zeroes the structure.
\<close>

record vnode_cmdreq =
  rq_cmdid :: i32
  rq_infd :: int
  rq_outfd :: int
  rq_errfd :: int
  rq_cmdarg :: "nat \<Rightarrow> u8 list option"

definition CMDREQ_INIT :: vnode_cmdreq where
  "CMDREQ_INIT = \<lparr>rq_cmdid = 0, rq_infd = 0, rq_outfd = 0, rq_errfd = 0,
                  rq_cmdarg = (\<lambda>i. None)\<rparr>"

record vnode_cmdreqack =
  ack_cmdid :: i32
  ack_pid :: i32

definition CMDREQACK_INIT :: vnode_cmdreqack where
  "CMDREQACK_INIT = \<lparr>ack_cmdid = 0, ack_pid = -1\<rparr>"

record vnode_cmdstatus =
  st_cmdid :: i32
  st_status :: i32

definition CMDSTATUS_INIT :: vnode_cmdstatus where
  "CMDSTATUS_INIT = \<lparr>st_cmdid = 0, st_status = -1\<rparr>"

record vnode_cmdsignal =
  sg_cmdid :: i32
  sg_signum :: i32

definition CMDSIGNAL_INIT :: vnode_cmdsignal where
  "CMDSIGNAL_INIT = \<lparr>sg_cmdid = 0, sg_signum = 0\<rparr>"

text \<open>
  \<open>vnode_cmdentry_t\<close>, an element of a \<open>TAILQ\<close> (a list, head first). \<open>data\<close>
  points to the owning \<open>vnode_cliententry_t\<close> on the server and to the
  \<open>vnode_clientcmd_t\<close> on the client.
\<close>

record 'a vnode_cmdentry =
  cmdid :: i32
  pid :: i32
  status :: i32
  data :: 'a

text \<open>
  A handler array with designated initialisers: \<open>VNODE_TLV_MAX\<close> entries, \<open>NULL\<close>
  where none is given.
\<close>

definition tlvhandler_table ::
  "(u32 \<times> 'st vnode_tlvhandler) list \<Rightarrow> 'st vnode_tlvhandler option list" where
  "tlvhandler_table hs = map (\<lambda>i. map_of (map (\<lambda>(t, h). (unat t, h)) hs) i) [0..<VNODE_TLV_MAX]"

text \<open>\<open>TAILQ_FOREACH\<close> with \<open>break\<close> at the first match, then \<open>TAILQ_REMOVE\<close> of that node.\<close>

fun tailq_remove :: "('a \<Rightarrow> bool) \<Rightarrow> 'a list \<Rightarrow> 'a list" where
  "tailq_remove P [] = []"
| "tailq_remove P (x # xs) = (if P x then xs else x # tailq_remove P xs)"

text \<open>The same search, then an assignment through the pointer found.\<close>

fun tailq_update :: "('a \<Rightarrow> bool) \<Rightarrow> ('a \<Rightarrow> 'a) \<Rightarrow> 'a list \<Rightarrow> 'a list" where
  "tailq_update P f [] = []"
| "tailq_update P f (x # xs) = (if P x then f x # xs else x # tailq_update P f xs)"

section \<open>Server side (vnode\_cmd.c)\<close>

record vnode_server =
  srv_cmdlisthead :: "nat vnode_cmdentry list"

text \<open>\<open>vnode_cliententry_t\<close>: \<open>ce_self\<close> is the address of the entry itself.\<close>

record vnode_cliententry =
  ce_self :: nat
  clientfd :: int

definition tlv_cmdreq_cmdid :: "vnode_cmdreq vnode_tlvhandler" where
  "tlv_cmdreq_cmdid tlv rq =
     (case tlv_int32 tlv of
        (tmp, None) \<Rightarrow> (tmp, rq)
      | (tmp, Some v) \<Rightarrow> (tmp, rq\<lparr>rq_cmdid := v\<rparr>))"

text \<open>
  \<open>for (i = 0; i < CMDARGMAX; i++) if (cmdreq->cmdarg[i] == NULL) break;\<close>
  with \<open>CMDARGMAX = VNODE_ARGMAX\<close>, the value of \<open>i\<close> after the loop.
\<close>

function cmdarg_scan :: "(nat \<Rightarrow> u8 list option) \<Rightarrow> nat \<Rightarrow> nat" where
  "cmdarg_scan cmdarg i =
     (if i < VNODE_ARGMAX then (if cmdarg i = None then i else cmdarg_scan cmdarg (i + 1))
      else i)"
  by pat_completeness auto
termination
  by (relation "measure (\<lambda>(cmdarg, i). VNODE_ARGMAX - i)") auto

declare cmdarg_scan.simps [simp del]

definition tlv_cmdreq_cmdarg :: "vnode_cmdreq vnode_tlvhandler" where
  "tlv_cmdreq_cmdarg tlv rq =
     (let i = cmdarg_scan (rq_cmdarg rq) 0
      in if i = VNODE_ARGMAX then (-1, rq)
         else (case tlv_string tlv of
                 (tmp, None) \<Rightarrow> (tmp, rq)
               | (tmp, Some s) \<Rightarrow> (tmp, rq\<lparr>rq_cmdarg := (rq_cmdarg rq)(i := Some s)\<rparr>)))"

definition cmdreq_tlvhandler :: "vnode_cmdreq vnode_tlvhandler option list" where
  "cmdreq_tlvhandler =
     tlvhandler_table [(VNODE_TLV_CMDID, tlv_cmdreq_cmdid), (VNODE_TLV_CMDARG, tlv_cmdreq_cmdarg)]"

text \<open>
  What \<open>execvp(cmdreq->cmdarg[0], cmdreq->cmdarg)\<close> reads inside the array: the
  C strings at the pointers before the first \<open>NULL\<close>, each ending at its own
  first NUL whatever the TLV value holds after it. \<open>VNODE_ARGMAX\<close> of them means
  the array has no terminator.
\<close>

definition exec_argv :: "(nat \<Rightarrow> u8 list option) \<Rightarrow> u8 list list" where
  "exec_argv cmdarg =
     map (\<lambda>i. case cmdarg i of None \<Rightarrow> [] | Some s \<Rightarrow> cstring s)
       [0..<cmdarg_scan cmdarg 0]"

definition CLOSE :: "int \<Rightarrow> action list" where
  "CLOSE fd = (if fd \<ge> 0 then [Close fd] else [])"

text \<open>
  \<open>forkexec\<close> in the parent: \<open>fork\<close> returns \<open>env_fork\<close> (-1 on failure, the
  child's pid otherwise); the child, when there is one, runs \<open>execvp\<close> on the
  request's \<open>cmdarg\<close>; the parent closes its copies of the three descriptors.
\<close>

definition forkexec :: "env \<Rightarrow> vnode_cmdreq \<Rightarrow> i32 \<times> action list" where
  "forkexec e rq =
     (env_fork e,
      [Fork (env_fork e) (map_option cstring (rq_cmdarg rq 0)) (exec_argv (rq_cmdarg rq))]
      @ CLOSE (rq_infd rq) @ CLOSE (rq_outfd rq) @ CLOSE (rq_errfd rq))"

definition vnode_process_cmdreq ::
  "env \<Rightarrow> vnode_server \<Rightarrow> vnode_cliententry \<Rightarrow> vnode_cmdreq \<Rightarrow> fault + (vnode_server \<times> action list)"
where
  "vnode_process_cmdreq e srv client rq =
     (if \<not> env_malloc e 0 then Inr (srv, [])
      else
        (let cmd = \<lparr>cmdid = rq_cmdid rq, pid = fst (forkexec e rq), status = -1,
                    data = ce_self client\<rparr>
         in case vnode_send_cmdreqack e (clientfd client) (cmdid cmd) (pid cmd) of
              Inl f \<Rightarrow> Inl f
            | Inr (rc, sent) \<Rightarrow>
                if rc \<noteq> 0 then Inr (srv, snd (forkexec e rq) @ sent)
                else if pid cmd = -1 then Inr (srv, snd (forkexec e rq) @ sent)
                else Inr (srv\<lparr>srv_cmdlisthead := srv_cmdlisthead srv @ [cmd]\<rparr>,
                          snd (forkexec e rq) @ sent)))"

definition vnode_recv_cmdreq ::
  "env \<Rightarrow> vnode_server \<Rightarrow> vnode_cliententry \<Rightarrow> vnode_msgbuf \<Rightarrow> fault + (vnode_server \<times> action list)"
where
  "vnode_recv_cmdreq e srv client mb =
     (if hdr_type (msg mb) \<noteq> VNODE_MSG_CMDREQ then Inl Assertion_failed
      else case vnode_parsemsg (msg mb) CMDREQ_INIT cmdreq_tlvhandler of
             Inl f \<Rightarrow> Inl f
           | Inr (rc, rq) \<Rightarrow>
               if rc \<noteq> 0 then Inr (srv, [])
               else vnode_process_cmdreq e srv client
                      (rq\<lparr>rq_infd := infd mb, rq_outfd := outfd mb, rq_errfd := errfd mb\<rparr>))"

definition tlv_cmdsignal_cmdid :: "vnode_cmdsignal vnode_tlvhandler" where
  "tlv_cmdsignal_cmdid tlv sg =
     (case tlv_int32 tlv of
        (tmp, None) \<Rightarrow> (tmp, sg)
      | (tmp, Some v) \<Rightarrow> (tmp, sg\<lparr>sg_cmdid := v\<rparr>))"

definition tlv_cmdsignal_signum :: "vnode_cmdsignal vnode_tlvhandler" where
  "tlv_cmdsignal_signum tlv sg =
     (case tlv_int32 tlv of
        (tmp, None) \<Rightarrow> (tmp, sg)
      | (tmp, Some v) \<Rightarrow> (tmp, sg\<lparr>sg_signum := v\<rparr>))"

definition cmdsignal_tlvhandler :: "vnode_cmdsignal vnode_tlvhandler option list" where
  "cmdsignal_tlvhandler =
     tlvhandler_table [(VNODE_TLV_CMDID, tlv_cmdsignal_cmdid),
                       (VNODE_TLV_SIGNUM, tlv_cmdsignal_signum)]"

text \<open>
  The \<open>TAILQ_FOREACH\<close> of \<open>vnode_recv_cmdsignal\<close>: \<open>kill\<close> for the first entry
  with the requested \<open>cmdid\<close> whose \<open>data\<close> is the requesting client, then
  \<open>break\<close>. A failing \<open>kill\<close> is only logged.
\<close>

fun cmdsignal_loop :: "nat vnode_cmdentry list \<Rightarrow> vnode_cliententry \<Rightarrow> vnode_cmdsignal \<Rightarrow> action list"
where
  "cmdsignal_loop [] client sg = []"
| "cmdsignal_loop (cmd # rest) client sg =
     (if cmdid cmd = sg_cmdid sg \<and> data cmd = ce_self client
      then [Kill (pid cmd) (sg_signum sg)]
      else cmdsignal_loop rest client sg)"

definition vnode_recv_cmdsignal ::
  "vnode_server \<Rightarrow> vnode_cliententry \<Rightarrow> vnode_msgbuf \<Rightarrow> fault + (vnode_server \<times> action list)" where
  "vnode_recv_cmdsignal srv client mb =
     (if hdr_type (msg mb) \<noteq> VNODE_MSG_CMDSIGNAL then Inl Assertion_failed
      else case vnode_parsemsg (msg mb) CMDSIGNAL_INIT cmdsignal_tlvhandler of
             Inl f \<Rightarrow> Inl f
           | Inr (rc, sg) \<Rightarrow>
               if rc \<noteq> 0 then Inr (srv, [])
               else Inr (srv, cmdsignal_loop (srv_cmdlisthead srv) client sg))"

section \<open>Connections of the daemon (vnode\_server.c)\<close>

text \<open>
  The daemon between two callbacks of its event loop: the command queue of
  \<open>vnode_server_t\<close> (\<open>vd_server\<close>) and its client queue. A
  \<open>vnode_cliententry_t\<close> is the memory at the address \<open>malloc\<close> returned for it
  (\<open>ce_self\<close>), from \<open>vnode_server_newclient\<close> until \<open>vnode_server_delclient\<close>
  frees it; the buffer of its \<open>msgio\<close> is kept beside it. The entries of the command
  queue keep the address of their client in \<open>data\<close>, whatever becomes of the client.
\<close>

record vnoded_state =
  vd_server :: vnode_server
  vd_clientlisthead :: "(vnode_cliententry \<times> vnode_msgbuf) list"

text \<open>
  \<open>vnode_server_newclient\<close>. \<open>addr\<close> is what \<open>malloc\<close> answers: \<open>NULL\<close> or an
  address, which may be one that was freed before. \<open>vnode_msgiostart\<close> fails when
  \<open>vnode_initmsgbuf\<close> does; the function then frees the entry that
  \<open>TAILQ_INSERT_TAIL\<close> has just linked and returns \<open>NULL\<close>, leaving a queue that
  a list of live entries cannot hold: the model ends there with
  \<open>Freed_entry_linked\<close>. Otherwise the result is the pointer returned.
\<close>

definition vnode_server_newclient ::
  "heap \<Rightarrow> nat option \<Rightarrow> vnoded_state \<Rightarrow> int \<Rightarrow> fault + (vnoded_state \<times> nat option)" where
  "vnode_server_newclient heap addr vd fd =
     (case addr of
        None \<Rightarrow> Inr (vd, None)
      | Some a \<Rightarrow>
          (let client = \<lparr>ce_self = a, clientfd = fd\<rparr>
           in case vnode_initmsgbuf heap of (rc, mb) \<Rightarrow>
                if rc \<noteq> 0 then Inl Freed_entry_linked
                else Inr (vd\<lparr>vd_clientlisthead := vd_clientlisthead vd @ [(client, mb)]\<rparr>,
                          Some a)))"

text \<open>
  \<open>vnode_server_delclient\<close>: the entry leaves the client queue, its descriptor is
  closed and its memory freed. The command queue is not touched.
\<close>

definition vnode_server_delclient ::
  "vnoded_state \<Rightarrow> vnode_cliententry \<Rightarrow> vnoded_state \<times> action list" where
  "vnode_server_delclient vd client =
     (vd\<lparr>vd_clientlisthead :=
           tailq_remove (\<lambda>(c, mb). ce_self c = ce_self client) (vd_clientlisthead vd)\<rparr>,
      [Close (clientfd client)])"

text \<open>
  One turn of the \<open>for (;;)\<close> of \<open>vnode_server_cb\<close>, for a descriptor \<open>fd\<close> that
  \<open>accept\<close> returned: the descriptor is closed when no client was made.
\<close>

definition vnode_server_cb ::
  "heap \<Rightarrow> nat option \<Rightarrow> vnoded_state \<Rightarrow> int \<Rightarrow> fault + (vnoded_state \<times> action list)" where
  "vnode_server_cb heap addr vd fd =
     (case vnode_server_newclient heap addr vd fd of
        Inl f \<Rightarrow> Inl f
      | Inr (vd', None) \<Rightarrow> Inr (vd', [Close fd])
      | Inr (vd', Some a) \<Rightarrow> Inr (vd', []))"

text \<open>
  \<open>vnode_msg_cb\<close> on the socket of a client of the daemon, whose handler array has
  \<open>vnode_recv_cmdreq\<close> and \<open>vnode_recv_cmdsignal\<close> and \<open>NULL\<close> elsewhere. A negative
  result of \<open>vnode_recvmsg\<close> calls \<open>client_ioerror\<close>, which deletes the client.
\<close>

definition vnode_server_msg_cb ::
  "env \<Rightarrow> recvmsg_result \<Rightarrow> vnoded_state \<Rightarrow> vnode_cliententry \<Rightarrow> vnode_msgbuf
     \<Rightarrow> fault + (vnoded_state \<times> action list)" where
  "vnode_server_msg_cb e rx vd client mb0 =
     (case vnode_recvmsg (env_heap e) rx mb0 of (tmp, mb) \<Rightarrow>
        (let vd1 = vd\<lparr>vd_clientlisthead :=
                         tailq_update (\<lambda>(c, b). ce_self c = ce_self client) (\<lambda>(c, b). (c, mb))
                           (vd_clientlisthead vd)\<rparr>
         in if tmp = 0 then Inr (vd1, [])
            else if tmp < 0 then Inr (vnode_server_delclient vd1 client)
            else if hdr_type (msg mb) = VNODE_MSG_CMDREQ
            then (case vnode_recv_cmdreq e (vd_server vd1) client mb of
                    Inl f \<Rightarrow> Inl f
                  | Inr (srv, acts) \<Rightarrow> Inr (vd1\<lparr>vd_server := srv\<rparr>, acts))
            else if hdr_type (msg mb) = VNODE_MSG_CMDSIGNAL
            then (case vnode_recv_cmdsignal (vd_server vd1) client mb of
                    Inl f \<Rightarrow> Inl f
                  | Inr (srv, acts) \<Rightarrow> Inr (vd1\<lparr>vd_server := srv\<rparr>, acts))
            else Inr (vd1, [])))"

text \<open>
  \<open>vnode_child_cb\<close> for a child \<open>rpid\<close> that ended with \<open>rstatus\<close>: the first
  entry with that pid leaves the command queue and its status is sent to
  \<open>client->clientfd\<close>, read through the entry's \<open>data\<close>. That read is of freed
  memory when no client lives at the address.
\<close>

definition vnode_child_cb ::
  "env \<Rightarrow> vnoded_state \<Rightarrow> i32 \<Rightarrow> i32 \<Rightarrow> fault + (vnoded_state \<times> action list)" where
  "vnode_child_cb e vd rpid rstatus =
     (case find (\<lambda>cmd. pid cmd = rpid) (srv_cmdlisthead (vd_server vd)) of
        None \<Rightarrow> Inr (vd, [])
      | Some cmd \<Rightarrow>
          (case find (\<lambda>(c, mb). ce_self c = data cmd) (vd_clientlisthead vd) of
             None \<Rightarrow> Inl Use_after_free
           | Some (client, mb) \<Rightarrow>
               (case vnode_send_cmdstatus e (clientfd client) (cmdid cmd) rstatus of
                  Inl f \<Rightarrow> Inl f
                | Inr (rc, sent) \<Rightarrow>
                    Inr (vd\<lparr>vd_server := (vd_server vd)\<lparr>srv_cmdlisthead :=
                               tailq_remove (\<lambda>c. pid c = rpid)
                                 (srv_cmdlisthead (vd_server vd))\<rparr>\<rparr>,
                         sent))))"

text \<open>
  The life of the daemon: a connection is accepted (with the answer of \<open>malloc\<close>
  and the allocator of the message buffer), the socket of the client entry at an
  address becomes readable, or a child ends. \<open>malloc\<close> does not answer with the
  address of an entry that is in use, and the loop calls no watcher of an entry
  that is gone: an event that says so is none and changes nothing. A run gives the
  state reached and the actions of each event.
\<close>

datatype server_event =
    Sv_accept int "nat option" heap
  | Sv_readable nat env recvmsg_result
  | Sv_child env i32 i32

definition server_step ::
  "vnoded_state \<Rightarrow> server_event \<Rightarrow> fault + (vnoded_state \<times> action list)" where
  "server_step vd ev =
     (case ev of
        Sv_accept fd addr heap \<Rightarrow>
          (case find (\<lambda>(c, mb). Some (ce_self c) = addr) (vd_clientlisthead vd) of
             None \<Rightarrow> vnode_server_cb heap addr vd fd
           | Some used \<Rightarrow> Inr (vd, []))
      | Sv_readable a e rx \<Rightarrow>
          (case find (\<lambda>(c, mb). ce_self c = a) (vd_clientlisthead vd) of
             None \<Rightarrow> Inr (vd, [])
           | Some (client, mb) \<Rightarrow> vnode_server_msg_cb e rx vd client mb)
      | Sv_child e rpid rstatus \<Rightarrow> vnode_child_cb e vd rpid rstatus)"

fun server_run ::
  "vnoded_state \<Rightarrow> server_event list \<Rightarrow> fault + (vnoded_state \<times> action list list)" where
  "server_run vd [] = Inr (vd, [])"
| "server_run vd (ev # evs) =
     (case server_step vd ev of
        Inl f \<Rightarrow> Inl f
      | Inr (vd', acts) \<Rightarrow>
          (case server_run vd' evs of
             Inl f \<Rightarrow> Inl f
           | Inr (vd'', rest) \<Rightarrow> Inr (vd'', acts # rest)))"

section \<open>Client side (vnode\_client.h, vnode\_client.c)\<close>

text \<open>
  \<open>vnode_clientcmd_t\<close>: the completion callback (a function pointer, \<open>None\<close> for
  \<open>NULL\<close>) and the caller's opaque pointer.
\<close>

record vnode_clientcmd =
  cmddonecb :: "nat option"
  cc_data :: nat

record vnode_client =
  cmdlisthead :: "vnode_clientcmd vnode_cmdentry list"
  serverfd :: int
  msgio_msgbuf :: vnode_msgbuf
  next_cmdid :: i32

text \<open>
  \<open>vnode_client_cmdio_t\<close>: the \<open>iotype\<close> tag with the member of the union it
  selects; pipes are \<open>(fd[0], fd[1])\<close>. \<open>VCMD_IO_other\<close> is any tag outside the
  enumeration.
\<close>

datatype vnode_client_cmdio =
    VCMD_IO_NONE
  | VCMD_IO_FD int int int
  | VCMD_IO_PIPE "int \<times> int" "int \<times> int" "int \<times> int"
  | VCMD_IO_PTY int int
  | VCMD_IO_other nat

definition vnode_client_cmddone :: "vnode_clientcmd vnode_cmdentry \<Rightarrow> action list" where
  "vnode_client_cmddone cmd =
     (case cmddonecb (data cmd) of
        None \<Rightarrow> []
      | Some cb \<Rightarrow> [Cmddonecb cb (cmdid cmd) (pid cmd) (status cmd) (cc_data (data cmd))])"

definition tlv_cmdreqack_cmdid :: "vnode_cmdreqack vnode_tlvhandler" where
  "tlv_cmdreqack_cmdid tlv ack =
     (case tlv_int32 tlv of
        (tmp, None) \<Rightarrow> (tmp, ack)
      | (tmp, Some v) \<Rightarrow> (tmp, ack\<lparr>ack_cmdid := v\<rparr>))"

definition tlv_cmdreqack_cmdpid :: "vnode_cmdreqack vnode_tlvhandler" where
  "tlv_cmdreqack_cmdpid tlv ack =
     (case tlv_int32 tlv of
        (tmp, None) \<Rightarrow> (tmp, ack)
      | (tmp, Some v) \<Rightarrow> (tmp, ack\<lparr>ack_pid := v\<rparr>))"

definition cmdreqack_tlvhandler :: "vnode_cmdreqack vnode_tlvhandler option list" where
  "cmdreqack_tlvhandler =
     tlvhandler_table [(VNODE_TLV_CMDID, tlv_cmdreqack_cmdid),
                       (VNODE_TLV_CMDPID, tlv_cmdreqack_cmdpid)]"

definition vnode_clientrecv_cmdreqack :: "vnode_client \<Rightarrow> fault + (vnode_client \<times> action list)" where
  "vnode_clientrecv_cmdreqack client =
     (if hdr_type (msg (msgio_msgbuf client)) \<noteq> VNODE_MSG_CMDREQACK then Inl Assertion_failed
      else case vnode_parsemsg (msg (msgio_msgbuf client)) CMDREQACK_INIT cmdreqack_tlvhandler of
             Inl f \<Rightarrow> Inl f
           | Inr (rc, ack) \<Rightarrow>
               if rc \<noteq> 0 then Inr (client, [])
               else (case find (\<lambda>cmd. cmdid cmd = ack_cmdid ack) (cmdlisthead client) of
                       None \<Rightarrow> Inr (client, [])
                     | Some cmd \<Rightarrow>
                         if ack_pid ack = -1
                         then Inr (client\<lparr>cmdlisthead :=
                                      tailq_remove (\<lambda>cmd. cmdid cmd = ack_cmdid ack)
                                        (cmdlisthead client)\<rparr>,
                                   vnode_client_cmddone (cmd\<lparr>pid := ack_pid ack, status := -1\<rparr>))
                         else Inr (client\<lparr>cmdlisthead :=
                                      tailq_update (\<lambda>cmd. cmdid cmd = ack_cmdid ack)
                                        (\<lambda>cmd. cmd\<lparr>pid := ack_pid ack\<rparr>) (cmdlisthead client)\<rparr>,
                                   [])))"

definition tlv_cmdstatus_cmdid :: "vnode_cmdstatus vnode_tlvhandler" where
  "tlv_cmdstatus_cmdid tlv cs =
     (case tlv_int32 tlv of
        (tmp, None) \<Rightarrow> (tmp, cs)
      | (tmp, Some v) \<Rightarrow> (tmp, cs\<lparr>st_cmdid := v\<rparr>))"

definition tlv_cmdstatus_status :: "vnode_cmdstatus vnode_tlvhandler" where
  "tlv_cmdstatus_status tlv cs =
     (case tlv_int32 tlv of
        (tmp, None) \<Rightarrow> (tmp, cs)
      | (tmp, Some v) \<Rightarrow> (tmp, cs\<lparr>st_status := v\<rparr>))"

definition cmdstatus_tlvhandler :: "vnode_cmdstatus vnode_tlvhandler option list" where
  "cmdstatus_tlvhandler =
     tlvhandler_table [(VNODE_TLV_CMDID, tlv_cmdstatus_cmdid),
                       (VNODE_TLV_CMDSTATUS, tlv_cmdstatus_status)]"

definition vnode_clientrecv_cmdstatus :: "vnode_client \<Rightarrow> fault + (vnode_client \<times> action list)" where
  "vnode_clientrecv_cmdstatus client =
     (if hdr_type (msg (msgio_msgbuf client)) \<noteq> VNODE_MSG_CMDSTATUS then Inl Assertion_failed
      else case vnode_parsemsg (msg (msgio_msgbuf client)) CMDSTATUS_INIT cmdstatus_tlvhandler of
             Inl f \<Rightarrow> Inl f
           | Inr (rc, cs) \<Rightarrow>
               if rc \<noteq> 0 then Inr (client, [])
               else (case find (\<lambda>cmd. cmdid cmd = st_cmdid cs) (cmdlisthead client) of
                       None \<Rightarrow> Inr (client, [])
                     | Some cmd \<Rightarrow>
                         Inr (client\<lparr>cmdlisthead :=
                                 tailq_remove (\<lambda>cmd. cmdid cmd = st_cmdid cs)
                                   (cmdlisthead client)\<rparr>,
                              vnode_client_cmddone (cmd\<lparr>status := st_status cs\<rparr>))))"

text \<open>
  \<open>vnode_msg_cb\<close> on the client's socket, whose handler array has
  \<open>vnode_clientrecv_cmdreqack\<close> and \<open>vnode_clientrecv_cmdstatus\<close> and \<open>NULL\<close>
  elsewhere; \<open>vnode_recvmsg\<close> has checked the type against \<open>VNODE_MSG_MAX\<close>.
  A negative result stops the watcher and calls \<open>server_ioerror\<close>, which calls the
  client's \<open>ioerrorcb\<close>.
\<close>

definition vnode_msg_cb ::
  "heap \<Rightarrow> recvmsg_result \<Rightarrow> vnode_client \<Rightarrow> fault + (vnode_client \<times> action list)" where
  "vnode_msg_cb heap rx client =
     (case vnode_recvmsg heap rx (msgio_msgbuf client) of (tmp, mb) \<Rightarrow>
        if tmp = 0 then Inr (client\<lparr>msgio_msgbuf := mb\<rparr>, [])
        else if tmp < 0 then Inr (client\<lparr>msgio_msgbuf := mb\<rparr>, [Ioerrorcb])
        else if hdr_type (msg mb) = VNODE_MSG_CMDREQACK
        then vnode_clientrecv_cmdreqack (client\<lparr>msgio_msgbuf := mb\<rparr>)
        else if hdr_type (msg mb) = VNODE_MSG_CMDSTATUS
        then vnode_clientrecv_cmdstatus (client\<lparr>msgio_msgbuf := mb\<rparr>)
        else Inr (client\<lparr>msgio_msgbuf := mb\<rparr>, []))"

text \<open>
  The \<open>while (!TAILQ_EMPTY(...))\<close> loop of \<open>vnode_delclient\<close>: take the first
  entry off the list, set its status to -1, complete it.
\<close>

fun delclient_loop :: "vnode_clientcmd vnode_cmdentry list \<Rightarrow> action list" where
  "delclient_loop [] = []"
| "delclient_loop (cmd # rest) = vnode_client_cmddone (cmd\<lparr>status := -1\<rparr>) @ delclient_loop rest"

text \<open>The client as it is just before \<open>memset\<close> and \<open>free\<close>, and what was called.\<close>

definition vnode_delclient :: "vnode_client \<Rightarrow> vnode_client \<times> action list" where
  "vnode_delclient client =
     (client\<lparr>cmdlisthead := [], msgio_msgbuf := INIT_MSGBUF, serverfd := -1\<rparr>,
      CLOSE (serverfd client) @ delclient_loop (cmdlisthead client))"

definition vnode_setcmdio :: "vnode_client_cmdio \<Rightarrow> int \<times> int \<times> int \<times> int" where
  "vnode_setcmdio clientcmdio =
     (case clientcmdio of
        VCMD_IO_NONE \<Rightarrow> (0, -1, -1, -1)
      | VCMD_IO_FD i ou er \<Rightarrow> (0, i, ou, er)
      | VCMD_IO_PIPE i ou er \<Rightarrow> (0, fst i, snd ou, snd er)
      | VCMD_IO_PTY masterfd slavefd \<Rightarrow> (0, slavefd, slavefd, slavefd)
      | VCMD_IO_other t \<Rightarrow> (-1, 0, 0, 0))"

text \<open>
  The local \<open>CLOSE\<close> macro of \<open>vnode_cleanupcmdio\<close> closes a descriptor that is
  not negative and then stores -1 in the variable.
\<close>

definition vnode_cleanupcmdio :: "vnode_client_cmdio \<Rightarrow> vnode_client_cmdio \<times> action list" where
  "vnode_cleanupcmdio clientcmdio =
     (case clientcmdio of
        VCMD_IO_NONE \<Rightarrow> (clientcmdio, [])
      | VCMD_IO_FD i ou er \<Rightarrow> (clientcmdio, [])
      | VCMD_IO_PIPE i ou er \<Rightarrow>
          (VCMD_IO_PIPE (-1, snd i) (fst ou, -1) (fst er, -1),
           CLOSE (fst i) @ CLOSE (snd ou) @ CLOSE (snd er))
      | VCMD_IO_PTY masterfd slavefd \<Rightarrow> (VCMD_IO_PTY masterfd (-1), CLOSE slavefd)
      | VCMD_IO_other t \<Rightarrow> (clientcmdio, []))"

text \<open>
  \<open>vnode_client_cmdreq\<close>. \<open>argv[argc]\<close> is read unchecked, so an \<open>argc\<close>
  outside the array is a fault. \<open>client->cmdid++\<close> wraps at 32 bits; the return
  value is the entry's \<open>cmdid\<close> or -1.
\<close>

definition vnode_client_cmdreq ::
  "env \<Rightarrow> vnode_client \<Rightarrow> vnode_client_cmdio \<Rightarrow> nat option \<Rightarrow> nat \<Rightarrow> int \<Rightarrow> u8 list option list
     \<Rightarrow> fault + (int \<times> vnode_client \<times> vnode_client_cmdio \<times> action list)" where
  "vnode_client_cmdreq e client clientcmdio cb opaque argc argv =
     (if argc \<ge> int VNODE_ARGMAX then Inr (-1, client, clientcmdio, [])
      else if argc < 0 \<or> nat argc \<ge> length argv then Inl Argv_overrun
      else if argv ! nat argc \<noteq> None then Inr (-1, client, clientcmdio, [])
      else case vnode_setcmdio clientcmdio of (rc, cmdin, cmdout, cmderr) \<Rightarrow>
        if rc \<noteq> 0 then Inr (-1, client, clientcmdio, [])
        else if \<not> env_malloc e 0 then Inr (-1, client, clientcmdio, [])
        else if \<not> env_malloc e 1 then Inr (-1, client, clientcmdio, [])
        else
          (let client1 = (if sint (next_cmdid client) < 0 then client\<lparr>next_cmdid := 0\<rparr>
                          else client);
               cmd = \<lparr>cmdid = next_cmdid client1, pid = -1, status = -1,
                      data = \<lparr>cmddonecb = cb, cc_data = opaque\<rparr>\<rparr>;
               client2 = client1\<lparr>next_cmdid := next_cmdid client1 + 1,
                                 cmdlisthead := cmdlisthead client1 @ [cmd]\<rparr>
           in case vnode_send_cmdreq e (serverfd client2) (cmdid cmd) argv cmdin cmdout cmderr of
                Inl f \<Rightarrow> Inl f
              | Inr (rc, sent) \<Rightarrow>
                  if rc \<noteq> 0
                  then Inr (-1, client2\<lparr>cmdlisthead := butlast (cmdlisthead client2)\<rparr>,
                            clientcmdio, sent)
                  else Inr (sint (cmdid cmd), client2, fst (vnode_cleanupcmdio clientcmdio),
                            sent @ snd (vnode_cleanupcmdio clientcmdio))))"

text \<open>
  The life of a client: the embedder calls \<open>vnode_client_cmdreq\<close>, the event loop
  calls \<open>vnode_msg_cb\<close> when the socket is readable, in any order. A run collects
  the actions and, for each request, its return value with the callback and the
  opaque pointer registered.
\<close>

datatype client_event =
    Ev_cmdreq env vnode_client_cmdio "nat option" nat int "u8 list option list"
  | Ev_readable heap recvmsg_result

fun client_run ::
  "vnode_client \<Rightarrow> client_event list
     \<Rightarrow> fault + (vnode_client \<times> action list \<times> (int \<times> nat option \<times> nat) list)" where
  "client_run client [] = Inr (client, [], [])"
| "client_run client (Ev_cmdreq e io cb opaque argc argv # evs) =
     (case vnode_client_cmdreq e client io cb opaque argc argv of
        Inl f \<Rightarrow> Inl f
      | Inr (ret, client', io', acts) \<Rightarrow>
          (case client_run client' evs of
             Inl f \<Rightarrow> Inl f
           | Inr (client'', acts', rets) \<Rightarrow>
               Inr (client'', acts @ acts', (ret, cb, opaque) # rets)))"
| "client_run client (Ev_readable heap rx # evs) =
     (case vnode_msg_cb heap rx client of
        Inl f \<Rightarrow> Inl f
      | Inr (client', acts) \<Rightarrow>
          (case client_run client' evs of
             Inl f \<Rightarrow> Inl f
           | Inr (client'', acts', rets) \<Rightarrow> Inr (client'', acts @ acts', rets)))"

section \<open>The codec as the specification words it\<close>

text \<open>
  The specification's TLV walk: from \<open>offset\<close> to \<open>datalen\<close>, read \<open>{type,
  vallen}\<close>, advance by \<open>8 + vallen\<close>; a TLV with \<open>vallen = 0\<close> or one that would
  end past \<open>datalen\<close> is skipped and the walk continues. The result lists the TLVs
  that are not skipped.
\<close>

function tlv_walk :: "u8 list \<Rightarrow> nat \<Rightarrow> nat \<Rightarrow> vnode_tlv list" where
  "tlv_walk m datalen offset =
     (if offset < datalen then
        (if tlv_vallen (tlv_at m offset) = 0
            \<or> offset + 8 + unat (tlv_vallen (tlv_at m offset)) > datalen
         then tlv_walk m datalen (offset + 8 + unat (tlv_vallen (tlv_at m offset)))
         else tlv_at m offset # tlv_walk m datalen (offset + 8 + unat (tlv_vallen (tlv_at m offset))))
      else [])"
  by pat_completeness auto
termination
  by (relation "measure (\<lambda>(m, datalen, offset). datalen - offset)") auto

declare tlv_walk.simps [simp del]

text \<open>
  The specification's dispatch: each TLV goes to the handler its type selects, a
  type without handler is skipped, the first handler that signals an error ends the
  parse with its result; otherwise the result is that of the last handler called
  (\<open>tmp\<close> when none was). A type past the handler array is the fault of
  \<open>parse_loop\<close>.
\<close>

fun dispatch ::
  "'st vnode_tlvhandler option list \<Rightarrow> vnode_tlv list \<Rightarrow> int \<Rightarrow> 'st \<Rightarrow> fault + (int \<times> 'st)" where
  "dispatch tab [] tmp st = Inr (tmp, st)"
| "dispatch tab (t # ts) tmp st =
     (if \<not> unat (tlv_type t) < length tab then Inl (Handler_table_overrun (tlv_type t))
      else (case tab ! unat (tlv_type t) of
              None \<Rightarrow> dispatch tab ts tmp st
            | Some h \<Rightarrow>
                (if fst (h t st) \<noteq> 0 then Inr (h t st)
                 else dispatch tab ts (fst (h t st)) (snd (h t st)))))"

text \<open>The bytes of one TLV on the wire, and a TLV that can be sent and received.\<close>

definition tlv_bytes :: "vnode_tlv \<Rightarrow> u8 list" where
  "tlv_bytes t = put32 (tlv_type t) @ put32 (tlv_vallen t) @ tlv_val t"

definition tlv_ok :: "vnode_tlv \<Rightarrow> bool" where
  "tlv_ok t \<longleftrightarrow> tlv_vallen t \<noteq> 0 \<and> length (tlv_val t) = unat (tlv_vallen t)"

text \<open>
  The payload length of a list of TLVs, and the datagram the specification describes:
  the header \<open>{type, datalen}\<close>, then the TLVs with no padding.
\<close>

definition tlvs_len :: "vnode_tlv list \<Rightarrow> nat" where
  "tlvs_len ts = sum_list (map (\<lambda>t. TLVSIZE + unat (tlv_vallen t)) ts)"

definition datagram :: "u32 \<Rightarrow> vnode_tlv list \<Rightarrow> u8 list" where
  "datagram mtype ts = put32 mtype @ put32 (of_nat (tlvs_len ts)) @ concat (map tlv_bytes ts)"

text \<open>
  The specification's framing contract: a datagram is rejected when it is shorter than
  the 8-byte header, when its type is \<open>NONE\<close> or at least \<open>MAX\<close>, or when its payload
  length is not the received length less 8.
\<close>

definition wellformed_datagram :: "u8 list \<Rightarrow> bool" where
  "wellformed_datagram d \<longleftrightarrow>
     HDRSIZE \<le> length d \<and> hdr_type d \<noteq> VNODE_MSG_NONE \<and> hdr_type d < VNODE_MSG_MAX
     \<and> unat (hdr_datalen d) = length d - HDRSIZE"

text \<open>
  The specification's descriptor bundle of a \<open>CMDREQ\<close>: three descriptors, any of them
  -1 for "unused", or none at all.
\<close>

definition rights_reflect :: "sendmsg_call \<Rightarrow> int \<Rightarrow> int \<Rightarrow> int \<Rightarrow> bool" where
  "rights_reflect call i ou er \<longleftrightarrow>
     sm_rights call = Some (i, ou, er)
     \<or> (sm_rights call = None \<and> i = -1 \<and> ou = -1 \<and> er = -1)"

text \<open>
  A \<open>cmdarg\<close> array whose first entries point to \<open>vals\<close> and whose other entries
  are \<open>NULL\<close>.
\<close>

definition cmdarg_of :: "u8 list list \<Rightarrow> nat \<Rightarrow> u8 list option" where
  "cmdarg_of vals i = (if i < length vals then Some (vals ! i) else None)"

text \<open>
  Completions as the caller sees them, each a triple of callback, \<open>cmdid\<close> and
  opaque pointer: those that a list of actions delivered (\<open>dones\<close>), those that a
  run's successful requests with a callback are owed (\<open>submitted\<close>: the return value
  is the \<open>cmdid\<close>), and those that the entries of an in-flight table still wait for
  (\<open>pending\<close>).
\<close>

fun done_of :: "action \<Rightarrow> (nat \<times> i32 \<times> nat) list" where
  "done_of (Cmddonecb f cid p st opaque) = [(f, cid, opaque)]"
| "done_of a = []"

definition dones :: "action list \<Rightarrow> (nat \<times> i32 \<times> nat) list" where
  "dones acts = concat (map done_of acts)"

definition submitted :: "(int \<times> nat option \<times> nat) list \<Rightarrow> (nat \<times> i32 \<times> nat) list" where
  "submitted rets =
     concat (map (\<lambda>(ret, cb, opaque).
                    case cb of
                      None \<Rightarrow> []
                    | Some f \<Rightarrow> if 0 \<le> ret then [(f, of_int ret, opaque)] else []) rets)"

definition pending :: "vnode_clientcmd vnode_cmdentry list \<Rightarrow> (nat \<times> i32 \<times> nat) list" where
  "pending cmds =
     concat (map (\<lambda>cmd. case cmddonecb (data cmd) of
                          None \<Rightarrow> []
                        | Some f \<Rightarrow> [(f, cmdid cmd, cc_data (data cmd))]) cmds)"



section \<open>Bytes and words\<close>

lemma split_gen:
  fixes n k :: nat
  shows "n mod k + k * (n div k mod k) + (k * k) * (n div (k * k) mod k)
        + (k * k * k) * (n div (k * k * k) mod k) = n mod (k * (k * (k * k)))"
  by (simp add: mod_mult2_eq div_mult2_eq algebra_simps)

lemma split32:
  fixes n :: nat
  shows "n mod 256 + 256 * (n div 256 mod 256) + 65536 * (n div 65536 mod 256)
        + 16777216 * (n div 16777216 mod 256) = n mod 4294967296"
  using split_gen[of n 256] by simp

lemma length_put32 [simp]: "length (put32 w) = 4"
  by (simp add: put32_def)

lemma byte_at_append: "byte_at (pre @ xs) (length pre + i) = byte_at xs i"
  by (simp add: byte_at_def nth_append)

lemma get32_append: "get32 (pre @ xs) (length pre + i) = get32 xs i"
  unfolding get32_def
  using byte_at_append[of pre xs i] byte_at_append[of pre xs "i + 1"]
        byte_at_append[of pre xs "i + 2"] byte_at_append[of pre xs "i + 3"]
  by (simp only: add.assoc)

lemma get32_put32_0: "get32 (put32 w @ post) 0 = w"
proof -
  have "unat w mod 4294967296 = unat w"
    using unsigned_less[of w, where 'a=nat] by simp
  then show ?thesis
    using split32[of "unat w"]
    by (simp add: get32_def put32_def byte_at_def unat_of_nat)
qed

lemma get32_put32 [simp]: "get32 (pre @ put32 w @ post) (length pre) = w"
  using get32_append[of pre "put32 w @ post" 0] by (simp add: get32_put32_0)

section \<open>The parse loop is the specification's walk and dispatch\<close>

lemma parse_loop_walk:
  "parse_loop tab m datalen offset tmp st = dispatch tab (tlv_walk m datalen offset) tmp st"
proof (induction tab m datalen offset tmp st rule: parse_loop.induct)
  case (1 tab m datalen offset tmp st)
  show ?case
    apply (subst parse_loop.simps)
    apply (subst tlv_walk.simps)
    using 1
    by (auto simp: TLVSIZE_def split: option.splits)
qed

section \<open>Serialised TLVs are walked back\<close>

lemma length_tlv_bytes: "tlv_ok t \<Longrightarrow> length (tlv_bytes t) = 8 + unat (tlv_vallen t)"
  by (simp add: tlv_bytes_def tlv_ok_def)

lemma tlv_at_bytes:
  assumes "tlv_ok t" "length pre = 8 + offset"
  shows "tlv_at (pre @ tlv_bytes t @ post) offset = t"
proof -
  have ty: "get32 (pre @ tlv_bytes t @ post) (8 + offset) = tlv_type t"
    using get32_put32[of pre "tlv_type t" "put32 (tlv_vallen t) @ tlv_val t @ post"] assms
    by (simp add: tlv_bytes_def)
  have vl: "get32 (pre @ tlv_bytes t @ post) (8 + offset + 4) = tlv_vallen t"
    using get32_put32[of "pre @ put32 (tlv_type t)" "tlv_vallen t" "tlv_val t @ post"] assms
    by (simp add: tlv_bytes_def)
  have dr: "drop (8 + offset + 8) (pre @ tlv_bytes t @ post) = tlv_val t @ post"
    using assms by (simp add: tlv_bytes_def)
  show ?thesis
    unfolding tlv_at_def HDRSIZE_def TLVSIZE_def ty vl dr
    using assms(1) by (simp add: tlv_ok_def)
qed

lemma tlv_walk_bytes:
  assumes "\<forall>t \<in> set ts. tlv_ok t" "length pre = 8 + offset"
    "datalen = offset + length (concat (map tlv_bytes ts))"
  shows "tlv_walk (pre @ concat (map tlv_bytes ts) @ post) datalen offset = ts"
  using assms
proof (induction ts arbitrary: pre offset)
  case Nil
  then show ?case by (subst tlv_walk.simps) simp
next
  case (Cons t ts)
  have ok: "tlv_ok t" using Cons.prems by simp
  have at: "tlv_at (pre @ tlv_bytes t @ concat (map tlv_bytes ts) @ post) offset = t"
    using tlv_at_bytes[OF ok Cons.prems(2), of "concat (map tlv_bytes ts) @ post"] by simp
  have len: "length (tlv_bytes t) = 8 + unat (tlv_vallen t)" by (rule length_tlv_bytes[OF ok])
  have rest: "tlv_walk ((pre @ tlv_bytes t) @ concat (map tlv_bytes ts) @ post) datalen
                (offset + 8 + unat (tlv_vallen t)) = ts"
    by (rule Cons.IH) (use Cons.prems len in auto)
  show ?case
    apply (subst tlv_walk.simps)
    using ok rest Cons.prems(3) len
    by (simp add: at tlv_ok_def)
qed

lemma write_at_nil [simp]: "write_at m p [] = m"
  by (simp add: write_at_def)

lemma length_write_at: "p + length bs \<le> length m \<Longrightarrow> length (write_at m p bs) = length m"
  by (simp add: write_at_def)

lemma write_at_write_at:
  "p + length a + length b \<le> length m \<Longrightarrow>
   write_at (write_at m p a) (p + length a) b = write_at m p (a @ b)"
  by (simp add: write_at_def add_ac)

lemma vnode_addtlv_fits:
  assumes "tlv_ok t" "8 + offset + length (tlv_bytes t) \<le> length (msg mb)"
  shows "vnode_addtlv heap mb offset (tlv_type t) (tlv_vallen t) (tlv_val t)
         = Inr (int (length (tlv_bytes t)),
                mb\<lparr>msg := write_at (msg mb) (8 + offset) (tlv_bytes t)\<rparr>)"
  using assms
  by (simp add: vnode_addtlv_def Let_def HDRSIZE_def TLVSIZE_def tlv_ok_def tlv_bytes_def)

lemma ADDTLV_fits:
  assumes "\<forall>t \<in> set ts. tlv_ok t"
    "8 + offset + length (concat (map tlv_bytes ts)) \<le> length (msg mb)"
  shows "ADDTLV heap mb offset ts
         = Inr (0, offset + length (concat (map tlv_bytes ts)),
                mb\<lparr>msg := write_at (msg mb) (8 + offset) (concat (map tlv_bytes ts))\<rparr>)"
  using assms
proof (induction ts arbitrary: mb offset)
  case Nil
  then show ?case by simp
next
  case (Cons t ts)
  have ok: "tlv_ok t" using Cons.prems by simp
  have fit: "8 + offset + length (tlv_bytes t) \<le> length (msg mb)" using Cons.prems(2) by simp
  let ?mb = "mb\<lparr>msg := write_at (msg mb) (8 + offset) (tlv_bytes t)\<rparr>"
  have len: "length (msg ?mb) = length (msg mb)" using fit by (simp add: length_write_at)
  have ih: "ADDTLV heap ?mb (offset + length (tlv_bytes t)) ts
            = Inr (0, offset + length (tlv_bytes t) + length (concat (map tlv_bytes ts)),
                   ?mb\<lparr>msg := write_at (msg ?mb) (8 + (offset + length (tlv_bytes t)))
                                  (concat (map tlv_bytes ts))\<rparr>)"
    by (rule Cons.IH) (use Cons.prems len in auto)
  have ww: "write_at (write_at (msg mb) (8 + offset) (tlv_bytes t))
              (8 + offset + length (tlv_bytes t)) (concat (map tlv_bytes ts))
            = write_at (msg mb) (8 + offset) (tlv_bytes t @ concat (map tlv_bytes ts))"
    by (rule write_at_write_at) (use Cons.prems(2) in simp)
  show ?case
    using ih ww by (simp add: vnode_addtlv_fits[OF ok fit] add.assoc)
qed

lemma length_concat_tlv_bytes:
  "\<forall>t \<in> set ts. tlv_ok t \<Longrightarrow> length (concat (map tlv_bytes ts)) = tlvs_len ts"
  by (induction ts) (simp_all add: tlvs_len_def length_tlv_bytes TLVSIZE_def)

lemma length_datagram:
  "\<forall>t \<in> set ts. tlv_ok t \<Longrightarrow> length (datagram mtype ts) = 8 + tlvs_len ts"
  by (simp add: datagram_def length_concat_tlv_bytes)

lemma set_hdr_write_at:
  assumes "8 + length bytes \<le> length m0"
  shows "set_hdr (write_at m0 8 bytes) ty dl
         = put32 ty @ put32 dl @ bytes @ drop (8 + length bytes) m0"
  using assms by (simp add: set_hdr_def write_at_def)

lemma hdr_type_datagram [simp]: "hdr_type (datagram mtype ts @ post) = mtype"
  using get32_put32[of "[]" mtype] by (simp add: hdr_type_def datagram_def)

lemma hdr_datalen_datagram [simp]:
  "hdr_datalen (datagram mtype ts @ post) = of_nat (tlvs_len ts)"
  using get32_put32[of "put32 mtype" "of_nat (tlvs_len ts)"]
  by (simp add: hdr_datalen_def datagram_def)

lemma unat_datalen: "n < 2 ^ 32 \<Longrightarrow> unat (of_nat n :: u32) = n"
  by (simp add: unat_of_nat)

lemma vnode_parsemsg_walk:
  "vnode_parsemsg m st tab = dispatch tab (tlv_walk m (unat (hdr_datalen m)) 0) (-1) st"
  by (simp add: vnode_parsemsg_def parse_loop_walk)

lemma vnode_parsemsg_datagram:
  assumes "\<forall>t \<in> set ts. tlv_ok t" "tlvs_len ts < 2 ^ 32"
  shows "vnode_parsemsg (datagram mtype ts @ post) st tab = dispatch tab ts (-1) st"
proof -
  have "tlv_walk ((put32 mtype @ put32 (of_nat (tlvs_len ts))) @ concat (map tlv_bytes ts) @ post)
          (tlvs_len ts) 0 = ts"
    by (rule tlv_walk_bytes) (use assms in \<open>simp_all add: length_concat_tlv_bytes\<close>)
  then show ?thesis
    using assms(2) by (simp add: vnode_parsemsg_walk unat_datalen) (simp add: datagram_def)
qed

lemma build_with_ADDTLV:
  assumes "heap VNODE_MSGSIZMAX = Some junk" "\<forall>t \<in> set ts. tlv_ok t"
    "HDRSIZE + tlvs_len ts \<le> VNODE_MSGSIZMAX"
  shows "build_with heap mtype (\<lambda>h mb off. ADDTLV h mb off ts) ifd ofd efd
         = Inr (0, \<lparr>msg = datagram mtype ts
                          @ drop (8 + tlvs_len ts) (map junk [0..<VNODE_MSGSIZMAX]),
                    infd = ifd, outfd = ofd, errfd = efd\<rparr>)"
proof -
  let ?m0 = "map junk [0..<VNODE_MSGSIZMAX]"
  let ?mb0 = "INIT_MSGBUF\<lparr>msg := ?m0\<rparr>"
  have init: "vnode_initmsgbuf heap = (0, ?mb0)"
    using assms(1) by (simp add: vnode_initmsgbuf_def vnode_resizemsgbuf_def INIT_MSGBUF_def)
  have len: "length (concat (map tlv_bytes ts)) = tlvs_len ts"
    by (rule length_concat_tlv_bytes[OF assms(2)])
  have fit: "8 + 0 + length (concat (map tlv_bytes ts)) \<le> length (msg ?mb0)"
    using assms(3) len by (simp add: HDRSIZE_def)
  have add: "ADDTLV heap ?mb0 0 ts
             = Inr (0, 0 + length (concat (map tlv_bytes ts)),
                    ?mb0\<lparr>msg := write_at (msg ?mb0) (8 + 0) (concat (map tlv_bytes ts))\<rparr>)"
    by (rule ADDTLV_fits[OF assms(2) fit])
  have shape: "set_hdr (write_at ?m0 8 (concat (map tlv_bytes ts))) mtype (of_nat (tlvs_len ts))
               = put32 mtype @ put32 (of_nat (tlvs_len ts)) @ concat (map tlv_bytes ts)
                 @ drop (8 + length (concat (map tlv_bytes ts))) ?m0"
    by (rule set_hdr_write_at) (use fit in simp)
  show ?thesis
    using add shape len
    by (simp add: build_with_def init INIT_MSGBUF_def datagram_def)
qed


lemma vnode_msglen_datagram:
  "tlvs_len ts < 2 ^ 32 \<Longrightarrow> vnode_msglen (mb\<lparr>msg := datagram mtype ts @ post\<rparr>) = 8 + tlvs_len ts"
  by (simp add: vnode_msglen_def HDRSIZE_def unat_datalen)




lemma byte_at_take: "j < n \<Longrightarrow> byte_at (take n m) j = byte_at m j"
  by (simp add: byte_at_def)

lemma get32_take: "i + 4 \<le> n \<Longrightarrow> get32 (take n m) i = get32 m i"
  by (simp add: get32_def byte_at_take)

lemma get32_cong:
  assumes "take n m = take n m'" "i + 4 \<le> n"
  shows "get32 m i = get32 m' i"
  using get32_take[OF assms(2), of m] get32_take[OF assms(2), of m'] assms(1) by simp

lemma take_drop_cong:
  assumes "take n m = take n m'" "k + v \<le> n"
  shows "take v (drop k m) = take v (drop k m')"
proof -
  have "take v (drop k (take n x)) = take v (drop k x)" for x :: "'a list"
    using assms(2) by (simp add: drop_take min_def)
  then show ?thesis using assms(1) by metis
qed

lemma tlv_walk_past: "datalen \<le> offset \<Longrightarrow> tlv_walk m datalen offset = []"
  by (subst tlv_walk.simps) simp

lemma tlv_walk_junk:
  assumes "take (8 + datalen) m = take (8 + datalen) m'"
  shows "tlv_walk m datalen offset = tlv_walk m' datalen offset"
  using assms
proof (induction m datalen offset rule: tlv_walk.induct)
  case (1 m datalen offset)
  show ?case
  proof (cases "offset < datalen")
    case False
    then show ?thesis by (simp add: tlv_walk_past)
  next
    case lt: True
    show ?thesis
    proof (cases "offset + 8 \<le> datalen")
      case False
      have a: "tlv_walk m datalen offset = []"
        apply (subst tlv_walk.simps)
        using False lt by (simp add: tlv_walk_past)
      have b: "tlv_walk m' datalen offset = []"
        apply (subst tlv_walk.simps)
        using False lt by (simp add: tlv_walk_past)
      show ?thesis by (simp add: a b)
    next
      case True
      have ty: "tlv_type (tlv_at m offset) = tlv_type (tlv_at m' offset)"
        using get32_cong[OF "1.prems", of "8 + offset"] True
        by (simp add: tlv_at_def HDRSIZE_def)
      have vl: "tlv_vallen (tlv_at m offset) = tlv_vallen (tlv_at m' offset)"
        using get32_cong[OF "1.prems", of "8 + offset + 4"] True
        by (simp add: tlv_at_def HDRSIZE_def)
      show ?thesis
      proof (cases "tlv_vallen (tlv_at m offset) = 0
                    \<or> offset + 8 + unat (tlv_vallen (tlv_at m offset)) > datalen")
        case skip: True
        have "tlv_walk m datalen (offset + 8 + unat (tlv_vallen (tlv_at m offset)))
              = tlv_walk m' datalen (offset + 8 + unat (tlv_vallen (tlv_at m offset)))"
          using "1.IH"(1)[OF lt skip "1.prems"] .
        moreover have "tlv_walk m datalen offset
              = tlv_walk m datalen (offset + 8 + unat (tlv_vallen (tlv_at m offset)))"
          by (subst tlv_walk.simps) (use skip lt in auto)
        moreover have "tlv_walk m' datalen offset
              = tlv_walk m' datalen (offset + 8 + unat (tlv_vallen (tlv_at m offset)))"
          by (subst tlv_walk.simps) (use skip lt vl in auto)
        ultimately show ?thesis by simp
      next
        case keep: False
        have va: "tlv_val (tlv_at m offset) = tlv_val (tlv_at m' offset)"
          using take_drop_cong[OF "1.prems", of "8 + offset + 8" "unat (tlv_vallen (tlv_at m offset))"]
            keep vl
          by (simp add: tlv_at_def HDRSIZE_def TLVSIZE_def)
        have at: "tlv_at m offset = tlv_at m' offset"
          using ty vl va by (simp add: tlv_at_def)
        have "tlv_walk m datalen (offset + 8 + unat (tlv_vallen (tlv_at m offset)))
              = tlv_walk m' datalen (offset + 8 + unat (tlv_vallen (tlv_at m offset)))"
          using "1.IH"(2)[OF lt keep "1.prems"] .
        moreover have "tlv_walk m datalen offset
              = tlv_at m offset
                # tlv_walk m datalen (offset + 8 + unat (tlv_vallen (tlv_at m offset)))"
          by (subst tlv_walk.simps) (use keep lt in auto)
        moreover have "tlv_walk m' datalen offset
              = tlv_at m offset
                # tlv_walk m' datalen (offset + 8 + unat (tlv_vallen (tlv_at m offset)))"
          by (subst tlv_walk.simps) (use keep lt at in auto)
        ultimately show ?thesis by simp
      qed
    qed
  qed
qed

lemma vnode_parsemsg_junk:
  assumes "take (8 + unat (hdr_datalen m)) m = take (8 + unat (hdr_datalen m)) m'"
  shows "vnode_parsemsg m st tab = vnode_parsemsg m' st tab"
proof -
  have "hdr_datalen m = hdr_datalen m'"
    using get32_cong[OF assms, of 4] by (simp add: hdr_datalen_def)
  then show ?thesis
    using tlv_walk_junk[OF assms, of 0] by (simp add: vnode_parsemsg_walk)
qed

text \<open>
  C4. \<open>vnode_parsemsg\<close> indexes the handler array with the TLV's type unchecked: for
  a payload holding one well-formed TLV of type 9 (\<open>VNODE_TLV_MAX\<close>, a type with no
  handler) the read \<open>tlvhandler[9]\<close> is past the nine entries of the server's
  \<open>cmdreq_tlvhandler\<close>, where the claim has the TLV skipped.
\<close>

theorem parsemsg_type_past_table:
  "vnode_parsemsg (datagram VNODE_MSG_CMDREQ [\<lparr>tlv_type = 9, tlv_vallen = 1, tlv_val = [0]\<rparr>])
     CMDREQ_INIT cmdreq_tlvhandler = Inl (Handler_table_overrun 9)"
proof -
  have "vnode_parsemsg (datagram VNODE_MSG_CMDREQ [\<lparr>tlv_type = 9, tlv_vallen = 1, tlv_val = [0]\<rparr>] @ [])
          CMDREQ_INIT cmdreq_tlvhandler
        = dispatch cmdreq_tlvhandler [\<lparr>tlv_type = 9, tlv_vallen = 1, tlv_val = [0]\<rparr>] (-1) CMDREQ_INIT"
    by (rule vnode_parsemsg_datagram) (simp_all add: tlv_ok_def tlvs_len_def TLVSIZE_def)
  then show ?thesis
    by (simp add: cmdreq_tlvhandler_def tlvhandler_table_def VNODE_TLV_MAX_def)
qed

lemma get32_prefix: "i + 4 \<le> length d \<Longrightarrow> get32 (d @ rest) i = get32 d i"
  using get32_cong[of "length d" "d @ rest" d i] by simp

lemma write_at_0: "length d \<le> length m \<Longrightarrow> write_at m 0 d = d @ drop (length d) m"
  by (simp add: write_at_def)

lemma recv_buffer:
  assumes "VNODE_MSGSIZMAX \<le> msgbufsize mb \<or> heap VNODE_MSGSIZMAX \<noteq> None"
  shows "\<exists>mb1. (if msgbufsize mb < VNODE_MSGSIZMAX
                then vnode_resizemsgbuf heap mb VNODE_MSGSIZMAX else (0, mb)) = (0, mb1)
              \<and> msgbufsize mb1 = max (msgbufsize mb) VNODE_MSGSIZMAX"
  using assms by (auto simp: vnode_resizemsgbuf_def max_def)

lemma msg_rights [simp]:
  "msg (case rights of None \<Rightarrow> mb | Some (a, b, c) \<Rightarrow> mb\<lparr>infd := a, outfd := b, errfd := c\<rparr>)
   = msg mb"
  by (simp split: option.splits)

lemma vnode_recvmsg_data:
  assumes "(if msgbufsize mb < VNODE_MSGSIZMAX
            then vnode_resizemsgbuf heap mb VNODE_MSGSIZMAX else (0, mb)) = (0, mb1)"
    and "msgbufsize mb1 = n" and "take n bytes = d" and "write_at (msg mb1) 0 d = m"
  shows "fst (vnode_recvmsg heap (Recv_data bytes rights) mb)
         = (if d = [] then -1
            else if length d < HDRSIZE then 0
            else if hdr_type m = VNODE_MSG_NONE \<or> hdr_type m \<ge> VNODE_MSG_MAX then 0
            else if length d - HDRSIZE \<noteq> unat (hdr_datalen m) then 0
            else int (length d))"
  unfolding vnode_recvmsg_def assms(1)
  by (simp add: Let_def assms(2,3,4) del: length_take take_eq_Nil take_eq_Nil2)

lemma vnode_recvmsg_char:
  assumes "VNODE_MSGSIZMAX \<le> msgbufsize mb \<or> heap VNODE_MSGSIZMAX \<noteq> None"
  shows "fst (vnode_recvmsg heap rx mb) =
           (case rx of
              Recv_error errno \<Rightarrow> if errno = EAGAIN then 0 else -1
            | Recv_data bytes rights \<Rightarrow>
                if take (max (msgbufsize mb) VNODE_MSGSIZMAX) bytes = [] then -1
                else if wellformed_datagram (take (max (msgbufsize mb) VNODE_MSGSIZMAX) bytes)
                then int (length (take (max (msgbufsize mb) VNODE_MSGSIZMAX) bytes))
                else 0)"
proof -
  obtain mb1 where r: "(if msgbufsize mb < VNODE_MSGSIZMAX
                then vnode_resizemsgbuf heap mb VNODE_MSGSIZMAX else (0, mb)) = (0, mb1)"
    and l: "msgbufsize mb1 = max (msgbufsize mb) VNODE_MSGSIZMAX"
    using recv_buffer[of mb heap] assms by blast
  show ?thesis
  proof (cases rx)
    case (Recv_error errno)
    then show ?thesis unfolding vnode_recvmsg_def r by (simp add: Let_def)
  next
    case (Recv_data bytes rights)
    define d where "d = take (max (msgbufsize mb) VNODE_MSGSIZMAX) bytes"
    define m where "m = d @ drop (length d) (msg mb1)"
    have ld: "length d \<le> length (msg mb1)" by (simp add: d_def l)
    have w: "write_at (msg mb1) 0 d = m"
      using write_at_0[OF ld] by (simp add: m_def)
    have ty: "HDRSIZE \<le> length d \<Longrightarrow> hdr_type m = hdr_type d"
      unfolding hdr_type_def HDRSIZE_def m_def by (rule get32_prefix) simp
    have dl: "HDRSIZE \<le> length d \<Longrightarrow> hdr_datalen m = hdr_datalen d"
      unfolding hdr_datalen_def HDRSIZE_def m_def by (rule get32_prefix) simp
    have "fst (vnode_recvmsg heap (Recv_data bytes rights) mb)
         = (if d = [] then -1
            else if length d < HDRSIZE then 0
            else if hdr_type m = VNODE_MSG_NONE \<or> hdr_type m \<ge> VNODE_MSG_MAX then 0
            else if length d - HDRSIZE \<noteq> unat (hdr_datalen m) then 0
            else int (length d))"
      by (rule vnode_recvmsg_data[OF r l d_def[symmetric] w])
    also have "\<dots> = (if d = [] then -1 else if wellformed_datagram d then int (length d) else 0)"
      using ty dl by (auto simp: wellformed_datagram_def not_le not_less)
    finally show ?thesis by (simp add: Recv_data d_def)
  qed
qed

lemma vnode_recvmsg_buf:
  assumes "(if msgbufsize mb < VNODE_MSGSIZMAX
            then vnode_resizemsgbuf heap mb VNODE_MSGSIZMAX else (0, mb)) = (0, mb1)"
    and "msgbufsize mb1 = n" and "take n bytes = d" and "write_at (msg mb1) 0 d = m"
    and "d \<noteq> []"
  shows "msg (snd (vnode_recvmsg heap (Recv_data bytes rights) mb)) = m"
  unfolding vnode_recvmsg_def assms(1)
  using assms(5)
  by (simp add: Let_def assms(2,3,4) del: length_take take_eq_Nil take_eq_Nil2)

text \<open>
  C5. \<open>vnode_recvmsg\<close>, when its buffer of \<open>VNODE_MSGSIZMAX\<close> bytes is there or can
  be allocated, with \<open>d\<close> the datagram as it lands in the buffer: the result is 0 for
  \<open>EAGAIN\<close> and for a datagram that is not empty and not well formed (shorter than the
  header, type \<open>NONE\<close> or at least \<open>MAX\<close>, or a payload length that is not the received
  length less 8); it is negative exactly when the peer closed (no bytes) or
  \<open>recvmsg\<close> failed with another error; a positive result is the byte count of a
  well-formed datagram, which then starts the buffer.
\<close>

theorem vnode_recvmsg_codes:
  assumes "VNODE_MSGSIZMAX \<le> msgbufsize mb \<or> heap VNODE_MSGSIZMAX \<noteq> None"
  shows "fst (vnode_recvmsg heap rx mb) =
           (case rx of
              Recv_error errno \<Rightarrow> if errno = EAGAIN then 0 else -1
            | Recv_data bytes rights \<Rightarrow>
                if take (max (msgbufsize mb) VNODE_MSGSIZMAX) bytes = [] then -1
                else if wellformed_datagram (take (max (msgbufsize mb) VNODE_MSGSIZMAX) bytes)
                then int (length (take (max (msgbufsize mb) VNODE_MSGSIZMAX) bytes))
                else 0)
       \<and> (fst (vnode_recvmsg heap rx mb) < 0 \<longleftrightarrow>
            (\<exists>rights. rx = Recv_data [] rights) \<or> (\<exists>errno. rx = Recv_error errno \<and> errno \<noteq> EAGAIN))
       \<and> (0 < fst (vnode_recvmsg heap rx mb) \<longrightarrow>
            (\<exists>bytes rights. rx = Recv_data bytes rights
               \<and> wellformed_datagram (take (max (msgbufsize mb) VNODE_MSGSIZMAX) bytes)
               \<and> take (nat (fst (vnode_recvmsg heap rx mb))) (msg (snd (vnode_recvmsg heap rx mb)))
                   = take (max (msgbufsize mb) VNODE_MSGSIZMAX) bytes))"
proof -
  have c: "fst (vnode_recvmsg heap rx mb) =
           (case rx of
              Recv_error errno \<Rightarrow> if errno = EAGAIN then 0 else -1
            | Recv_data bytes rights \<Rightarrow>
                if take (max (msgbufsize mb) VNODE_MSGSIZMAX) bytes = [] then -1
                else if wellformed_datagram (take (max (msgbufsize mb) VNODE_MSGSIZMAX) bytes)
                then int (length (take (max (msgbufsize mb) VNODE_MSGSIZMAX) bytes))
                else 0)"
    using vnode_recvmsg_char[of mb heap rx] assms by simp
  have pos: "0 < max (msgbufsize mb) VNODE_MSGSIZMAX" by (simp add: VNODE_MSGSIZMAX_def)
  have neg: "fst (vnode_recvmsg heap rx mb) < 0 \<longleftrightarrow>
            (\<exists>rights. rx = Recv_data [] rights) \<or> (\<exists>errno. rx = Recv_error errno \<and> errno \<noteq> EAGAIN)"
    using pos c by (cases rx) (auto split: if_splits)
  have buf: "\<exists>bytes rights. rx = Recv_data bytes rights
               \<and> wellformed_datagram (take (max (msgbufsize mb) VNODE_MSGSIZMAX) bytes)
               \<and> take (nat (fst (vnode_recvmsg heap rx mb))) (msg (snd (vnode_recvmsg heap rx mb)))
                   = take (max (msgbufsize mb) VNODE_MSGSIZMAX) bytes"
    if p: "0 < fst (vnode_recvmsg heap rx mb)"
  proof (cases rx)
    case (Recv_error errno)
    then show ?thesis using p c by (simp split: if_splits)
  next
    case (Recv_data bytes rights)
    define d where "d = take (max (msgbufsize mb) VNODE_MSGSIZMAX) bytes"
    obtain mb1 where r: "(if msgbufsize mb < VNODE_MSGSIZMAX
                then vnode_resizemsgbuf heap mb VNODE_MSGSIZMAX else (0, mb)) = (0, mb1)"
      and l: "msgbufsize mb1 = max (msgbufsize mb) VNODE_MSGSIZMAX"
      using recv_buffer[of mb heap] assms by blast
    have ld: "length d \<le> length (msg mb1)" by (simp add: d_def l)
    have w: "write_at (msg mb1) 0 d = d @ drop (length d) (msg mb1)"
      by (rule write_at_0[OF ld])
    have ne: "d \<noteq> []" and wf: "wellformed_datagram d"
      and len: "fst (vnode_recvmsg heap rx mb) = int (length d)"
      using p c by (auto simp: Recv_data d_def split: if_splits)
    have "msg (snd (vnode_recvmsg heap (Recv_data bytes rights) mb)) = d @ drop (length d) (msg mb1)"
      by (rule vnode_recvmsg_buf[OF r l d_def[symmetric] w ne])
    then show ?thesis
      using wf len by (simp add: Recv_data d_def[symmetric])
  qed
  show ?thesis using c neg buf by blast
qed

theorem vnode_recvmsg_codes_witness:
  "VNODE_MSGSIZMAX \<le> msgbufsize (INIT_MSGBUF\<lparr>msg := replicate VNODE_MSGSIZMAX 0\<rparr>)
   \<and> fst (vnode_recvmsg (\<lambda>n. None) (Recv_data [1, 0, 0, 0, 0, 0, 0] None)
            (INIT_MSGBUF\<lparr>msg := replicate VNODE_MSGSIZMAX 0\<rparr>)) = 0
   \<and> fst (vnode_recvmsg (\<lambda>n. None) (Recv_data [4, 0, 0, 0, 0, 0, 0, 0] None)
            (INIT_MSGBUF\<lparr>msg := replicate VNODE_MSGSIZMAX 0\<rparr>)) = 8
   \<and> fst (vnode_recvmsg (\<lambda>n. None) (Recv_data [] None)
            (INIT_MSGBUF\<lparr>msg := replicate VNODE_MSGSIZMAX 0\<rparr>)) = -1"
proof -
  let ?mb = "INIT_MSGBUF\<lparr>msg := replicate VNODE_MSGSIZMAX 0\<rparr>"
  have h: "VNODE_MSGSIZMAX \<le> msgbufsize ?mb \<or> (\<lambda>n. None :: (nat \<Rightarrow> u8) option) VNODE_MSGSIZMAX \<noteq> None"
    by simp
  have m: "max (msgbufsize ?mb) VNODE_MSGSIZMAX = 65535" by (simp add: VNODE_MSGSIZMAX_def)
  have a: "\<not> wellformed_datagram [1, 0, 0, 0, 0, 0, 0]"
    by (simp add: wellformed_datagram_def HDRSIZE_def)
  have b: "wellformed_datagram [4, 0, 0, 0, 0, 0, 0, 0]"
    by (simp add: wellformed_datagram_def HDRSIZE_def hdr_type_def hdr_datalen_def get32_def
        byte_at_def VNODE_MSG_NONE_def VNODE_MSG_MAX_def)
  show ?thesis
    using vnode_recvmsg_codes[where mb = ?mb and heap = "\<lambda>n. None"
            and rx = "Recv_data [1, 0, 0, 0, 0, 0, 0] None"]
      vnode_recvmsg_codes[where mb = ?mb and heap = "\<lambda>n. None"
            and rx = "Recv_data [4, 0, 0, 0, 0, 0, 0, 0] None"]
      vnode_recvmsg_codes[where mb = ?mb and heap = "\<lambda>n. None"
            and rx = "Recv_data [] None"]
      a b
    by (simp add: m del: length_replicate) (simp add: VNODE_MSGSIZMAX_def)
qed

lemma build_with_fds:
  assumes "build_with heap mtype addtlvs ifd ofd efd = Inr (0, mb)"
  shows "infd mb = ifd \<and> outfd mb = ofd \<and> errfd mb = efd"
  using assms
  by (auto simp: build_with_def Let_def split: prod.splits sum.splits if_splits)

lemma vnode_sendmsg_cases:
  "vnode_sendmsg fd mb =
     (if 0 \<le> infd mb \<and> 0 \<le> outfd mb \<and> 0 \<le> errfd mb
      then Inr \<lparr>sm_fd = fd, sm_iov = take (vnode_msglen mb) (msg mb),
                sm_rights = Some (infd mb, outfd mb, errfd mb)\<rparr>
      else if 0 \<le> infd mb then Inl Assertion_failed
      else Inr \<lparr>sm_fd = fd, sm_iov = take (vnode_msglen mb) (msg mb), sm_rights = None\<rparr>)"
  by (simp add: vnode_sendmsg_def)

lemma send_with_rights:
  assumes "send_with e fd mtype addtlvs ifd ofd efd = Inr (rc, acts)"
  shows "acts = []
         \<or> (\<exists>call. acts = [Sendmsg call]
               \<and> sm_rights call = (if 0 \<le> ifd then Some (ifd, ofd, efd) else None)
               \<and> (if 0 \<le> ifd then 0 \<le> ofd \<and> 0 \<le> efd else True))"
proof (cases "build_with (env_heap e) mtype addtlvs ifd ofd efd")
  case (Inl f)
  then show ?thesis using assms by (simp add: send_with_def)
next
  case (Inr p)
  obtain rc0 mb where p: "p = (rc0, mb)" by (cases p)
  show ?thesis
  proof (cases "rc0 = 0")
    case False
    then show ?thesis using assms Inr p by (simp add: send_with_def)
  next
    case True
    have fds: "infd mb = ifd \<and> outfd mb = ofd \<and> errfd mb = efd"
      using build_with_fds[of "env_heap e" mtype addtlvs ifd ofd efd mb] Inr p True by simp
    show ?thesis
      using assms Inr p True fds
      by (auto simp: send_with_def vnode_sendmsg_cases split: if_splits)
  qed
qed

lemma ADDTLV_single_then:
  "ADDTLV heap mb offset (t # ts) =
     (case ADDTLV heap mb offset [t] of
        Inl f \<Rightarrow> Inl f
      | Inr (rc, offset', mb') \<Rightarrow>
          if rc \<noteq> 0 then Inr (rc, offset', mb') else ADDTLV heap mb' offset' ts)"
  by (simp split: sum.splits prod.splits)

lemma ADDTLV_argv_strings:
  "ADDTLV_argv heap mb offset (map Some ss @ None # rest) = ADDTLV heap mb offset (map cmdarg_tlv ss)"
proof (induction ss arbitrary: mb offset)
  case Nil
  then show ?case by simp
next
  case (Cons s ss)
  show ?case
    apply (subst ADDTLV_single_then[of heap mb offset "cmdarg_tlv s" "map cmdarg_tlv ss", simplified list.map(2)[symmetric]])
    using Cons.IH by (simp split: sum.splits prod.splits)
qed

lemma vnode_send_cmdreq_tlvs:
  "vnode_send_cmdreq e fd cid (map Some ss @ None # rest) ifd ofd efd
   = send_tlvs e fd VNODE_MSG_CMDREQ (int32_tlv VNODE_TLV_CMDID cid # map cmdarg_tlv ss) ifd ofd efd"
proof -
  have "(\<lambda>heap mb offset.
          case ADDTLV heap mb offset [int32_tlv VNODE_TLV_CMDID cid] of
            Inl f \<Rightarrow> Inl f
          | Inr (rc, offset', mb') \<Rightarrow>
              if rc \<noteq> 0 then Inr (rc, offset', mb')
              else ADDTLV_argv heap mb' offset' (map Some ss @ None # rest))
        = (\<lambda>heap mb offset. ADDTLV heap mb offset (int32_tlv VNODE_TLV_CMDID cid # map cmdarg_tlv ss))"
    by (intro ext) (simp only: ADDTLV_argv_strings ADDTLV_single_then[symmetric])
  then show ?thesis by (simp only: vnode_send_cmdreq_def send_tlvs_def)
qed

lemma tlv_ok_int32 [simp]: "tlv_ok (int32_tlv ty v)"
  by (simp add: tlv_ok_def int32_tlv_def)

lemma tlv_ok_cmdarg:
  assumes "strlen s + 1 < 2 ^ 32"
  shows "tlv_ok (cmdarg_tlv s)"
proof -
  define w :: u32 where "w = of_nat (strlen s + 1)"
  have u: "unat w = strlen s + 1"
    unfolding w_def by (rule unat_datalen[OF assms])
  have nz: "w \<noteq> 0"
  proof
    assume "w = 0"
    then have "unat w = 0" by simp
    then show False using u by simp
  qed
  have "tlv_vallen (cmdarg_tlv s) = w" by (simp add: cmdarg_tlv_def w_def)
  moreover have "length (tlv_val (cmdarg_tlv s)) = strlen s + 1"
    by (simp add: cmdarg_tlv_def strlen_def)
  ultimately show ?thesis using u nz by (simp add: tlv_ok_def)
qed

lemma send_tlvs_datagram:
  assumes "env_heap e VNODE_MSGSIZMAX = Some junk" "\<forall>t \<in> set ts. tlv_ok t"
    "HDRSIZE + tlvs_len ts \<le> VNODE_MSGSIZMAX" "0 \<le> ifd \<Longrightarrow> 0 \<le> ofd \<and> 0 \<le> efd"
  shows "send_tlvs e fd mtype ts ifd ofd efd
         = Inr (if env_sendmsg e \<lparr>sm_fd = fd, sm_iov = datagram mtype ts,
                                  sm_rights = (if 0 \<le> ifd then Some (ifd, ofd, efd) else None)\<rparr>
                   = int (HDRSIZE + tlvs_len ts) then 0 else -1,
                [Sendmsg \<lparr>sm_fd = fd, sm_iov = datagram mtype ts,
                          sm_rights = (if 0 \<le> ifd then Some (ifd, ofd, efd) else None)\<rparr>])"
proof -
  let ?post = "drop (8 + tlvs_len ts) (map junk [0..<VNODE_MSGSIZMAX])"
  let ?mb = "\<lparr>msg = datagram mtype ts @ ?post, infd = ifd, outfd = ofd, errfd = efd\<rparr>"
  have small: "tlvs_len ts < 2 ^ 32"
    using assms(3) by (simp add: VNODE_MSGSIZMAX_def HDRSIZE_def)
  have b: "build_with (env_heap e) mtype (\<lambda>h mb off. ADDTLV h mb off ts) ifd ofd efd = Inr (0, ?mb)"
    using build_with_ADDTLV[of "env_heap e" junk ts mtype ifd ofd efd] assms by simp
  have l: "vnode_msglen ?mb = 8 + tlvs_len ts"
    using vnode_msglen_datagram[OF small, where mb = ?mb and mtype = mtype and post = ?post]
    by simp
  have t: "take (vnode_msglen ?mb) (msg ?mb) = datagram mtype ts"
    using length_datagram[OF assms(2), of mtype] by (simp add: l)
  show ?thesis
    using assms(4) t l
    by (simp add: send_tlvs_def send_with_def b vnode_sendmsg_cases HDRSIZE_def)
qed

lemma send_tlvs_env_ok:
  assumes "\<forall>t \<in> set ts. tlv_ok t" "HDRSIZE + tlvs_len ts \<le> VNODE_MSGSIZMAX"
    "0 \<le> ifd \<Longrightarrow> 0 \<le> ofd \<and> 0 \<le> efd"
  shows "send_tlvs (env_ok child) fd mtype ts ifd ofd efd
         = Inr (0, [Sendmsg \<lparr>sm_fd = fd, sm_iov = datagram mtype ts,
                             sm_rights = (if 0 \<le> ifd then Some (ifd, ofd, efd) else None)\<rparr>])"
  using send_tlvs_datagram[of "env_ok child" "\<lambda>i. 0" ts ifd ofd efd fd mtype] assms
    length_datagram[OF assms(1), of mtype]
  by (simp add: env_ok_def HDRSIZE_def)

text \<open>
  C2, as the code has it. \<open>vnode_sendmsg\<close> attaches the three descriptors exactly
  when \<open>infd\<close> is not negative; \<open>outfd\<close> and \<open>errfd\<close> are then asserted not
  negative; with a negative \<open>infd\<close> the datagram goes out with no ancillary data,
  whatever the other two are. So every \<open>CMDREQ\<close> that \<open>vnode_send_cmdreq\<close> sends
  carries three descriptors, none of them negative, or none.
\<close>

theorem vnode_sendmsg_fds:
  "vnode_sendmsg fd mb =
     (if 0 \<le> infd mb \<and> 0 \<le> outfd mb \<and> 0 \<le> errfd mb
      then Inr \<lparr>sm_fd = fd, sm_iov = take (vnode_msglen mb) (msg mb),
                sm_rights = Some (infd mb, outfd mb, errfd mb)\<rparr>
      else if 0 \<le> infd mb then Inl Assertion_failed
      else Inr \<lparr>sm_fd = fd, sm_iov = take (vnode_msglen mb) (msg mb), sm_rights = None\<rparr>)
   \<and> (vnode_send_cmdreq e fd cid argv ifd ofd efd = Inr (rc, acts) \<longrightarrow>
        acts = []
        \<or> (\<exists>call. acts = [Sendmsg call]
              \<and> sm_rights call = (if 0 \<le> ifd then Some (ifd, ofd, efd) else None)
              \<and> (if 0 \<le> ifd then 0 \<le> ofd \<and> 0 \<le> efd else True)))"
  using send_with_rights[of e fd VNODE_MSG_CMDREQ _ ifd ofd efd rc acts]
  by (simp add: vnode_sendmsg_cases vnode_send_cmdreq_def)

text \<open>
  C2 as claimed fails twice: with \<open>infd = 0\<close> and the other two -1 the assertion
  fails and nothing is sent; with \<open>infd = -1\<close>, \<open>outfd = 1\<close>, \<open>errfd = 2\<close> the
  datagram leaves without descriptors, so the bundle does not reflect the values.
\<close>

theorem vnode_sendmsg_fds_counterexample:
  "vnode_sendmsg 3 \<lparr>msg = [1, 0, 0, 0, 0, 0, 0, 0], infd = 0, outfd = -1, errfd = -1\<rparr>
     = Inl Assertion_failed
   \<and> vnode_sendmsg 3 \<lparr>msg = [1, 0, 0, 0, 0, 0, 0, 0], infd = -1, outfd = 1, errfd = 2\<rparr>
     = Inr \<lparr>sm_fd = 3, sm_iov = [1, 0, 0, 0, 0, 0, 0, 0], sm_rights = None\<rparr>
   \<and> \<not> rights_reflect \<lparr>sm_fd = 3, sm_iov = [1, 0, 0, 0, 0, 0, 0, 0], sm_rights = None\<rparr> (-1) 1 2"
  by (simp add: vnode_sendmsg_def vnode_msglen_def hdr_datalen_def get32_def byte_at_def HDRSIZE_def
      rights_reflect_def)

theorem vnode_sendmsg_fds_witness:
  "vnode_send_cmdreq (env_ok 100) 9 7 [Some [108, 115], None] 3 4 5
     = Inr (0, [Sendmsg \<lparr>sm_fd = 9,
                         sm_iov = datagram VNODE_MSG_CMDREQ
                                    [int32_tlv VNODE_TLV_CMDID 7, cmdarg_tlv [108, 115]],
                         sm_rights = Some (3, 4, 5)\<rparr>])
   \<and> sm_rights \<lparr>sm_fd = 9,
                 sm_iov = datagram VNODE_MSG_CMDREQ
                            [int32_tlv VNODE_TLV_CMDID 7, cmdarg_tlv [108, 115]],
                 sm_rights = Some (3, 4, 5)\<rparr> = Some (3, 4, 5)"
proof -
  have ok: "\<forall>t \<in> set [int32_tlv VNODE_TLV_CMDID 7, cmdarg_tlv [108, 115]]. tlv_ok t"
    by (simp add: tlv_ok_cmdarg strlen_def)
  have fit: "HDRSIZE + tlvs_len [int32_tlv VNODE_TLV_CMDID 7, cmdarg_tlv [108, 115]]
             \<le> VNODE_MSGSIZMAX"
    by (simp add: tlvs_len_def int32_tlv_def cmdarg_tlv_def strlen_def HDRSIZE_def TLVSIZE_def
        VNODE_MSGSIZMAX_def)
  have s: "vnode_send_cmdreq (env_ok 100) 9 7 [Some [108, 115], None] 3 4 5
     = Inr (0, [Sendmsg \<lparr>sm_fd = 9,
                         sm_iov = datagram VNODE_MSG_CMDREQ
                                    [int32_tlv VNODE_TLV_CMDID 7, cmdarg_tlv [108, 115]],
                         sm_rights = Some (3, 4, 5)\<rparr>])"
    using vnode_send_cmdreq_tlvs[of "env_ok 100" 9 7 "[[108, 115]]" "[]" 3 4 5]
      send_tlvs_env_ok[OF ok fit, of 3 4 5 100 9 VNODE_MSG_CMDREQ]
    by simp
  show ?thesis
    using s vnode_sendmsg_fds[where e = "env_ok 100" and fd = 9 and cid = 7
              and argv = "[Some [108, 115], None]" and ifd = 3 and ofd = 4 and efd = 5
              and mb = INIT_MSGBUF and rc = 0]
    by simp
qed

lemma length_tlvhandler_table [simp]: "length (tlvhandler_table hs) = VNODE_TLV_MAX"
  by (simp add: tlvhandler_table_def)

lemma nth_tlvhandler_table:
  "i < VNODE_TLV_MAX \<Longrightarrow> tlvhandler_table hs ! i = map_of (map (\<lambda>(t, h). (unat t, h)) hs) i"
  by (simp add: tlvhandler_table_def)

lemma tlv_int32_int32_tlv [simp]: "tlv_int32 (int32_tlv ty v) = (0, Some v)"
  using get32_put32_0[of v "[]"] by (simp add: tlv_int32_def int32_tlv_def)

lemma tlv_type_int32 [simp]: "tlv_type (int32_tlv ty v) = ty"
  by (simp add: int32_tlv_def)

lemma tlvs_len_two_int32 [simp]: "tlvs_len [int32_tlv a x, int32_tlv b y] = 24"
  by (simp add: tlvs_len_def int32_tlv_def TLVSIZE_def)

lemma parse_cmdsignal:
  "vnode_parsemsg (datagram mtype [int32_tlv VNODE_TLV_CMDID cid, int32_tlv VNODE_TLV_SIGNUM signum]
                   @ stale) CMDSIGNAL_INIT cmdsignal_tlvhandler
   = Inr (0, \<lparr>sg_cmdid = cid, sg_signum = signum\<rparr>)"
proof -
  have "vnode_parsemsg (datagram mtype [int32_tlv VNODE_TLV_CMDID cid, int32_tlv VNODE_TLV_SIGNUM signum]
                   @ stale) CMDSIGNAL_INIT cmdsignal_tlvhandler
        = dispatch cmdsignal_tlvhandler
            [int32_tlv VNODE_TLV_CMDID cid, int32_tlv VNODE_TLV_SIGNUM signum] (-1) CMDSIGNAL_INIT"
    by (rule vnode_parsemsg_datagram) simp_all
  also have "\<dots> = Inr (0, \<lparr>sg_cmdid = cid, sg_signum = signum\<rparr>)"
    by (simp add: cmdsignal_tlvhandler_def nth_tlvhandler_table
        VNODE_TLV_CMDID_def VNODE_TLV_SIGNUM_def VNODE_TLV_MAX_def
        tlv_cmdsignal_cmdid_def tlv_cmdsignal_signum_def CMDSIGNAL_INIT_def)
  finally show ?thesis .
qed

lemma cmdsignal_loop_owner:
  "\<forall>a \<in> set (cmdsignal_loop cmds client sg).
     \<exists>cmd \<in> set cmds. cmdid cmd = sg_cmdid sg \<and> data cmd = ce_self client
                        \<and> a = Kill (pid cmd) (sg_signum sg)"
  by (induction cmds) auto

lemma cmdsignal_loop_none:
  "(\<forall>cmd \<in> set cmds. cmdid cmd = sg_cmdid sg \<longrightarrow> data cmd \<noteq> ce_self client)
   \<Longrightarrow> cmdsignal_loop cmds client sg = []"
  by (induction cmds) auto

lemma cmdsignal_loop_one:
  "\<exists>cmd \<in> set cmds. cmdid cmd = sg_cmdid sg \<and> data cmd = ce_self client
   \<Longrightarrow> \<exists>cmd \<in> set cmds. cmdid cmd = sg_cmdid sg \<and> data cmd = ce_self client
         \<and> cmdsignal_loop cmds client sg = [Kill (pid cmd) (sg_signum sg)]"
  by (induction cmds) auto

lemma vnode_recv_cmdsignal_any:
  assumes "vnode_recv_cmdsignal srv client mb = Inr (srv', acts)"
  shows "srv' = srv \<and> (\<forall>a \<in> set acts. \<exists>cmd \<in> set (srv_cmdlisthead srv). \<exists>signum.
                         data cmd = ce_self client \<and> a = Kill (pid cmd) signum)"
proof -
  have "srv' = srv \<and> (acts = [] \<or> (\<exists>sg. acts = cmdsignal_loop (srv_cmdlisthead srv) client sg))"
    using assms
    by (auto simp: vnode_recv_cmdsignal_def split: if_splits sum.splits prod.splits)
  then show ?thesis
    using cmdsignal_loop_owner[of "srv_cmdlisthead srv" client] by fastforce
qed

text \<open>
  The owner test of \<open>vnode_recv_cmdsignal\<close> by itself, the owner of an entry
  being the address in its \<open>data\<close>. Whatever message is handled for a client
  entry, the command table is unchanged and every \<open>kill\<close> goes to the pid of an
  entry whose \<open>data\<close> is the address of that client entry. For a
  \<open>CMDSIGNAL{cmdid, signum}\<close> as \<open>vnode_send_cmdsignal\<close> frames it (before any
  stale bytes of the buffer): every \<open>kill\<close> is \<open>kill(pid, signum)\<close> for an entry
  with that \<open>cmdid\<close> and that address; exactly one is issued when such an entry
  exists; none when every entry with that \<open>cmdid\<close> has another address.
\<close>

lemma recv_cmdsignal_owner_only:
  "(vnode_recv_cmdsignal srv client mb = Inr (srv', acts) \<longrightarrow>
      srv' = srv
      \<and> (\<forall>a \<in> set acts. \<exists>cmd \<in> set (srv_cmdlisthead srv). \<exists>signum.
             data cmd = ce_self client \<and> a = Kill (pid cmd) signum))
   \<and> (msg mb = datagram VNODE_MSG_CMDSIGNAL
                   [int32_tlv VNODE_TLV_CMDID cid, int32_tlv VNODE_TLV_SIGNUM signum] @ stale \<longrightarrow>
       (\<exists>kills. vnode_recv_cmdsignal srv client mb = Inr (srv, kills)
          \<and> (\<forall>a \<in> set kills. \<exists>cmd \<in> set (srv_cmdlisthead srv).
                 cmdid cmd = cid \<and> data cmd = ce_self client \<and> a = Kill (pid cmd) signum)
          \<and> ((\<exists>cmd \<in> set (srv_cmdlisthead srv). cmdid cmd = cid \<and> data cmd = ce_self client) \<longrightarrow>
               (\<exists>cmd \<in> set (srv_cmdlisthead srv). cmdid cmd = cid \<and> data cmd = ce_self client
                  \<and> kills = [Kill (pid cmd) signum]))
          \<and> ((\<forall>cmd \<in> set (srv_cmdlisthead srv). cmdid cmd = cid \<longrightarrow> data cmd \<noteq> ce_self client) \<longrightarrow>
               kills = [])))"
proof -
  let ?sg = "\<lparr>sg_cmdid = cid, sg_signum = signum\<rparr>"
  have r: "vnode_recv_cmdsignal srv client mb
           = Inr (srv, cmdsignal_loop (srv_cmdlisthead srv) client ?sg)"
    if "msg mb = datagram VNODE_MSG_CMDSIGNAL
                   [int32_tlv VNODE_TLV_CMDID cid, int32_tlv VNODE_TLV_SIGNUM signum] @ stale"
    using that by (simp add: vnode_recv_cmdsignal_def parse_cmdsignal)
  show ?thesis
    using vnode_recv_cmdsignal_any[of srv client mb srv' acts] r
      cmdsignal_loop_owner[of "srv_cmdlisthead srv" client ?sg]
      cmdsignal_loop_one[of "srv_cmdlisthead srv" ?sg client]
      cmdsignal_loop_none[of "srv_cmdlisthead srv" ?sg client]
    by auto
qed

lemma recv_cmdsignal_owner_only_example:
  "vnode_recv_cmdsignal
     \<lparr>srv_cmdlisthead = [\<lparr>cmdid = 0, pid = 4242, status = -1, data = 1\<rparr>,
                         \<lparr>cmdid = 1, pid = 4243, status = -1, data = 2\<rparr>]\<rparr>
     \<lparr>ce_self = 2, clientfd = 7\<rparr>
     \<lparr>msg = datagram VNODE_MSG_CMDSIGNAL
              [int32_tlv VNODE_TLV_CMDID 0, int32_tlv VNODE_TLV_SIGNUM 15] @ [],
      infd = -1, outfd = -1, errfd = -1\<rparr>
   = Inr (\<lparr>srv_cmdlisthead = [\<lparr>cmdid = 0, pid = 4242, status = -1, data = 1\<rparr>,
                               \<lparr>cmdid = 1, pid = 4243, status = -1, data = 2\<rparr>]\<rparr>, [])
   \<and> vnode_recv_cmdsignal
     \<lparr>srv_cmdlisthead = [\<lparr>cmdid = 0, pid = 4242, status = -1, data = 1\<rparr>,
                         \<lparr>cmdid = 1, pid = 4243, status = -1, data = 2\<rparr>]\<rparr>
     \<lparr>ce_self = 1, clientfd = 6\<rparr>
     \<lparr>msg = datagram VNODE_MSG_CMDSIGNAL
              [int32_tlv VNODE_TLV_CMDID 0, int32_tlv VNODE_TLV_SIGNUM 15] @ [],
      infd = -1, outfd = -1, errfd = -1\<rparr>
   = Inr (\<lparr>srv_cmdlisthead = [\<lparr>cmdid = 0, pid = 4242, status = -1, data = 1\<rparr>,
                               \<lparr>cmdid = 1, pid = 4243, status = -1, data = 2\<rparr>]\<rparr>,
          [Kill 4242 15])"
  using recv_cmdsignal_owner_only[where
      srv = "\<lparr>srv_cmdlisthead = [\<lparr>cmdid = 0, pid = 4242, status = -1, data = 1\<rparr>,
                                  \<lparr>cmdid = 1, pid = 4243, status = -1, data = 2\<rparr>]\<rparr>"
      and client = "\<lparr>ce_self = 2, clientfd = 7\<rparr>"
      and mb = "\<lparr>msg = datagram VNODE_MSG_CMDSIGNAL
              [int32_tlv VNODE_TLV_CMDID 0, int32_tlv VNODE_TLV_SIGNUM 15] @ [],
            infd = -1, outfd = -1, errfd = -1\<rparr>"
      and cid = 0 and signum = 15 and stale = "[]"]
    recv_cmdsignal_owner_only[where
      srv = "\<lparr>srv_cmdlisthead = [\<lparr>cmdid = 0, pid = 4242, status = -1, data = 1\<rparr>,
                                  \<lparr>cmdid = 1, pid = 4243, status = -1, data = 2\<rparr>]\<rparr>"
      and client = "\<lparr>ce_self = 1, clientfd = 6\<rparr>"
      and mb = "\<lparr>msg = datagram VNODE_MSG_CMDSIGNAL
              [int32_tlv VNODE_TLV_CMDID 0, int32_tlv VNODE_TLV_SIGNUM 15] @ [],
            infd = -1, outfd = -1, errfd = -1\<rparr>"
      and cid = 0 and signum = 15 and stale = "[]"]
  by auto

lemma tlv_val_cmdarg [simp]: "tlv_val (cmdarg_tlv s) = cstring s"
  by (simp add: cmdarg_tlv_def cstring_def)

lemma tlv_type_cmdarg [simp]: "tlv_type (cmdarg_tlv s) = VNODE_TLV_CMDARG"
  by (simp add: cmdarg_tlv_def)

lemma tlv_string_cmdarg:
  assumes "strlen s + 1 < 2 ^ 32"
  shows "tlv_string (cmdarg_tlv s) = (0, Some (cstring s))"
proof -
  have "unat (of_nat (strlen s + 1) - 1 :: u32) = strlen s"
    using assms by (simp add: unat_of_nat)
  then have "byte_at (tlv_val (cmdarg_tlv s)) (unat (tlv_vallen (cmdarg_tlv s) - 1)) = 0"
    by (simp add: cmdarg_tlv_def byte_at_def strlen_def nth_append)
  then show ?thesis by (simp add: tlv_string_def)
qed

lemma cmdarg_scan_of:
  assumes "i \<le> length vals" "length vals \<le> VNODE_ARGMAX"
  shows "cmdarg_scan (cmdarg_of vals) i = length vals"
  using assms
proof (induction "length vals - i" arbitrary: i)
  case 0
  then show ?case by (subst cmdarg_scan.simps) (simp add: cmdarg_of_def)
next
  case (Suc n)
  then have "cmdarg_scan (cmdarg_of vals) (i + 1) = length vals" by simp
  then show ?case
    using Suc.prems Suc.hyps(2) by (subst cmdarg_scan.simps) (simp add: cmdarg_of_def)
qed

lemma cmdarg_of_snoc: "(cmdarg_of vals)(length vals := Some v) = cmdarg_of (vals @ [v])"
  by (rule ext) (simp add: cmdarg_of_def nth_append)

lemma tlv_cmdreq_cmdarg_store:
  assumes "rq_cmdarg rq = cmdarg_of vals" "length vals < VNODE_ARGMAX" "strlen s + 1 < 2 ^ 32"
  shows "tlv_cmdreq_cmdarg (cmdarg_tlv s) rq = (0, rq\<lparr>rq_cmdarg := cmdarg_of (vals @ [cstring s])\<rparr>)"
  using assms cmdarg_scan_of[of 0 vals]
  by (simp add: tlv_cmdreq_cmdarg_def tlv_string_cmdarg cmdarg_of_snoc)

lemma tlv_cmdreq_cmdarg_full:
  assumes "rq_cmdarg rq = cmdarg_of vals" "length vals = VNODE_ARGMAX"
  shows "tlv_cmdreq_cmdarg t rq = (-1, rq)"
  using assms cmdarg_scan_of[of 0 vals]
  by (simp add: tlv_cmdreq_cmdarg_def)

lemma cmdreq_table_cmdarg:
  "cmdreq_tlvhandler ! unat VNODE_TLV_CMDARG = Some tlv_cmdreq_cmdarg"
  by (simp add: cmdreq_tlvhandler_def nth_tlvhandler_table VNODE_TLV_CMDARG_def VNODE_TLV_CMDID_def
      VNODE_TLV_MAX_def)

lemma cmdreq_table_cmdid:
  "cmdreq_tlvhandler ! unat VNODE_TLV_CMDID = Some tlv_cmdreq_cmdid"
  by (simp add: cmdreq_tlvhandler_def nth_tlvhandler_table VNODE_TLV_CMDARG_def VNODE_TLV_CMDID_def
      VNODE_TLV_MAX_def)

lemma dispatch_cmdargs:
  assumes "rq_cmdarg rq = cmdarg_of vals" "\<forall>s \<in> set ss. strlen s + 1 < 2 ^ 32"
    "length vals \<le> VNODE_ARGMAX"
  shows "dispatch cmdreq_tlvhandler (map cmdarg_tlv ss) tmp rq
         = (if length vals + length ss \<le> VNODE_ARGMAX
            then Inr (if ss = [] then tmp else 0,
                      rq\<lparr>rq_cmdarg := cmdarg_of (vals @ map cstring ss)\<rparr>)
            else Inr (-1, rq\<lparr>rq_cmdarg :=
                       cmdarg_of (vals @ map cstring (take (VNODE_ARGMAX - length vals) ss))\<rparr>))"
  using assms
proof (induction ss arbitrary: rq vals tmp)
  case Nil
  then show ?case by simp
next
  case (Cons s ss)
  have t: "unat (tlv_type (cmdarg_tlv s)) < length cmdreq_tlvhandler"
    by (simp add: cmdreq_tlvhandler_def VNODE_TLV_CMDARG_def VNODE_TLV_MAX_def)
  show ?case
  proof (cases "length vals < VNODE_ARGMAX")
    case True
    let ?rq = "rq\<lparr>rq_cmdarg := cmdarg_of (vals @ [cstring s])\<rparr>"
    have h: "tlv_cmdreq_cmdarg (cmdarg_tlv s) rq = (0, ?rq)"
      using tlv_cmdreq_cmdarg_store[OF Cons.prems(1) True] Cons.prems(2) by simp
    have ih: "dispatch cmdreq_tlvhandler (map cmdarg_tlv ss) 0 ?rq
         = (if length (vals @ [cstring s]) + length ss \<le> VNODE_ARGMAX
            then Inr (if ss = [] then 0 else 0,
                      ?rq\<lparr>rq_cmdarg := cmdarg_of ((vals @ [cstring s]) @ map cstring ss)\<rparr>)
            else Inr (-1, ?rq\<lparr>rq_cmdarg :=
                       cmdarg_of ((vals @ [cstring s])
                         @ map cstring (take (VNODE_ARGMAX - length (vals @ [cstring s])) ss))\<rparr>))"
      by (rule Cons.IH) (use Cons.prems(2) True in simp_all)
    have tk: "take (VNODE_ARGMAX - length vals) (s # ss)
              = s # take (VNODE_ARGMAX - Suc (length vals)) ss"
    proof -
      have "VNODE_ARGMAX - length vals = Suc (VNODE_ARGMAX - Suc (length vals))"
        using True by arith
      then show ?thesis by simp
    qed
    show ?thesis
      using t True ih tk by (simp add: cmdreq_table_cmdarg h)
  next
    case False
    then have full: "length vals = VNODE_ARGMAX" using Cons.prems(3) by arith
    have h: "tlv_cmdreq_cmdarg (cmdarg_tlv s) rq = (-1, rq)"
      by (rule tlv_cmdreq_cmdarg_full[OF Cons.prems(1) full])
    show ?thesis
      using t full Cons.prems(1) by (simp add: cmdreq_table_cmdarg h)
  qed
qed

lemma cmdarg_of_Nil: "(\<lambda>i. None) = cmdarg_of []"
  by (rule ext) (simp add: cmdarg_of_def)

lemma cstring_cstring [simp]: "cstring (cstring s) = cstring s"
  by (simp add: cstring_def takeWhile_append1 takeWhile_tail)

lemma exec_argv_of:
  "length vals \<le> VNODE_ARGMAX \<Longrightarrow> exec_argv (cmdarg_of vals) = map cstring vals"
proof -
  assume "length vals \<le> VNODE_ARGMAX"
  then have n: "cmdarg_scan (cmdarg_of vals) 0 = length vals"
    using cmdarg_scan_of[of 0 vals] by simp
  have "map (\<lambda>i. case cmdarg_of vals i of None \<Rightarrow> [] | Some s \<Rightarrow> cstring s)
          [0..<length vals]
        = map (\<lambda>i. cstring (vals ! i)) [0..<length vals]"
    by (rule map_cong) (simp_all add: cmdarg_of_def)
  also have "\<dots> = map cstring (map (\<lambda>i. vals ! i) [0..<length vals])"
    by (simp only: map_map comp_def)
  also have "\<dots> = map cstring vals"
    by (simp only: map_nth)
  finally show ?thesis
    unfolding exec_argv_def n .
qed

lemma exec_argv_embedded_nul:
  "exec_argv (cmdarg_of [[97, 0, 98, 0]]) = [[97, 0]]"
  using exec_argv_of[of "[[97, 0, 98, 0]]"] by (simp add: VNODE_ARGMAX_def cstring_def)

lemma parse_cmdreq:
  assumes "\<forall>s \<in> set ss. strlen s + 1 < 2 ^ 32"
    "tlvs_len (int32_tlv VNODE_TLV_CMDID cid # map cmdarg_tlv ss) < 2 ^ 32"
  shows "vnode_parsemsg (datagram mtype (int32_tlv VNODE_TLV_CMDID cid # map cmdarg_tlv ss) @ stale)
           CMDREQ_INIT cmdreq_tlvhandler
         = (if length ss \<le> VNODE_ARGMAX
            then Inr (0, CMDREQ_INIT\<lparr>rq_cmdid := cid, rq_cmdarg := cmdarg_of (map cstring ss)\<rparr>)
            else Inr (-1, CMDREQ_INIT\<lparr>rq_cmdid := cid,
                             rq_cmdarg := cmdarg_of (map cstring (take VNODE_ARGMAX ss))\<rparr>))"
proof -
  have ok: "\<forall>t \<in> set (int32_tlv VNODE_TLV_CMDID cid # map cmdarg_tlv ss). tlv_ok t"
    using assms(1) by (auto simp: tlv_ok_cmdarg)
  have p: "vnode_parsemsg (datagram mtype (int32_tlv VNODE_TLV_CMDID cid # map cmdarg_tlv ss) @ stale)
           CMDREQ_INIT cmdreq_tlvhandler
        = dispatch cmdreq_tlvhandler (int32_tlv VNODE_TLV_CMDID cid # map cmdarg_tlv ss) (-1)
            CMDREQ_INIT"
    by (rule vnode_parsemsg_datagram[OF ok assms(2)])
  have t: "unat VNODE_TLV_CMDID < length cmdreq_tlvhandler"
    by (simp add: cmdreq_tlvhandler_def VNODE_TLV_CMDID_def VNODE_TLV_MAX_def)
  have h: "tlv_cmdreq_cmdid (int32_tlv VNODE_TLV_CMDID cid) CMDREQ_INIT
           = (0, CMDREQ_INIT\<lparr>rq_cmdid := cid\<rparr>)"
    by (simp add: tlv_cmdreq_cmdid_def)
  have a: "rq_cmdarg (CMDREQ_INIT\<lparr>rq_cmdid := cid\<rparr>) = cmdarg_of []"
    by (simp add: CMDREQ_INIT_def cmdarg_of_Nil)
  have d: "dispatch cmdreq_tlvhandler (map cmdarg_tlv ss) 0 (CMDREQ_INIT\<lparr>rq_cmdid := cid\<rparr>)
         = (if length ss \<le> VNODE_ARGMAX
            then Inr (0, CMDREQ_INIT\<lparr>rq_cmdid := cid, rq_cmdarg := cmdarg_of (map cstring ss)\<rparr>)
            else Inr (-1, CMDREQ_INIT\<lparr>rq_cmdid := cid,
                             rq_cmdarg := cmdarg_of (map cstring (take VNODE_ARGMAX ss))\<rparr>))"
    using dispatch_cmdargs[of "CMDREQ_INIT\<lparr>rq_cmdid := cid\<rparr>" "[]" ss 0] a assms(1) by simp
  show ?thesis
    using t d by (simp add: p cmdreq_table_cmdid h)
qed

lemma vnode_send_cmdreqack_datagram:
  assumes "env_heap e VNODE_MSGSIZMAX = Some junk"
  shows "vnode_send_cmdreqack e fd cid child
         = Inr (if env_sendmsg e \<lparr>sm_fd = fd,
                     sm_iov = datagram VNODE_MSG_CMDREQACK
                                [int32_tlv VNODE_TLV_CMDID cid, int32_tlv VNODE_TLV_CMDPID child],
                     sm_rights = None\<rparr> = 32 then 0 else -1,
                [Sendmsg \<lparr>sm_fd = fd,
                     sm_iov = datagram VNODE_MSG_CMDREQACK
                                [int32_tlv VNODE_TLV_CMDID cid, int32_tlv VNODE_TLV_CMDPID child],
                     sm_rights = None\<rparr>])"
  using send_tlvs_datagram[of e junk "[int32_tlv VNODE_TLV_CMDID cid, int32_tlv VNODE_TLV_CMDPID child]"
          "-1" "-1" "-1" fd VNODE_MSG_CMDREQACK] assms
  by (simp add: vnode_send_cmdreqack_def HDRSIZE_def VNODE_MSGSIZMAX_def)

lemma vnode_process_cmdreq_forks:
  assumes "env_malloc e 0" "env_heap e VNODE_MSGSIZMAX = Some junk"
  shows "vnode_process_cmdreq e srv client rq
         = Inr (if env_sendmsg e \<lparr>sm_fd = clientfd client,
                     sm_iov = datagram VNODE_MSG_CMDREQACK
                                [int32_tlv VNODE_TLV_CMDID (rq_cmdid rq),
                                 int32_tlv VNODE_TLV_CMDPID (env_fork e)],
                     sm_rights = None\<rparr> = 32 \<and> env_fork e \<noteq> -1
                then srv\<lparr>srv_cmdlisthead := srv_cmdlisthead srv
                            @ [\<lparr>cmdid = rq_cmdid rq, pid = env_fork e, status = -1,
                                data = ce_self client\<rparr>]\<rparr>
                else srv,
                [Fork (env_fork e) (map_option cstring (rq_cmdarg rq 0))
                   (exec_argv (rq_cmdarg rq))]
                @ CLOSE (rq_infd rq) @ CLOSE (rq_outfd rq) @ CLOSE (rq_errfd rq)
                @ [Sendmsg \<lparr>sm_fd = clientfd client,
                     sm_iov = datagram VNODE_MSG_CMDREQACK
                                [int32_tlv VNODE_TLV_CMDID (rq_cmdid rq),
                                 int32_tlv VNODE_TLV_CMDPID (env_fork e)],
                     sm_rights = None\<rparr>])"
  using assms(1)
  by (simp add: vnode_process_cmdreq_def Let_def forkexec_def
      vnode_send_cmdreqack_datagram[OF assms(2)])

lemma vnode_recv_cmdreq_args:
  assumes "msg mb = datagram VNODE_MSG_CMDREQ (int32_tlv VNODE_TLV_CMDID cid # map cmdarg_tlv ss) @ stale"
    "\<forall>s \<in> set ss. strlen s + 1 < 2 ^ 32"
    "tlvs_len (int32_tlv VNODE_TLV_CMDID cid # map cmdarg_tlv ss) < 2 ^ 32"
  shows "vnode_recv_cmdreq e srv client mb
         = (if length ss \<le> VNODE_ARGMAX
            then vnode_process_cmdreq e srv client
                   \<lparr>rq_cmdid = cid, rq_infd = infd mb, rq_outfd = outfd mb, rq_errfd = errfd mb,
                    rq_cmdarg = cmdarg_of (map cstring ss)\<rparr>
            else Inr (srv, []))"
  using parse_cmdreq[OF assms(2,3), of VNODE_MSG_CMDREQ stale]
  by (simp add: vnode_recv_cmdreq_def assms(1) CMDREQ_INIT_def)

lemma vnode_client_cmdreq_too_many:
  "int VNODE_ARGMAX \<le> argc \<Longrightarrow>
   vnode_client_cmdreq e client io cb opaque argc argv = Inr (-1, client, io, [])"
  by (simp add: vnode_client_cmdreq_def)

lemma tlvs_len_cmdreq:
  "tlvs_len (int32_tlv VNODE_TLV_CMDID cid # map cmdarg_tlv ss)
   = 12 + sum_list (map (\<lambda>s. 8 + unat (of_nat (strlen s + 1) :: u32)) ss)"
  by (simp add: tlvs_len_def int32_tlv_def cmdarg_tlv_def TLVSIZE_def comp_def)

lemma vnode_recv_cmdreq_too_many:
  assumes "msg mb = datagram VNODE_MSG_CMDREQ (int32_tlv VNODE_TLV_CMDID cid # map cmdarg_tlv ss) @ stale"
    "\<forall>s \<in> set ss. strlen s + 1 < 2 ^ 32"
    "tlvs_len (int32_tlv VNODE_TLV_CMDID cid # map cmdarg_tlv ss) < 2 ^ 32"
    "VNODE_ARGMAX < length ss"
  shows "vnode_recv_cmdreq e srv client mb = Inr (srv, [])"
  using vnode_recv_cmdreq_args[OF assms(1,2,3), of e srv client] assms(4) by simp

text \<open>
  C1. The server does not reject \<open>VNODE_ARGMAX\<close> arguments. A \<open>CMDREQ\<close> whose
  payload is a \<open>CMDID\<close> TLV and 1024 \<open>CMDARG\<close> TLVs (each the string "a") is parsed
  without error: \<open>tlv_cmdreq_cmdarg\<close> fills all 1024 entries of \<open>cmdarg\<close>, leaving
  no \<open>NULL\<close> terminator, and \<open>vnode_process_cmdreq\<close> forks, acknowledges and inserts
  the command (here with nothing failing and \<open>fork\<close> returning 4242). Only a 1025th
  \<open>CMDARG\<close> makes the handler return -1 (\<open>vnode_recv_cmdreq_too_many\<close>); the client
  does refuse \<open>argc >= 1024\<close> (\<open>vnode_client_cmdreq_too_many\<close>).
\<close>

theorem recv_cmdreq_argmax_args_spawns:
  "vnode_recv_cmdreq (env_ok 4242) srv client
     \<lparr>msg = datagram VNODE_MSG_CMDREQ
              (int32_tlv VNODE_TLV_CMDID 7 # replicate VNODE_ARGMAX (cmdarg_tlv [97])),
      infd = -1, outfd = -1, errfd = -1\<rparr>
   = Inr (srv\<lparr>srv_cmdlisthead := srv_cmdlisthead srv
                  @ [\<lparr>cmdid = 7, pid = 4242, status = -1, data = ce_self client\<rparr>]\<rparr>,
          [Fork 4242 (Some [97, 0]) (replicate VNODE_ARGMAX [97, 0]),
           Sendmsg \<lparr>sm_fd = clientfd client,
                    sm_iov = datagram VNODE_MSG_CMDREQACK
                               [int32_tlv VNODE_TLV_CMDID 7, int32_tlv VNODE_TLV_CMDPID 4242],
                    sm_rights = None\<rparr>])"
proof -
  let ?ss = "replicate VNODE_ARGMAX [97 :: u8]"
  let ?mb = "\<lparr>msg = datagram VNODE_MSG_CMDREQ
              (int32_tlv VNODE_TLV_CMDID 7 # replicate VNODE_ARGMAX (cmdarg_tlv [97])),
      infd = -1, outfd = -1, errfd = -1\<rparr>"
  have sl: "strlen [97 :: u8] = 1" by (simp add: strlen_def)
  have m: "msg ?mb = datagram VNODE_MSG_CMDREQ (int32_tlv VNODE_TLV_CMDID 7 # map cmdarg_tlv ?ss) @ []"
    by simp
  have a: "\<forall>s \<in> set ?ss. strlen s + 1 < 2 ^ 32" by (simp add: sl)
  have b: "tlvs_len (int32_tlv VNODE_TLV_CMDID 7 # map cmdarg_tlv ?ss) < 2 ^ 32"
    using tlvs_len_cmdreq[of 7 ?ss] by (simp add: sl sum_list_replicate VNODE_ARGMAX_def)
  have c: "map cstring ?ss = replicate VNODE_ARGMAX [97, 0]" by (simp add: cstring_def)
  have z: "cmdarg_of (replicate VNODE_ARGMAX [97, 0 :: u8]) 0 = Some [97, 0]"
    by (simp add: cmdarg_of_def VNODE_ARGMAX_def)
  have x: "exec_argv (cmdarg_of (replicate VNODE_ARGMAX [97, 0 :: u8])) = replicate VNODE_ARGMAX [97, 0]"
    using exec_argv_of[of "replicate VNODE_ARGMAX [97, 0 :: u8]"] by (simp add: cstring_def)
  have p: "vnode_process_cmdreq (env_ok 4242) srv client
             \<lparr>rq_cmdid = 7, rq_infd = -1, rq_outfd = -1, rq_errfd = -1,
              rq_cmdarg = cmdarg_of (replicate VNODE_ARGMAX [97, 0])\<rparr>
           = Inr (srv\<lparr>srv_cmdlisthead := srv_cmdlisthead srv
                  @ [\<lparr>cmdid = 7, pid = 4242, status = -1, data = ce_self client\<rparr>]\<rparr>,
          [Fork 4242 (Some [97, 0]) (replicate VNODE_ARGMAX [97, 0]),
           Sendmsg \<lparr>sm_fd = clientfd client,
                    sm_iov = datagram VNODE_MSG_CMDREQACK
                               [int32_tlv VNODE_TLV_CMDID 7, int32_tlv VNODE_TLV_CMDPID 4242],
                    sm_rights = None\<rparr>])"
    using vnode_process_cmdreq_forks[of "env_ok 4242" "\<lambda>i. 0" srv client
            "\<lparr>rq_cmdid = 7, rq_infd = -1, rq_outfd = -1, rq_errfd = -1,
              rq_cmdarg = cmdarg_of (replicate VNODE_ARGMAX [97, 0])\<rparr>"]
      length_datagram[of "[int32_tlv VNODE_TLV_CMDID 7, int32_tlv VNODE_TLV_CMDPID 4242]" VNODE_MSG_CMDREQACK]
    by (simp add: env_ok_def z x CLOSE_def cstring_def)
  show ?thesis
    using vnode_recv_cmdreq_args[OF m a b, of "env_ok 4242" srv client] p
    by (simp add: cstring_def)
qed

lemma vnode_send_cmdreq_datagram:
  assumes "env_heap e VNODE_MSGSIZMAX = Some junk" "\<forall>s \<in> set ss. strlen s + 1 < 2 ^ 32"
    "HDRSIZE + tlvs_len (int32_tlv VNODE_TLV_CMDID cid # map cmdarg_tlv ss) \<le> VNODE_MSGSIZMAX"
    "0 \<le> ifd \<Longrightarrow> 0 \<le> ofd \<and> 0 \<le> efd"
  shows "vnode_send_cmdreq e fd cid (map Some ss @ None # rest) ifd ofd efd
         = Inr (if env_sendmsg e \<lparr>sm_fd = fd,
                      sm_iov = datagram VNODE_MSG_CMDREQ
                                 (int32_tlv VNODE_TLV_CMDID cid # map cmdarg_tlv ss),
                      sm_rights = (if 0 \<le> ifd then Some (ifd, ofd, efd) else None)\<rparr>
                   = int (HDRSIZE + tlvs_len (int32_tlv VNODE_TLV_CMDID cid # map cmdarg_tlv ss))
                then 0 else -1,
                [Sendmsg \<lparr>sm_fd = fd,
                      sm_iov = datagram VNODE_MSG_CMDREQ
                                 (int32_tlv VNODE_TLV_CMDID cid # map cmdarg_tlv ss),
                      sm_rights = (if 0 \<le> ifd then Some (ifd, ofd, efd) else None)\<rparr>])"
proof -
  have ok: "\<forall>t \<in> set (int32_tlv VNODE_TLV_CMDID cid # map cmdarg_tlv ss). tlv_ok t"
    using assms(2) by (auto simp: tlv_ok_cmdarg)
  show ?thesis
    unfolding vnode_send_cmdreq_tlvs
    by (rule send_tlvs_datagram[OF assms(1) ok assms(3,4)])
qed

lemma vnode_client_cmdreq_sends:
  assumes "env_malloc e 0" "env_malloc e 1" "env_heap e VNODE_MSGSIZMAX = Some junk"
    and "length ss < VNODE_ARGMAX" "\<forall>s \<in> set ss. strlen s + 1 < 2 ^ 32"
    and "vnode_setcmdio io = (0, i, ou, er)" "0 \<le> i \<Longrightarrow> 0 \<le> ou \<and> 0 \<le> er"
    and "cid = (if sint (next_cmdid client) < 0 then 0 else next_cmdid client)"
    and "HDRSIZE + tlvs_len (int32_tlv VNODE_TLV_CMDID cid # map cmdarg_tlv ss) \<le> VNODE_MSGSIZMAX"
    and "call = \<lparr>sm_fd = serverfd client,
                  sm_iov = datagram VNODE_MSG_CMDREQ (int32_tlv VNODE_TLV_CMDID cid # map cmdarg_tlv ss),
                  sm_rights = (if 0 \<le> i then Some (i, ou, er) else None)\<rparr>"
  shows "vnode_client_cmdreq e client io cb opaque (int (length ss)) (map Some ss @ None # rest)
         = (if env_sendmsg e call
                 = int (HDRSIZE + tlvs_len (int32_tlv VNODE_TLV_CMDID cid # map cmdarg_tlv ss))
            then Inr (sint cid,
                      client\<lparr>next_cmdid := cid + 1,
                             cmdlisthead := cmdlisthead client
                               @ [\<lparr>cmdid = cid, pid = -1, status = -1,
                                   data = \<lparr>cmddonecb = cb, cc_data = opaque\<rparr>\<rparr>]\<rparr>,
                      fst (vnode_cleanupcmdio io), Sendmsg call # snd (vnode_cleanupcmdio io))
            else Inr (-1, client\<lparr>next_cmdid := cid + 1, cmdlisthead := cmdlisthead client\<rparr>,
                      io, [Sendmsg call]))"
proof -
  have n: "(map Some ss @ None # rest) ! length ss = None"
    by (simp add: nth_append)
  have s: "vnode_send_cmdreq e (serverfd client) cid (map Some ss @ None # rest) i ou er
         = Inr (if env_sendmsg e call
                   = int (HDRSIZE + tlvs_len (int32_tlv VNODE_TLV_CMDID cid # map cmdarg_tlv ss))
                then 0 else -1, [Sendmsg call])"
    unfolding assms(10) by (rule vnode_send_cmdreq_datagram[OF assms(3,5,9,7)])
  show ?thesis
    using assms(1,2,4,6) n s
    by (cases "sint (next_cmdid client) < 0")
       (simp_all add: vnode_client_cmdreq_def Let_def assms(8))
qed

lemma tlvs_len_one_int32 [simp]: "tlvs_len [int32_tlv a x] = 12"
  by (simp add: tlvs_len_def int32_tlv_def TLVSIZE_def)

lemma sint_cmdid_nonneg: "0 \<le> sint (if sint (w :: i32) < 0 then 0 else w)"
  by simp

lemma vnode_recv_cmdreq_empty_payload:
  assumes "msg mb = datagram VNODE_MSG_CMDREQ [] @ stale"
  shows "vnode_recv_cmdreq e srv peer mb = Inr (srv, [])"
proof -
  have "vnode_parsemsg (datagram VNODE_MSG_CMDREQ [] @ stale) CMDREQ_INIT cmdreq_tlvhandler
        = dispatch cmdreq_tlvhandler [] (-1) CMDREQ_INIT"
    by (rule vnode_parsemsg_datagram) (simp_all add: tlvs_len_def)
  then show ?thesis by (simp add: vnode_recv_cmdreq_def assms)
qed

text \<open>
  C8, as the code has it. Neither side checks for an empty argument list.
  \<open>vnode_client_cmdreq\<close> with \<open>argc = 0\<close> and \<open>argv[0] = NULL\<close>, when its two
  allocations, the message buffer and the send succeed, queues an entry, sends a
  \<open>CMDREQ\<close> whose payload is the \<open>CMDID\<close> TLV alone and returns the new \<open>cmdid\<close>
  (not negative). The server, given such a \<open>CMDREQ\<close> (and memory), forks: the child
  calls \<open>execvp\<close> with a \<open>NULL\<close> file and no argument; the entry is inserted when
  the acknowledgement was sent and \<open>fork\<close> did not fail. A \<open>CMDREQ\<close> with an empty
  payload is dropped, since no handler ran.
\<close>

theorem empty_argv_accepted:
  assumes "env_malloc e 0" "env_malloc e 1" "env_heap e VNODE_MSGSIZMAX \<noteq> None"
    and "vnode_setcmdio io = (0, i, ou, er)" "0 \<le> i \<longrightarrow> 0 \<le> ou \<and> 0 \<le> er"
    and "cid = (if sint (next_cmdid client) < 0 then 0 else next_cmdid client)"
    and "call = \<lparr>sm_fd = serverfd client,
                  sm_iov = datagram VNODE_MSG_CMDREQ [int32_tlv VNODE_TLV_CMDID cid],
                  sm_rights = (if 0 \<le> i then Some (i, ou, er) else None)\<rparr>"
    and "env_sendmsg e call = int (length (sm_iov call))"
    and "env_malloc e' 0" "env_heap e' VNODE_MSGSIZMAX \<noteq> None"
    and "msg mb = datagram VNODE_MSG_CMDREQ [int32_tlv VNODE_TLV_CMDID cid] @ stale"
    and "ack = \<lparr>sm_fd = clientfd peer,
                 sm_iov = datagram VNODE_MSG_CMDREQACK
                            [int32_tlv VNODE_TLV_CMDID cid, int32_tlv VNODE_TLV_CMDPID (env_fork e')],
                 sm_rights = None\<rparr>"
  shows "vnode_client_cmdreq e client io cb opaque 0 (None # rest)
         = Inr (sint cid,
                client\<lparr>next_cmdid := cid + 1,
                       cmdlisthead := cmdlisthead client
                         @ [\<lparr>cmdid = cid, pid = -1, status = -1,
                             data = \<lparr>cmddonecb = cb, cc_data = opaque\<rparr>\<rparr>]\<rparr>,
                fst (vnode_cleanupcmdio io), Sendmsg call # snd (vnode_cleanupcmdio io))
       \<and> 0 \<le> sint cid
       \<and> vnode_recv_cmdreq e' srv peer mb
         = Inr (if env_sendmsg e' ack = 32 \<and> env_fork e' \<noteq> -1
                then srv\<lparr>srv_cmdlisthead := srv_cmdlisthead srv
                            @ [\<lparr>cmdid = cid, pid = env_fork e', status = -1,
                                data = ce_self peer\<rparr>]\<rparr>
                else srv,
                [Fork (env_fork e') None []]
                @ CLOSE (infd mb) @ CLOSE (outfd mb) @ CLOSE (errfd mb) @ [Sendmsg ack])
       \<and> (\<forall>mb0. msg mb0 = datagram VNODE_MSG_CMDREQ [] @ stale \<longrightarrow>
              vnode_recv_cmdreq e' srv peer mb0 = Inr (srv, []))"
proof -
  obtain junk where junk: "env_heap e VNODE_MSGSIZMAX = Some junk" using assms(3) by auto
  obtain junk' where junk': "env_heap e' VNODE_MSGSIZMAX = Some junk'" using assms(10) by auto
  have len: "int (length (sm_iov call)) = 20"
    using length_datagram[of "[int32_tlv VNODE_TLV_CMDID cid]" VNODE_MSG_CMDREQ]
    by (simp add: assms(7))
  have c: "vnode_client_cmdreq e client io cb opaque (int (length ([] :: u8 list list)))
             (map Some [] @ None # rest)
         = (if env_sendmsg e call
                 = int (HDRSIZE + tlvs_len (int32_tlv VNODE_TLV_CMDID cid # map cmdarg_tlv []))
            then Inr (sint cid,
                      client\<lparr>next_cmdid := cid + 1,
                             cmdlisthead := cmdlisthead client
                               @ [\<lparr>cmdid = cid, pid = -1, status = -1,
                                   data = \<lparr>cmddonecb = cb, cc_data = opaque\<rparr>\<rparr>]\<rparr>,
                      fst (vnode_cleanupcmdio io), Sendmsg call # snd (vnode_cleanupcmdio io))
            else Inr (-1, client\<lparr>next_cmdid := cid + 1, cmdlisthead := cmdlisthead client\<rparr>,
                      io, [Sendmsg call]))"
    by (rule vnode_client_cmdreq_sends[OF assms(1,2) junk _ _ assms(4) _ assms(6) _ _])
       (use assms(5,7) in \<open>simp_all add: VNODE_ARGMAX_def HDRSIZE_def VNODE_MSGSIZMAX_def\<close>)
  have c': "vnode_client_cmdreq e client io cb opaque 0 (None # rest)
         = Inr (sint cid,
                client\<lparr>next_cmdid := cid + 1,
                       cmdlisthead := cmdlisthead client
                         @ [\<lparr>cmdid = cid, pid = -1, status = -1,
                             data = \<lparr>cmddonecb = cb, cc_data = opaque\<rparr>\<rparr>]\<rparr>,
                fst (vnode_cleanupcmdio io), Sendmsg call # snd (vnode_cleanupcmdio io))"
    using c assms(8) len by (simp add: HDRSIZE_def)
  have m: "msg mb = datagram VNODE_MSG_CMDREQ (int32_tlv VNODE_TLV_CMDID cid # map cmdarg_tlv []) @ stale"
    using assms(11) by simp
  have s: "vnode_recv_cmdreq e' srv peer mb
           = vnode_process_cmdreq e' srv peer
                   \<lparr>rq_cmdid = cid, rq_infd = infd mb, rq_outfd = outfd mb, rq_errfd = errfd mb,
                    rq_cmdarg = cmdarg_of (map cstring [])\<rparr>"
    using vnode_recv_cmdreq_args[OF m, of e' srv peer] by simp
  have x: "exec_argv (cmdarg_of []) = []" using exec_argv_of[of "[]"] by simp
  have s': "vnode_recv_cmdreq e' srv peer mb
         = Inr (if env_sendmsg e' ack = 32 \<and> env_fork e' \<noteq> -1
                then srv\<lparr>srv_cmdlisthead := srv_cmdlisthead srv
                            @ [\<lparr>cmdid = cid, pid = env_fork e', status = -1,
                                data = ce_self peer\<rparr>]\<rparr>
                else srv,
                [Fork (env_fork e') None []]
                @ CLOSE (infd mb) @ CLOSE (outfd mb) @ CLOSE (errfd mb) @ [Sendmsg ack])"
    unfolding s vnode_process_cmdreq_forks[OF assms(9) junk']
    by (simp add: x assms(12) cmdarg_of_def)
  show ?thesis
    using c' s' vnode_recv_cmdreq_empty_payload[of _ stale e' srv peer]
    by (simp add: assms(6))
qed

theorem empty_argv_accepted_witness:
  "vnode_client_cmdreq (env_ok 77)
     \<lparr>cmdlisthead = [], serverfd = 3, msgio_msgbuf = INIT_MSGBUF, next_cmdid = 41\<rparr>
     (VCMD_IO_PTY 4 5) (Some 1) 0 0 [None]
   = Inr (41,
          \<lparr>cmdlisthead = [\<lparr>cmdid = 41, pid = -1, status = -1,
                             data = \<lparr>cmddonecb = Some 1, cc_data = 0\<rparr>\<rparr>],
           serverfd = 3, msgio_msgbuf = INIT_MSGBUF, next_cmdid = 42\<rparr>,
          VCMD_IO_PTY 4 (-1),
          [Sendmsg \<lparr>sm_fd = 3,
                    sm_iov = datagram VNODE_MSG_CMDREQ [int32_tlv VNODE_TLV_CMDID 41],
                    sm_rights = Some (5, 5, 5)\<rparr>,
           Close 5])
   \<and> vnode_recv_cmdreq (env_ok 77) \<lparr>srv_cmdlisthead = []\<rparr> \<lparr>ce_self = 1, clientfd = 9\<rparr>
       \<lparr>msg = datagram VNODE_MSG_CMDREQ [int32_tlv VNODE_TLV_CMDID 41] @ [],
        infd = 10, outfd = 11, errfd = 12\<rparr>
   = Inr (\<lparr>srv_cmdlisthead = [\<lparr>cmdid = 41, pid = 77, status = -1, data = 1\<rparr>]\<rparr>,
          [Fork 77 None [], Close 10, Close 11, Close 12,
           Sendmsg \<lparr>sm_fd = 9,
                    sm_iov = datagram VNODE_MSG_CMDREQACK
                               [int32_tlv VNODE_TLV_CMDID 41, int32_tlv VNODE_TLV_CMDPID 77],
                    sm_rights = None\<rparr>])"
proof -
  have l1: "length (datagram VNODE_MSG_CMDREQ [int32_tlv VNODE_TLV_CMDID 41]) = 20"
    using length_datagram[of "[int32_tlv VNODE_TLV_CMDID 41]" VNODE_MSG_CMDREQ] by simp
  have l2: "length (datagram VNODE_MSG_CMDREQACK
                      [int32_tlv VNODE_TLV_CMDID 41, int32_tlv VNODE_TLV_CMDPID 77]) = 32"
    using length_datagram[of "[int32_tlv VNODE_TLV_CMDID 41, int32_tlv VNODE_TLV_CMDPID 77]"
            VNODE_MSG_CMDREQACK] by simp
  show ?thesis
    using empty_argv_accepted[where e = "env_ok 77" and e' = "env_ok 77"
        and client = "\<lparr>cmdlisthead = [], serverfd = 3, msgio_msgbuf = INIT_MSGBUF, next_cmdid = 41\<rparr>"
        and io = "VCMD_IO_PTY 4 5" and i = 5 and ou = 5 and er = 5 and cid = 41
        and call = "\<lparr>sm_fd = 3,
                    sm_iov = datagram VNODE_MSG_CMDREQ [int32_tlv VNODE_TLV_CMDID 41],
                    sm_rights = Some (5, 5, 5)\<rparr>"
        and mb = "\<lparr>msg = datagram VNODE_MSG_CMDREQ [int32_tlv VNODE_TLV_CMDID 41] @ [],
                   infd = 10, outfd = 11, errfd = 12\<rparr>"
        and stale = "[]" and peer = "\<lparr>ce_self = 1, clientfd = 9\<rparr>"
        and ack = "\<lparr>sm_fd = 9,
                    sm_iov = datagram VNODE_MSG_CMDREQACK
                               [int32_tlv VNODE_TLV_CMDID 41, int32_tlv VNODE_TLV_CMDPID 77],
                    sm_rights = None\<rparr>"
        and srv = "\<lparr>srv_cmdlisthead = []\<rparr>" and cb = "Some 1" and opaque = 0 and rest = "[]"]
      l1 l2
    by (simp add: env_ok_def vnode_setcmdio_def vnode_cleanupcmdio_def CLOSE_def)
qed

text \<open>
  C8 as claimed fails on both sides: with \<open>argc = 0\<close> the client returns the
  \<open>cmdid\<close> 0 and has sent a \<open>CMDREQ\<close>; the server, on that \<open>CMDREQ\<close>, forks
  (pid 4242), acknowledges and inserts the command.
\<close>

theorem empty_argv_rejected_counterexample:
  "vnode_client_cmdreq (env_ok 4242)
     \<lparr>cmdlisthead = [], serverfd = 3, msgio_msgbuf = INIT_MSGBUF, next_cmdid = 0\<rparr>
     VCMD_IO_NONE (Some 1) 0 0 [None]
   = Inr (0,
          \<lparr>cmdlisthead = [\<lparr>cmdid = 0, pid = -1, status = -1,
                             data = \<lparr>cmddonecb = Some 1, cc_data = 0\<rparr>\<rparr>],
           serverfd = 3, msgio_msgbuf = INIT_MSGBUF, next_cmdid = 1\<rparr>,
          VCMD_IO_NONE,
          [Sendmsg \<lparr>sm_fd = 3,
                    sm_iov = datagram VNODE_MSG_CMDREQ [int32_tlv VNODE_TLV_CMDID 0],
                    sm_rights = None\<rparr>])
   \<and> vnode_recv_cmdreq (env_ok 4242) \<lparr>srv_cmdlisthead = []\<rparr> \<lparr>ce_self = 1, clientfd = 9\<rparr>
       \<lparr>msg = datagram VNODE_MSG_CMDREQ [int32_tlv VNODE_TLV_CMDID 0],
        infd = -1, outfd = -1, errfd = -1\<rparr>
   = Inr (\<lparr>srv_cmdlisthead = [\<lparr>cmdid = 0, pid = 4242, status = -1, data = 1\<rparr>]\<rparr>,
          [Fork 4242 None [],
           Sendmsg \<lparr>sm_fd = 9,
                    sm_iov = datagram VNODE_MSG_CMDREQACK
                               [int32_tlv VNODE_TLV_CMDID 0, int32_tlv VNODE_TLV_CMDPID 4242],
                    sm_rights = None\<rparr>])"
proof -
  let ?call = "\<lparr>sm_fd = 3, sm_iov = datagram VNODE_MSG_CMDREQ [int32_tlv VNODE_TLV_CMDID 0],
                 sm_rights = None\<rparr>"
  have l1: "length (datagram VNODE_MSG_CMDREQ [int32_tlv VNODE_TLV_CMDID 0]) = 20"
    using length_datagram[of "[int32_tlv VNODE_TLV_CMDID 0]" VNODE_MSG_CMDREQ] by simp
  have l2: "length (datagram VNODE_MSG_CMDREQACK
                      [int32_tlv VNODE_TLV_CMDID 0, int32_tlv VNODE_TLV_CMDPID 4242]) = 32"
    using length_datagram[of "[int32_tlv VNODE_TLV_CMDID 0, int32_tlv VNODE_TLV_CMDPID 4242]"
            VNODE_MSG_CMDREQACK] by simp
  have c: "vnode_client_cmdreq (env_ok 4242)
     \<lparr>cmdlisthead = [], serverfd = 3, msgio_msgbuf = INIT_MSGBUF, next_cmdid = 0\<rparr>
     VCMD_IO_NONE (Some 1) 0 (int (length ([] :: u8 list list))) (map Some [] @ None # [])
   = Inr (0,
          \<lparr>cmdlisthead = [\<lparr>cmdid = 0, pid = -1, status = -1,
                             data = \<lparr>cmddonecb = Some 1, cc_data = 0\<rparr>\<rparr>],
           serverfd = 3, msgio_msgbuf = INIT_MSGBUF, next_cmdid = 1\<rparr>,
          VCMD_IO_NONE, [Sendmsg ?call])"
    using vnode_client_cmdreq_sends[where e = "env_ok 4242" and junk = "\<lambda>i. 0" and ss = "[]"
        and io = VCMD_IO_NONE and i = "-1" and ou = "-1" and er = "-1" and cid = 0
        and client = "\<lparr>cmdlisthead = [], serverfd = 3, msgio_msgbuf = INIT_MSGBUF, next_cmdid = 0\<rparr>"
        and call = ?call and cb = "Some 1" and opaque = 0 and rest = "[]"] l1
    by (simp add: env_ok_def vnode_setcmdio_def vnode_cleanupcmdio_def VNODE_ARGMAX_def
        HDRSIZE_def VNODE_MSGSIZMAX_def)
  have m: "msg \<lparr>msg = datagram VNODE_MSG_CMDREQ [int32_tlv VNODE_TLV_CMDID 0],
        infd = -1, outfd = -1, errfd = -1\<rparr>
       = datagram VNODE_MSG_CMDREQ (int32_tlv VNODE_TLV_CMDID 0 # map cmdarg_tlv []) @ []"
    by simp
  have x: "exec_argv (cmdarg_of []) = []" using exec_argv_of[of "[]"] by simp
  have s: "vnode_recv_cmdreq (env_ok 4242) \<lparr>srv_cmdlisthead = []\<rparr> \<lparr>ce_self = 1, clientfd = 9\<rparr>
       \<lparr>msg = datagram VNODE_MSG_CMDREQ [int32_tlv VNODE_TLV_CMDID 0],
        infd = -1, outfd = -1, errfd = -1\<rparr>
   = Inr (\<lparr>srv_cmdlisthead = [\<lparr>cmdid = 0, pid = 4242, status = -1, data = 1\<rparr>]\<rparr>,
          [Fork 4242 None [],
           Sendmsg \<lparr>sm_fd = 9,
                    sm_iov = datagram VNODE_MSG_CMDREQACK
                               [int32_tlv VNODE_TLV_CMDID 0, int32_tlv VNODE_TLV_CMDPID 4242],
                    sm_rights = None\<rparr>])"
    using vnode_recv_cmdreq_args[OF m, of "env_ok 4242" "\<lparr>srv_cmdlisthead = []\<rparr>"
            "\<lparr>ce_self = 1, clientfd = 9\<rparr>"]
      vnode_process_cmdreq_forks[where e = "env_ok 4242" and junk = "\<lambda>i. 0"
        and srv = "\<lparr>srv_cmdlisthead = []\<rparr>" and client = "\<lparr>ce_self = 1, clientfd = 9\<rparr>"
        and rq = "\<lparr>rq_cmdid = 0, rq_infd = -1, rq_outfd = -1, rq_errfd = -1,
                    rq_cmdarg = cmdarg_of []\<rparr>"] l2 x
    by (simp add: env_ok_def CLOSE_def cmdarg_of_def)
  show ?thesis using c s by simp
qed








lemma parse_cmdreqack:
  "vnode_parsemsg (datagram mtype [int32_tlv VNODE_TLV_CMDID cid, int32_tlv VNODE_TLV_CMDPID p]
                   @ stale) CMDREQACK_INIT cmdreqack_tlvhandler
   = Inr (0, \<lparr>ack_cmdid = cid, ack_pid = p\<rparr>)"
proof -
  have "vnode_parsemsg (datagram mtype [int32_tlv VNODE_TLV_CMDID cid, int32_tlv VNODE_TLV_CMDPID p]
                   @ stale) CMDREQACK_INIT cmdreqack_tlvhandler
        = dispatch cmdreqack_tlvhandler
            [int32_tlv VNODE_TLV_CMDID cid, int32_tlv VNODE_TLV_CMDPID p] (-1) CMDREQACK_INIT"
    by (rule vnode_parsemsg_datagram) simp_all
  also have "\<dots> = Inr (0, \<lparr>ack_cmdid = cid, ack_pid = p\<rparr>)"
    by (simp add: cmdreqack_tlvhandler_def nth_tlvhandler_table
        VNODE_TLV_CMDID_def VNODE_TLV_CMDPID_def VNODE_TLV_MAX_def
        tlv_cmdreqack_cmdid_def tlv_cmdreqack_cmdpid_def CMDREQACK_INIT_def)
  finally show ?thesis .
qed

lemma parse_cmdstatus:
  "vnode_parsemsg (datagram mtype [int32_tlv VNODE_TLV_CMDID cid, int32_tlv VNODE_TLV_CMDSTATUS s]
                   @ stale) CMDSTATUS_INIT cmdstatus_tlvhandler
   = Inr (0, \<lparr>st_cmdid = cid, st_status = s\<rparr>)"
proof -
  have "vnode_parsemsg (datagram mtype [int32_tlv VNODE_TLV_CMDID cid, int32_tlv VNODE_TLV_CMDSTATUS s]
                   @ stale) CMDSTATUS_INIT cmdstatus_tlvhandler
        = dispatch cmdstatus_tlvhandler
            [int32_tlv VNODE_TLV_CMDID cid, int32_tlv VNODE_TLV_CMDSTATUS s] (-1) CMDSTATUS_INIT"
    by (rule vnode_parsemsg_datagram) simp_all
  also have "\<dots> = Inr (0, \<lparr>st_cmdid = cid, st_status = s\<rparr>)"
    by (simp add: cmdstatus_tlvhandler_def nth_tlvhandler_table
        VNODE_TLV_CMDID_def VNODE_TLV_CMDSTATUS_def VNODE_TLV_MAX_def
        tlv_cmdstatus_cmdid_def tlv_cmdstatus_status_def CMDSTATUS_INIT_def)
  finally show ?thesis .
qed

lemma vnode_clientrecv_cmdreqack_datagram:
  assumes "msg (msgio_msgbuf client)
           = datagram VNODE_MSG_CMDREQACK [int32_tlv VNODE_TLV_CMDID cid, int32_tlv VNODE_TLV_CMDPID p]
             @ stale"
  shows "vnode_clientrecv_cmdreqack client
         = (case find (\<lambda>cmd. cmdid cmd = cid) (cmdlisthead client) of
              None \<Rightarrow> Inr (client, [])
            | Some cmd \<Rightarrow>
                if p = -1
                then Inr (client\<lparr>cmdlisthead := tailq_remove (\<lambda>cmd. cmdid cmd = cid) (cmdlisthead client)\<rparr>,
                          vnode_client_cmddone (cmd\<lparr>pid := p, status := -1\<rparr>))
                else Inr (client\<lparr>cmdlisthead := tailq_update (\<lambda>cmd. cmdid cmd = cid)
                                          (\<lambda>cmd. cmd\<lparr>pid := p\<rparr>) (cmdlisthead client)\<rparr>, []))"
  by (simp add: vnode_clientrecv_cmdreqack_def assms parse_cmdreqack split: option.splits)

lemma vnode_clientrecv_cmdstatus_datagram:
  assumes "msg (msgio_msgbuf client)
           = datagram VNODE_MSG_CMDSTATUS [int32_tlv VNODE_TLV_CMDID cid, int32_tlv VNODE_TLV_CMDSTATUS s]
             @ stale"
  shows "vnode_clientrecv_cmdstatus client
         = (case find (\<lambda>cmd. cmdid cmd = cid) (cmdlisthead client) of
              None \<Rightarrow> Inr (client, [])
            | Some cmd \<Rightarrow>
                Inr (client\<lparr>cmdlisthead := tailq_remove (\<lambda>cmd. cmdid cmd = cid) (cmdlisthead client)\<rparr>,
                     vnode_client_cmddone (cmd\<lparr>status := s\<rparr>)))"
  by (simp add: vnode_clientrecv_cmdstatus_def assms parse_cmdstatus split: option.splits)

lemma wellformed_datagram_datagram:
  assumes "\<forall>t \<in> set ts. tlv_ok t" "tlvs_len ts < 2 ^ 32" "mtype \<noteq> VNODE_MSG_NONE"
    "mtype < VNODE_MSG_MAX"
  shows "wellformed_datagram (datagram mtype ts)"
  using assms hdr_type_datagram[of mtype ts "[]"] hdr_datalen_datagram[of mtype ts "[]"]
    length_datagram[OF assms(1), of mtype]
  by (simp add: wellformed_datagram_def HDRSIZE_def unat_datalen)

lemma vnode_recvmsg_wellformed:
  assumes "VNODE_MSGSIZMAX \<le> msgbufsize mb \<or> heap VNODE_MSGSIZMAX \<noteq> None"
    "wellformed_datagram d" "length d \<le> VNODE_MSGSIZMAX"
  shows "\<exists>mb' stale. vnode_recvmsg heap (Recv_data d rights) mb = (int (length d), mb')
                      \<and> msg mb' = d @ stale"
proof -
  obtain mb1 where r: "(if msgbufsize mb < VNODE_MSGSIZMAX
                then vnode_resizemsgbuf heap mb VNODE_MSGSIZMAX else (0, mb)) = (0, mb1)"
    and l: "msgbufsize mb1 = max (msgbufsize mb) VNODE_MSGSIZMAX"
    using recv_buffer[of mb heap] assms(1) by blast
  have t: "take (max (msgbufsize mb) VNODE_MSGSIZMAX) d = d" using assms(3) by simp
  have ne: "d \<noteq> []" using assms(2) by (auto simp: wellformed_datagram_def HDRSIZE_def)
  have ld: "length d \<le> length (msg mb1)" using assms(3) by (simp add: l)
  have w: "write_at (msg mb1) 0 d = d @ drop (length d) (msg mb1)"
    by (rule write_at_0[OF ld])
  have f: "fst (vnode_recvmsg heap (Recv_data d rights) mb) = int (length d)"
    using vnode_recvmsg_char[of mb heap "Recv_data d rights"] assms(1,2) ne by (simp add: t)
  have s: "msg (snd (vnode_recvmsg heap (Recv_data d rights) mb)) = d @ drop (length d) (msg mb1)"
    by (rule vnode_recvmsg_buf[OF r l t w ne])
  show ?thesis
    using f s by (cases "vnode_recvmsg heap (Recv_data d rights) mb") auto
qed

lemma wellformed_two_int32:
  assumes "mtype \<noteq> VNODE_MSG_NONE" "mtype < VNODE_MSG_MAX"
  shows "wellformed_datagram (datagram mtype [int32_tlv a x, int32_tlv b y])"
    and "length (datagram mtype [int32_tlv a x, int32_tlv b y]) = 32"
  using wellformed_datagram_datagram[of "[int32_tlv a x, int32_tlv b y]" mtype] assms
    length_datagram[of "[int32_tlv a x, int32_tlv b y]" mtype]
  by simp_all

lemma vnode_msg_cb_cmdreqack:
  assumes "VNODE_MSGSIZMAX \<le> msgbufsize (msgio_msgbuf client) \<or> heap VNODE_MSGSIZMAX \<noteq> None"
  shows "\<exists>mb' stale.
           msg mb' = datagram VNODE_MSG_CMDREQACK
                       [int32_tlv VNODE_TLV_CMDID cid, int32_tlv VNODE_TLV_CMDPID p] @ stale
           \<and> vnode_msg_cb heap
                (Recv_data (datagram VNODE_MSG_CMDREQACK
                              [int32_tlv VNODE_TLV_CMDID cid, int32_tlv VNODE_TLV_CMDPID p]) rights)
                client
             = vnode_clientrecv_cmdreqack (client\<lparr>msgio_msgbuf := mb'\<rparr>)"
proof -
  let ?d = "datagram VNODE_MSG_CMDREQACK [int32_tlv VNODE_TLV_CMDID cid, int32_tlv VNODE_TLV_CMDPID p]"
  have wf: "wellformed_datagram ?d" and len: "length ?d = 32"
    by (rule wellformed_two_int32; simp add: VNODE_MSG_CMDREQACK_def VNODE_MSG_NONE_def VNODE_MSG_MAX_def)+
  obtain mb' stale where r: "vnode_recvmsg heap (Recv_data ?d rights) (msgio_msgbuf client)
                             = (int (length ?d), mb')" and m: "msg mb' = ?d @ stale"
    using vnode_recvmsg_wellformed[of "msgio_msgbuf client" heap ?d rights] assms wf len
    by (auto simp: VNODE_MSGSIZMAX_def)
  have "vnode_msg_cb heap (Recv_data ?d rights) client
        = vnode_clientrecv_cmdreqack (client\<lparr>msgio_msgbuf := mb'\<rparr>)"
    by (simp add: vnode_msg_cb_def r len m)
  then show ?thesis using m by blast
qed

lemma vnode_msg_cb_cmdstatus:
  assumes "VNODE_MSGSIZMAX \<le> msgbufsize (msgio_msgbuf client) \<or> heap VNODE_MSGSIZMAX \<noteq> None"
  shows "\<exists>mb' stale.
           msg mb' = datagram VNODE_MSG_CMDSTATUS
                       [int32_tlv VNODE_TLV_CMDID cid, int32_tlv VNODE_TLV_CMDSTATUS s] @ stale
           \<and> vnode_msg_cb heap
                (Recv_data (datagram VNODE_MSG_CMDSTATUS
                              [int32_tlv VNODE_TLV_CMDID cid, int32_tlv VNODE_TLV_CMDSTATUS s]) rights)
                client
             = vnode_clientrecv_cmdstatus (client\<lparr>msgio_msgbuf := mb'\<rparr>)"
proof -
  let ?d = "datagram VNODE_MSG_CMDSTATUS [int32_tlv VNODE_TLV_CMDID cid, int32_tlv VNODE_TLV_CMDSTATUS s]"
  have ne: "VNODE_MSG_CMDSTATUS \<noteq> VNODE_MSG_CMDREQACK"
    by (simp add: VNODE_MSG_CMDSTATUS_def VNODE_MSG_CMDREQACK_def)
  have wf: "wellformed_datagram ?d" and len: "length ?d = 32"
    by (rule wellformed_two_int32; simp add: VNODE_MSG_CMDSTATUS_def VNODE_MSG_NONE_def VNODE_MSG_MAX_def)+
  obtain mb' stale where r: "vnode_recvmsg heap (Recv_data ?d rights) (msgio_msgbuf client)
                             = (int (length ?d), mb')" and m: "msg mb' = ?d @ stale"
    using vnode_recvmsg_wellformed[of "msgio_msgbuf client" heap ?d rights] assms wf len
    by (auto simp: VNODE_MSGSIZMAX_def)
  have "vnode_msg_cb heap (Recv_data ?d rights) client
        = vnode_clientrecv_cmdstatus (client\<lparr>msgio_msgbuf := mb'\<rparr>)"
    using ne by (simp add: vnode_msg_cb_def r len m)
  then show ?thesis using m by blast
qed

lemma find_cmdid_None:
  "\<forall>cmd \<in> set cmds. cmdid cmd \<noteq> cid \<Longrightarrow> find (\<lambda>cmd. cmdid cmd = cid) cmds = None"
  by (simp add: find_None_iff)

text \<open>
  C10. When no entry of the in-flight table has the \<open>cmdid\<close> of a \<open>CMDREQACK{cmdid,
  pid}\<close> or \<open>CMDSTATUS{cmdid, status}\<close> (framed as the server's senders do), the
  handler returns the client as it was and calls nothing; received through
  \<open>vnode_msg_cb\<close>, only the message buffer has changed.
\<close>

theorem unknown_cmdid_ignored:
  assumes "\<forall>cmd \<in> set (cmdlisthead client). cmdid cmd \<noteq> cid"
  shows "(msg (msgio_msgbuf client)
            = datagram VNODE_MSG_CMDREQACK
                [int32_tlv VNODE_TLV_CMDID cid, int32_tlv VNODE_TLV_CMDPID p] @ stale \<longrightarrow>
          vnode_clientrecv_cmdreqack client = Inr (client, []))
       \<and> (msg (msgio_msgbuf client)
            = datagram VNODE_MSG_CMDSTATUS
                [int32_tlv VNODE_TLV_CMDID cid, int32_tlv VNODE_TLV_CMDSTATUS s] @ stale \<longrightarrow>
          vnode_clientrecv_cmdstatus client = Inr (client, []))
       \<and> (VNODE_MSGSIZMAX \<le> msgbufsize (msgio_msgbuf client) \<or> heap VNODE_MSGSIZMAX \<noteq> None \<longrightarrow>
          (\<exists>mb'. vnode_msg_cb heap
                    (Recv_data (datagram VNODE_MSG_CMDREQACK
                       [int32_tlv VNODE_TLV_CMDID cid, int32_tlv VNODE_TLV_CMDPID p]) rights) client
                  = Inr (client\<lparr>msgio_msgbuf := mb'\<rparr>, []))
          \<and> (\<exists>mb'. vnode_msg_cb heap
                    (Recv_data (datagram VNODE_MSG_CMDSTATUS
                       [int32_tlv VNODE_TLV_CMDID cid, int32_tlv VNODE_TLV_CMDSTATUS s]) rights) client
                  = Inr (client\<lparr>msgio_msgbuf := mb'\<rparr>, [])))"
proof -
  have f: "find (\<lambda>cmd. cmdid cmd = cid) (cmdlisthead client) = None"
    by (rule find_cmdid_None[OF assms])
  have a: "vnode_clientrecv_cmdreqack c = Inr (c, [])"
    if "msg (msgio_msgbuf c) = datagram VNODE_MSG_CMDREQACK
                [int32_tlv VNODE_TLV_CMDID cid, int32_tlv VNODE_TLV_CMDPID p] @ st"
      "cmdlisthead c = cmdlisthead client" for c st
    using vnode_clientrecv_cmdreqack_datagram[OF that(1)] f that(2) by simp
  have b: "vnode_clientrecv_cmdstatus c = Inr (c, [])"
    if "msg (msgio_msgbuf c) = datagram VNODE_MSG_CMDSTATUS
                [int32_tlv VNODE_TLV_CMDID cid, int32_tlv VNODE_TLV_CMDSTATUS s] @ st"
      "cmdlisthead c = cmdlisthead client" for c st
    using vnode_clientrecv_cmdstatus_datagram[OF that(1)] f that(2) by simp
  have c: "\<exists>mb'. vnode_msg_cb heap
                    (Recv_data (datagram VNODE_MSG_CMDREQACK
                       [int32_tlv VNODE_TLV_CMDID cid, int32_tlv VNODE_TLV_CMDPID p]) rights) client
                  = Inr (client\<lparr>msgio_msgbuf := mb'\<rparr>, [])"
    if h: "VNODE_MSGSIZMAX \<le> msgbufsize (msgio_msgbuf client) \<or> heap VNODE_MSGSIZMAX \<noteq> None"
  proof -
    obtain mb' st where m: "msg mb' = datagram VNODE_MSG_CMDREQACK
                       [int32_tlv VNODE_TLV_CMDID cid, int32_tlv VNODE_TLV_CMDPID p] @ st"
      and e: "vnode_msg_cb heap
                (Recv_data (datagram VNODE_MSG_CMDREQACK
                              [int32_tlv VNODE_TLV_CMDID cid, int32_tlv VNODE_TLV_CMDPID p]) rights)
                client
             = vnode_clientrecv_cmdreqack (client\<lparr>msgio_msgbuf := mb'\<rparr>)"
      using vnode_msg_cb_cmdreqack[of client heap cid p rights] h by blast
    show ?thesis
      using e a[of "client\<lparr>msgio_msgbuf := mb'\<rparr>" st] m by auto
  qed
  have d: "\<exists>mb'. vnode_msg_cb heap
                    (Recv_data (datagram VNODE_MSG_CMDSTATUS
                       [int32_tlv VNODE_TLV_CMDID cid, int32_tlv VNODE_TLV_CMDSTATUS s]) rights) client
                  = Inr (client\<lparr>msgio_msgbuf := mb'\<rparr>, [])"
    if h: "VNODE_MSGSIZMAX \<le> msgbufsize (msgio_msgbuf client) \<or> heap VNODE_MSGSIZMAX \<noteq> None"
  proof -
    obtain mb' st where m: "msg mb' = datagram VNODE_MSG_CMDSTATUS
                       [int32_tlv VNODE_TLV_CMDID cid, int32_tlv VNODE_TLV_CMDSTATUS s] @ st"
      and e: "vnode_msg_cb heap
                (Recv_data (datagram VNODE_MSG_CMDSTATUS
                              [int32_tlv VNODE_TLV_CMDID cid, int32_tlv VNODE_TLV_CMDSTATUS s]) rights)
                client
             = vnode_clientrecv_cmdstatus (client\<lparr>msgio_msgbuf := mb'\<rparr>)"
      using vnode_msg_cb_cmdstatus[of client heap cid s rights] h by blast
    show ?thesis
      using e b[of "client\<lparr>msgio_msgbuf := mb'\<rparr>" st] m by auto
  qed
  show ?thesis
    using a[of client stale] b[of client stale] c d by blast
qed

theorem unknown_cmdid_ignored_witness:
  "vnode_clientrecv_cmdreqack
     \<lparr>cmdlisthead = [\<lparr>cmdid = 0, pid = -1, status = -1,
                       data = \<lparr>cmddonecb = Some 1, cc_data = 0\<rparr>\<rparr>],
      serverfd = 3,
      msgio_msgbuf = \<lparr>msg = datagram VNODE_MSG_CMDREQACK
                              [int32_tlv VNODE_TLV_CMDID 5, int32_tlv VNODE_TLV_CMDPID 77] @ [],
                      infd = -1, outfd = -1, errfd = -1\<rparr>,
      next_cmdid = 1\<rparr>
   = Inr (\<lparr>cmdlisthead = [\<lparr>cmdid = 0, pid = -1, status = -1,
                              data = \<lparr>cmddonecb = Some 1, cc_data = 0\<rparr>\<rparr>],
           serverfd = 3,
           msgio_msgbuf = \<lparr>msg = datagram VNODE_MSG_CMDREQACK
                                   [int32_tlv VNODE_TLV_CMDID 5, int32_tlv VNODE_TLV_CMDPID 77] @ [],
                           infd = -1, outfd = -1, errfd = -1\<rparr>,
           next_cmdid = 1\<rparr>, [])"
  using unknown_cmdid_ignored[where
      client = "\<lparr>cmdlisthead = [\<lparr>cmdid = 0, pid = -1, status = -1,
                       data = \<lparr>cmddonecb = Some 1, cc_data = 0\<rparr>\<rparr>],
      serverfd = 3,
      msgio_msgbuf = \<lparr>msg = datagram VNODE_MSG_CMDREQACK
                              [int32_tlv VNODE_TLV_CMDID 5, int32_tlv VNODE_TLV_CMDPID 77] @ [],
                      infd = -1, outfd = -1, errfd = -1\<rparr>,
      next_cmdid = 1\<rparr>" and cid = 5 and p = 77 and stale = "[]"]
  by simp

lemma dones_append [simp]: "dones (a @ b) = dones a @ dones b"
  by (simp add: dones_def)

lemma dones_Nil [simp]: "dones [] = []"
  by (simp add: dones_def)

lemma dones_CLOSE [simp]: "dones (CLOSE fd) = []"
  by (simp add: dones_def CLOSE_def)

lemma dones_Sendmsg [simp]: "dones (Sendmsg call # acts) = dones acts"
  by (simp add: dones_def)

lemma dones_Ioerrorcb [simp]: "dones [Ioerrorcb] = []"
  by (simp add: dones_def)

lemma pending_Nil [simp]: "pending [] = []"
  by (simp add: pending_def)

lemma pending_Cons: "pending (cmd # cmds) = pending [cmd] @ pending cmds"
  by (simp add: pending_def)

lemma pending_append [simp]: "pending (a @ b) = pending a @ pending b"
  by (simp add: pending_def)

lemma dones_cmddone:
  "dones (vnode_client_cmddone cmd) = pending [cmd]"
  by (simp add: vnode_client_cmddone_def dones_def pending_def split: option.splits)

lemma pending_pid_status [simp]:
  "pending [cmd\<lparr>pid := p\<rparr>] = pending [cmd]" "pending [cmd\<lparr>status := s\<rparr>] = pending [cmd]"
  by (simp_all add: pending_def split: option.splits)

lemma delclient_loop_calls:
  "delclient_loop cmds
   = concat (map (\<lambda>cmd. case cmddonecb (data cmd) of
                          None \<Rightarrow> []
                        | Some f \<Rightarrow> [Cmddonecb f (cmdid cmd) (pid cmd) (-1) (cc_data (data cmd))])
               cmds)"
  by (induction cmds) (simp_all add: vnode_client_cmddone_def split: option.splits)

lemma dones_delclient_loop: "dones (delclient_loop cmds) = pending cmds"
proof (induction cmds)
  case Nil
  then show ?case by simp
next
  case (Cons cmd cmds)
  then show ?case
    using pending_Cons[of cmd cmds] by (simp add: dones_cmddone)
qed

lemma pending_tailq_remove:
  "find P cmds = Some x \<Longrightarrow>
   mset (pending (tailq_remove P cmds)) + mset (pending [x]) = mset (pending cmds)"
proof (induction cmds)
  case Nil
  then show ?case by simp
next
  case (Cons cmd cmds)
  show ?case
  proof (cases "P cmd")
    case True
    then show ?thesis using Cons.prems pending_Cons[of cmd cmds] by simp
  next
    case False
    then have "mset (pending (tailq_remove P cmds)) + mset (pending [x]) = mset (pending cmds)"
      using Cons by simp
    then show ?thesis
      using False pending_Cons[of cmd cmds] pending_Cons[of cmd "tailq_remove P cmds"]
      by (simp add: ac_simps)
  qed
qed

lemma pending_tailq_update_pid:
  "pending (tailq_update P (\<lambda>cmd. cmd\<lparr>pid := p\<rparr>) cmds) = pending cmds"
proof (induction cmds)
  case Nil
  then show ?case by simp
next
  case (Cons cmd cmds)
  then show ?case
    using pending_Cons[of cmd cmds] pending_Cons[of cmd "tailq_update P (\<lambda>cmd. cmd\<lparr>pid := p\<rparr>) cmds"]
      pending_Cons[of "cmd\<lparr>pid := p\<rparr>" cmds]
    by simp
qed

lemma pending_tailq_remove':
  "find P cmds = Some x \<Longrightarrow>
   mset (pending [x]) + mset (pending (tailq_remove P cmds)) = mset (pending cmds)"
  using pending_tailq_remove[of P cmds x] by (simp add: ac_simps)

lemma cmdreqack_balance:
  assumes "vnode_clientrecv_cmdreqack c = Inr (c', acts)"
  shows "mset (dones acts) + mset (pending (cmdlisthead c')) = mset (pending (cmdlisthead c))"
  using assms
  by (auto simp: vnode_clientrecv_cmdreqack_def dones_cmddone pending_tailq_update_pid
      pending_tailq_remove' split: if_splits sum.splits prod.splits option.splits)

lemma cmdstatus_balance:
  assumes "vnode_clientrecv_cmdstatus c = Inr (c', acts)"
  shows "mset (dones acts) + mset (pending (cmdlisthead c')) = mset (pending (cmdlisthead c))"
  using assms
  by (auto simp: vnode_clientrecv_cmdstatus_def dones_cmddone
      pending_tailq_remove' split: if_splits sum.splits prod.splits option.splits)

lemma msg_cb_balance:
  assumes "vnode_msg_cb heap rx c = Inr (c', acts)"
  shows "mset (dones acts) + mset (pending (cmdlisthead c')) = mset (pending (cmdlisthead c))"
proof -
  obtain tmp mb where r: "vnode_recvmsg heap rx (msgio_msgbuf c) = (tmp, mb)"
    by (cases "vnode_recvmsg heap rx (msgio_msgbuf c)")
  show ?thesis
    using assms cmdreqack_balance[of "c\<lparr>msgio_msgbuf := mb\<rparr>" c' acts]
      cmdstatus_balance[of "c\<lparr>msgio_msgbuf := mb\<rparr>" c' acts]
    by (auto simp: vnode_msg_cb_def r split: if_splits)
qed

lemma submitted_Nil [simp]: "submitted [] = []"
  by (simp add: submitted_def)

lemma submitted_Cons: "submitted (r # rs) = submitted [r] @ submitted rs"
  by (simp add: submitted_def)

lemma send_with_dones:
  "send_with e fd mtype addtlvs ifd ofd efd = Inr (rc, acts) \<Longrightarrow> dones acts = []"
  using send_with_rights[of e fd mtype addtlvs ifd ofd efd rc acts] by auto

lemma cleanup_dones [simp]: "dones (snd (vnode_cleanupcmdio io)) = []"
  by (cases io) (simp_all add: vnode_cleanupcmdio_def)

lemma of_int_sint_i32: "of_int (sint (w :: i32)) = w"
  by simp

lemma send_cmdreq_dones:
  "vnode_send_cmdreq e fd cid argv ifd ofd efd = Inr (rc, acts) \<Longrightarrow> dones acts = []"
  unfolding vnode_send_cmdreq_def by (rule send_with_dones)

lemma cmdreq_balance:
  assumes "vnode_client_cmdreq e c io cb opaque argc argv = Inr (ret, c', io', acts)"
  shows "dones acts = []
         \<and> pending (cmdlisthead c') = pending (cmdlisthead c) @ submitted [(ret, cb, opaque)]"
  using assms
  by (auto simp: vnode_client_cmdreq_def Let_def submitted_def pending_def
      dest: send_cmdreq_dones split: if_splits sum.splits prod.splits option.splits)

lemma client_run_balance:
  assumes "client_run c evs = Inr (c', acts, rets)"
  shows "mset (dones acts) + mset (pending (cmdlisthead c'))
         = mset (pending (cmdlisthead c)) + mset (submitted rets)"
  using assms
proof (induction evs arbitrary: c c' acts rets)
  case Nil
  then show ?case by simp
next
  case (Cons ev evs)
  show ?case
  proof (cases ev)
    case (Ev_cmdreq e io cb opaque argc argv)
    from Cons.prems obtain ret c1 io1 a1 c2 a2 rs where
      s: "vnode_client_cmdreq e c io cb opaque argc argv = Inr (ret, c1, io1, a1)"
      and r: "client_run c1 evs = Inr (c2, a2, rs)"
      and e: "c' = c2" "acts = a1 @ a2" "rets = (ret, cb, opaque) # rs"
      by (auto simp: Ev_cmdreq split: sum.splits prod.splits)
    have b: "dones a1 = []"
      "pending (cmdlisthead c1) = pending (cmdlisthead c) @ submitted [(ret, cb, opaque)]"
      using cmdreq_balance[OF s] by simp_all
    have ih: "mset (dones a2) + mset (pending (cmdlisthead c2))
              = mset (pending (cmdlisthead c1)) + mset (submitted rs)"
      by (rule Cons.IH[OF r])
    show ?thesis
      using ih b e submitted_Cons[of "(ret, cb, opaque)" rs] by simp
  next
    case (Ev_readable heap rx)
    from Cons.prems obtain c1 a1 c2 a2 rs where
      s: "vnode_msg_cb heap rx c = Inr (c1, a1)"
      and r: "client_run c1 evs = Inr (c2, a2, rs)"
      and e: "c' = c2" "acts = a1 @ a2" "rets = rs"
      by (auto simp: Ev_readable split: sum.splits prod.splits)
    have b: "mset (dones a1) + mset (pending (cmdlisthead c1)) = mset (pending (cmdlisthead c))"
      by (rule msg_cb_balance[OF s])
    have ih: "mset (dones a2) + mset (pending (cmdlisthead c2))
              = mset (pending (cmdlisthead c1)) + mset (submitted rs)"
      by (rule Cons.IH[OF r])
    show ?thesis
      using ih b e by (simp add: ac_simps)
  qed
qed

lemma cmdreq_ls_none_env_ok:
  assumes "0 \<le> sint (next_cmdid c)"
  shows "vnode_client_cmdreq (env_ok child) c VCMD_IO_NONE cb opaque 1 [Some [108, 115], None]
         = Inr (sint (next_cmdid c),
                c\<lparr>next_cmdid := next_cmdid c + 1,
                  cmdlisthead := cmdlisthead c
                    @ [\<lparr>cmdid = next_cmdid c, pid = -1, status = -1,
                        data = \<lparr>cmddonecb = cb, cc_data = opaque\<rparr>\<rparr>]\<rparr>,
                VCMD_IO_NONE,
                [Sendmsg \<lparr>sm_fd = serverfd c,
                          sm_iov = datagram VNODE_MSG_CMDREQ
                                     [int32_tlv VNODE_TLV_CMDID (next_cmdid c), cmdarg_tlv [108, 115]],
                          sm_rights = None\<rparr>])"
proof -
  let ?ts = "[int32_tlv VNODE_TLV_CMDID (next_cmdid c), cmdarg_tlv [108, 115]]"
  let ?call = "\<lparr>sm_fd = serverfd c, sm_iov = datagram VNODE_MSG_CMDREQ ?ts, sm_rights = None\<rparr>"
  have sl: "strlen [108, 115 :: u8] = 2" by (simp add: strlen_def)
  have tl: "tlvs_len ?ts = 23"
    by (simp add: tlvs_len_def int32_tlv_def cmdarg_tlv_def sl TLVSIZE_def)
  have ok: "\<forall>t \<in> set ?ts. tlv_ok t"
    by (simp add: tlv_ok_cmdarg sl)
  have len: "length (datagram VNODE_MSG_CMDREQ ?ts) = 31"
    using length_datagram[OF ok, of VNODE_MSG_CMDREQ] by (simp add: tl)
  show ?thesis
    using vnode_client_cmdreq_sends[where e = "env_ok child" and junk = "\<lambda>i. 0"
        and ss = "[[108, 115]]" and io = VCMD_IO_NONE and i = "-1" and ou = "-1" and er = "-1"
        and cid = "next_cmdid c" and client = c
        and call = ?call and cb = cb and opaque = opaque and rest = "[]"] assms len
    by (simp add: env_ok_def VNODE_ARGMAX_def HDRSIZE_def VNODE_MSGSIZMAX_def sl tl
        vnode_setcmdio_def vnode_cleanupcmdio_def)
qed

text \<open>
  C7. \<open>vnode_delclient\<close> closes the server descriptor and then, for each entry of the
  in-flight table in order, calls the entry's completion callback (when it has one)
  with the entry's \<open>cmdid\<close> and \<open>pid\<close> and status -1; the table is empty
  afterwards. Over any run of requests and received messages that starts with an
  empty table and ends with \<open>vnode_delclient\<close>, the completions delivered are, as a
  multiset, exactly those owed: one for each successful \<open>vnode_client_cmdreq\<close> that
  registered a callback, with the \<open>cmdid\<close> it returned.
\<close>

theorem delclient_completes_all:
  "snd (vnode_delclient client)
     = CLOSE (serverfd client)
       @ concat (map (\<lambda>cmd. case cmddonecb (data cmd) of
                               None \<Rightarrow> []
                             | Some f \<Rightarrow> [Cmddonecb f (cmdid cmd) (pid cmd) (-1)
                                           (cc_data (data cmd))])
                   (cmdlisthead client))
   \<and> cmdlisthead (fst (vnode_delclient client)) = []
   \<and> (cmdlisthead client0 = [] \<and> client_run client0 evs = Inr (client1, acts, rets) \<longrightarrow>
        mset (dones (acts @ snd (vnode_delclient client1))) = mset (submitted rets))"
proof -
  have b: "mset (dones (acts @ snd (vnode_delclient client1))) = mset (submitted rets)"
    if e: "cmdlisthead client0 = []" and r: "client_run client0 evs = Inr (client1, acts, rets)"
    using client_run_balance[OF r] e
    by (simp add: vnode_delclient_def dones_delclient_loop)
  show ?thesis
    using b by (simp add: vnode_delclient_def delclient_loop_calls)
qed


theorem delclient_completes_all_witness:
  "\<exists>client1 acts rets.
     client_run \<lparr>cmdlisthead = [], serverfd = 3, msgio_msgbuf = INIT_MSGBUF, next_cmdid = 0\<rparr>
       [Ev_cmdreq (env_ok 0) VCMD_IO_NONE (Some 7) 10 1 [Some [108, 115], None],
        Ev_cmdreq (env_ok 0) VCMD_IO_NONE (Some 7) 11 1 [Some [108, 115], None],
        Ev_readable (\<lambda>n. Some (\<lambda>i. 0))
          (Recv_data (datagram VNODE_MSG_CMDREQACK
                        [int32_tlv VNODE_TLV_CMDID 0, int32_tlv VNODE_TLV_CMDPID 500]) None),
        Ev_readable (\<lambda>n. Some (\<lambda>i. 0))
          (Recv_data (datagram VNODE_MSG_CMDSTATUS
                        [int32_tlv VNODE_TLV_CMDID 0, int32_tlv VNODE_TLV_CMDSTATUS 0]) None)]
     = Inr (client1, acts, rets)
     \<and> rets = [(0, Some 7, 10), (1, Some 7, 11)]
     \<and> dones acts = [(7, 0, 10)]
     \<and> snd (vnode_delclient client1) = [Close 3, Cmddonecb 7 1 (-1) (-1) 11]
     \<and> mset (dones (acts @ snd (vnode_delclient client1))) = mset (submitted rets)"
proof -
  let ?heap = "\<lambda>n :: nat. Some (\<lambda>i :: nat. 0 :: u8)"
  let ?e0 = "\<lparr>cmdid = 0, pid = -1, status = -1, data = \<lparr>cmddonecb = Some 7, cc_data = 10\<rparr>\<rparr>"
  let ?e1 = "\<lparr>cmdid = 1, pid = -1, status = -1, data = \<lparr>cmddonecb = Some 7, cc_data = 11\<rparr>\<rparr>"
  let ?c0 = "\<lparr>cmdlisthead = [], serverfd = 3, msgio_msgbuf = INIT_MSGBUF, next_cmdid = 0\<rparr>"
  let ?c1 = "\<lparr>cmdlisthead = [?e0], serverfd = 3, msgio_msgbuf = INIT_MSGBUF, next_cmdid = 1\<rparr>"
  let ?c2 = "\<lparr>cmdlisthead = [?e0, ?e1], serverfd = 3, msgio_msgbuf = INIT_MSGBUF, next_cmdid = 2\<rparr>"
  let ?ack = "datagram VNODE_MSG_CMDREQACK
                [int32_tlv VNODE_TLV_CMDID 0, int32_tlv VNODE_TLV_CMDPID 500]"
  let ?st = "datagram VNODE_MSG_CMDSTATUS
                [int32_tlv VNODE_TLV_CMDID 0, int32_tlv VNODE_TLV_CMDSTATUS 0]"
  let ?evs = "[Ev_cmdreq (env_ok 0) VCMD_IO_NONE (Some 7) 10 1 [Some [108, 115], None],
        Ev_cmdreq (env_ok 0) VCMD_IO_NONE (Some 7) 11 1 [Some [108, 115], None],
        Ev_readable ?heap (Recv_data ?ack None), Ev_readable ?heap (Recv_data ?st None)]"
  have s1: "vnode_client_cmdreq (env_ok 0) ?c0 VCMD_IO_NONE (Some 7) 10 1 [Some [108, 115], None]
            = Inr (0, ?c1, VCMD_IO_NONE,
                   [Sendmsg \<lparr>sm_fd = 3,
                             sm_iov = datagram VNODE_MSG_CMDREQ
                                        [int32_tlv VNODE_TLV_CMDID 0, cmdarg_tlv [108, 115]],
                             sm_rights = None\<rparr>])"
    using cmdreq_ls_none_env_ok[of ?c0 0 "Some 7" 10] by simp
  have s2: "vnode_client_cmdreq (env_ok 0) ?c1 VCMD_IO_NONE (Some 7) 11 1 [Some [108, 115], None]
            = Inr (1, ?c2, VCMD_IO_NONE,
                   [Sendmsg \<lparr>sm_fd = 3,
                             sm_iov = datagram VNODE_MSG_CMDREQ
                                        [int32_tlv VNODE_TLV_CMDID 1, cmdarg_tlv [108, 115]],
                             sm_rights = None\<rparr>])"
    using cmdreq_ls_none_env_ok[of ?c1 0 "Some 7" 11] by simp
  obtain mb3 st3 where m3: "msg mb3 = ?ack @ st3"
    and r3: "vnode_msg_cb ?heap (Recv_data ?ack None) ?c2
             = vnode_clientrecv_cmdreqack (?c2\<lparr>msgio_msgbuf := mb3\<rparr>)"
    using vnode_msg_cb_cmdreqack[of ?c2 ?heap 0 500 None] by auto
  let ?c3 = "\<lparr>cmdlisthead = [\<lparr>cmdid = 0, pid = 500, status = -1,
                               data = \<lparr>cmddonecb = Some 7, cc_data = 10\<rparr>\<rparr>, ?e1], serverfd = 3, msgio_msgbuf = mb3,
              next_cmdid = 2\<rparr>"
  have s3: "vnode_msg_cb ?heap (Recv_data ?ack None) ?c2 = Inr (?c3, [])"
    unfolding r3
    using vnode_clientrecv_cmdreqack_datagram[of "?c2\<lparr>msgio_msgbuf := mb3\<rparr>" 0 500 st3] m3
    by simp
  obtain mb4 st4 where m4: "msg mb4 = ?st @ st4"
    and r4: "vnode_msg_cb ?heap (Recv_data ?st None) ?c3
             = vnode_clientrecv_cmdstatus (?c3\<lparr>msgio_msgbuf := mb4\<rparr>)"
    using vnode_msg_cb_cmdstatus[of ?c3 ?heap 0 0 None] by auto
  let ?c4 = "\<lparr>cmdlisthead = [?e1], serverfd = 3, msgio_msgbuf = mb4, next_cmdid = 2\<rparr>"
  have s4: "vnode_msg_cb ?heap (Recv_data ?st None) ?c3 = Inr (?c4, [Cmddonecb 7 0 500 0 10])"
    unfolding r4
    using vnode_clientrecv_cmdstatus_datagram[of "?c3\<lparr>msgio_msgbuf := mb4\<rparr>" 0 0 st4] m4
    by (simp add: vnode_client_cmddone_def)
  let ?acts = "[Sendmsg \<lparr>sm_fd = 3,
                             sm_iov = datagram VNODE_MSG_CMDREQ
                                        [int32_tlv VNODE_TLV_CMDID 0, cmdarg_tlv [108, 115]],
                             sm_rights = None\<rparr>,
                Sendmsg \<lparr>sm_fd = 3,
                             sm_iov = datagram VNODE_MSG_CMDREQ
                                        [int32_tlv VNODE_TLV_CMDID 1, cmdarg_tlv [108, 115]],
                             sm_rights = None\<rparr>,
                Cmddonecb 7 0 500 0 10]"
  have run: "client_run ?c0 ?evs = Inr (?c4, ?acts, [(0, Some 7, 10), (1, Some 7, 11)])"
    by (simp add: s1 s2 s3 s4)
  have e0: "cmdlisthead ?c0 = []" by simp
  have del: "snd (vnode_delclient ?c4) = [Close 3, Cmddonecb 7 1 (-1) (-1) 11]"
    by (simp add: vnode_delclient_def CLOSE_def vnode_client_cmddone_def)
  have d: "dones ?acts = [(7, 0, 10)]" by (simp add: dones_def)
  have bal: "mset (dones (?acts @ snd (vnode_delclient ?c4)))
             = mset (submitted [(0, Some 7, 10), (1, Some 7, 11)])"
    using delclient_completes_all[of ?c4 ?c0 ?evs ?c4 ?acts "[(0, Some 7, 10), (1, Some 7, 11)]"]
      e0 run by blast
  show ?thesis
    using run del d bal by blast
qed

section \<open>Connections and the owner of a command\<close>

lemma vnode_recvmsg_norights:
  assumes "(if msgbufsize mb < VNODE_MSGSIZMAX
            then vnode_resizemsgbuf heap mb VNODE_MSGSIZMAX else (0, mb)) = (0, mb1)"
  shows "infd (snd (vnode_recvmsg heap (Recv_data bytes None) mb)) = -1
       \<and> outfd (snd (vnode_recvmsg heap (Recv_data bytes None) mb)) = -1
       \<and> errfd (snd (vnode_recvmsg heap (Recv_data bytes None) mb)) = -1"
  unfolding vnode_recvmsg_def assms(1)
  by (simp add: Let_def del: length_take take_eq_Nil take_eq_Nil2)

lemma vnode_recvmsg_wellformed_norights:
  assumes "VNODE_MSGSIZMAX \<le> msgbufsize mb \<or> heap VNODE_MSGSIZMAX \<noteq> None"
    "wellformed_datagram d" "length d \<le> VNODE_MSGSIZMAX"
  shows "\<exists>mb' stale. vnode_recvmsg heap (Recv_data d None) mb = (int (length d), mb')
                      \<and> msg mb' = d @ stale
                      \<and> infd mb' = -1 \<and> outfd mb' = -1 \<and> errfd mb' = -1"
proof -
  obtain mb1 where r: "(if msgbufsize mb < VNODE_MSGSIZMAX
                then vnode_resizemsgbuf heap mb VNODE_MSGSIZMAX else (0, mb)) = (0, mb1)"
    using recv_buffer[of mb heap] assms(1) by blast
  obtain mb' stale where a: "vnode_recvmsg heap (Recv_data d None) mb = (int (length d), mb')"
    and b: "msg mb' = d @ stale"
    using vnode_recvmsg_wellformed[of mb heap d None] assms by blast
  show ?thesis
    using vnode_recvmsg_norights[OF r, of d] a b by simp
qed

lemma server_run_append:
  "server_run vd (evs1 @ evs2)
   = (case server_run vd evs1 of
        Inl f \<Rightarrow> Inl f
      | Inr (vd1, acts1) \<Rightarrow>
          (case server_run vd1 evs2 of
             Inl f \<Rightarrow> Inl f
           | Inr (vd2, acts2) \<Rightarrow> Inr (vd2, acts1 @ acts2)))"
  by (induction evs1 arbitrary: vd) (auto split: sum.splits prod.splits)

lemma server_step_accept:
  assumes "vd_clientlisthead vd = []"
  shows "server_step vd (Sv_accept fd (Some a) (\<lambda>n. Some (\<lambda>i. 0)))
   = Inr (vd\<lparr>vd_clientlisthead :=
                [(\<lparr>ce_self = a, clientfd = fd\<rparr>,
                  INIT_MSGBUF\<lparr>msg := map (\<lambda>i. 0) [0..<VNODE_MSGSIZMAX]\<rparr>)]\<rparr>, [])"
  by (simp add: server_step_def assms vnode_server_cb_def vnode_server_newclient_def
      vnode_initmsgbuf_def vnode_resizemsgbuf_def INIT_MSGBUF_def)

lemma server_step_peer_closed:
  assumes "vd_clientlisthead vd = [(client, mb)]" "ce_self client = a"
    "env_heap e VNODE_MSGSIZMAX \<noteq> None"
  shows "server_step vd (Sv_readable a e (Recv_data [] rights))
         = Inr (vd\<lparr>vd_clientlisthead := []\<rparr>, [Close (clientfd client)])"
proof -
  have f: "fst (vnode_recvmsg (env_heap e) (Recv_data [] rights) mb) = -1"
    using vnode_recvmsg_char[of mb "env_heap e" "Recv_data [] rights"] assms(3) by simp
  obtain tmp mb' where r: "vnode_recvmsg (env_heap e) (Recv_data [] rights) mb = (tmp, mb')"
    by (cases "vnode_recvmsg (env_heap e) (Recv_data [] rights) mb")
  have t: "tmp = -1" using f r by simp
  show ?thesis
    by (simp add: server_step_def assms(1,2) vnode_server_msg_cb_def r t
        vnode_server_delclient_def)
qed

lemma server_step_cmdreq:
  assumes "vd_clientlisthead vd = [(client, mb)]" "ce_self client = a"
    and "strlen s + 1 < 2 ^ 32"
    and "HDRSIZE + tlvs_len [int32_tlv VNODE_TLV_CMDID cid, cmdarg_tlv s] \<le> VNODE_MSGSIZMAX"
    and "p \<noteq> -1"
  shows "\<exists>mb'. server_step vd
           (Sv_readable a (env_ok p)
              (Recv_data (datagram VNODE_MSG_CMDREQ [int32_tlv VNODE_TLV_CMDID cid, cmdarg_tlv s])
                 None))
         = Inr (vd\<lparr>vd_clientlisthead := [(client, mb')],
                   vd_server := (vd_server vd)\<lparr>srv_cmdlisthead :=
                     srv_cmdlisthead (vd_server vd)
                     @ [\<lparr>cmdid = cid, pid = p, status = -1, data = a\<rparr>]\<rparr>\<rparr>,
                [Fork p (Some (cstring s)) [cstring s],
                 Sendmsg \<lparr>sm_fd = clientfd client,
                          sm_iov = datagram VNODE_MSG_CMDREQACK
                                     [int32_tlv VNODE_TLV_CMDID cid, int32_tlv VNODE_TLV_CMDPID p],
                          sm_rights = None\<rparr>])"
proof -
  let ?ts = "[int32_tlv VNODE_TLV_CMDID cid, cmdarg_tlv s]"
  let ?d = "datagram VNODE_MSG_CMDREQ ?ts"
  have ok: "\<forall>t \<in> set ?ts. tlv_ok t" using tlv_ok_cmdarg[OF assms(3)] by simp
  have small: "tlvs_len ?ts < 2 ^ 32" using assms(4) by (simp add: VNODE_MSGSIZMAX_def HDRSIZE_def)
  have wf: "wellformed_datagram ?d"
    using wellformed_datagram_datagram[of ?ts VNODE_MSG_CMDREQ] ok small
    by (simp add: VNODE_MSG_CMDREQ_def VNODE_MSG_NONE_def VNODE_MSG_MAX_def)
  have len: "length ?d \<le> VNODE_MSGSIZMAX"
    using length_datagram[of ?ts VNODE_MSG_CMDREQ] ok assms(4) by (simp add: HDRSIZE_def)
  have lpos: "0 < length ?d"
    using length_datagram[of ?ts VNODE_MSG_CMDREQ] ok by simp
  obtain mb' stale where r: "vnode_recvmsg (env_heap (env_ok p)) (Recv_data ?d None) mb
                             = (int (length ?d), mb')"
    and m: "msg mb' = ?d @ stale"
    and fds: "infd mb' = -1" "outfd mb' = -1" "errfd mb' = -1"
    using vnode_recvmsg_wellformed_norights[of mb "env_heap (env_ok p)" ?d] wf len
    by (auto simp: env_ok_def)
  have m2: "msg mb' = datagram VNODE_MSG_CMDREQ (int32_tlv VNODE_TLV_CMDID cid # map cmdarg_tlv [s])
                      @ stale"
    using m by simp
  have x: "exec_argv (cmdarg_of [cstring s]) = [cstring s]"
    using exec_argv_of[of "[cstring s]"] by (simp add: VNODE_ARGMAX_def)
  have rq: "vnode_recv_cmdreq (env_ok p) (vd_server vd) client mb'
            = Inr ((vd_server vd)\<lparr>srv_cmdlisthead := srv_cmdlisthead (vd_server vd)
                      @ [\<lparr>cmdid = cid, pid = p, status = -1, data = a\<rparr>]\<rparr>,
                   [Fork p (Some (cstring s)) [cstring s],
                    Sendmsg \<lparr>sm_fd = clientfd client,
                          sm_iov = datagram VNODE_MSG_CMDREQACK
                                     [int32_tlv VNODE_TLV_CMDID cid, int32_tlv VNODE_TLV_CMDPID p],
                          sm_rights = None\<rparr>])"
    using vnode_recv_cmdreq_args[of mb' cid "[s]" stale "env_ok p" "vd_server vd" client]
      m2 assms(3) small
      vnode_process_cmdreq_forks[where e = "env_ok p" and junk = "\<lambda>i. 0"
        and srv = "vd_server vd" and client = client
        and rq = "\<lparr>rq_cmdid = cid, rq_infd = -1, rq_outfd = -1, rq_errfd = -1,
                    rq_cmdarg = cmdarg_of [cstring s]\<rparr>"]
      length_datagram[of "[int32_tlv VNODE_TLV_CMDID cid, int32_tlv VNODE_TLV_CMDPID p]"
        VNODE_MSG_CMDREQACK]
      x assms(2,5)
    by (simp add: env_ok_def CLOSE_def cmdarg_of_def VNODE_ARGMAX_def fds)
  have "server_step vd (Sv_readable a (env_ok p) (Recv_data ?d None))
        = Inr (vd\<lparr>vd_clientlisthead := [(client, mb')],
                   vd_server := (vd_server vd)\<lparr>srv_cmdlisthead :=
                     srv_cmdlisthead (vd_server vd)
                     @ [\<lparr>cmdid = cid, pid = p, status = -1, data = a\<rparr>]\<rparr>\<rparr>,
                [Fork p (Some (cstring s)) [cstring s],
                 Sendmsg \<lparr>sm_fd = clientfd client,
                          sm_iov = datagram VNODE_MSG_CMDREQACK
                                     [int32_tlv VNODE_TLV_CMDID cid, int32_tlv VNODE_TLV_CMDPID p],
                          sm_rights = None\<rparr>])"
    using lpos
    by (simp add: server_step_def assms(1,2) vnode_server_msg_cb_def r m rq Let_def)
  then show ?thesis by blast
qed

lemma server_step_cmdsignal:
  assumes "vd_clientlisthead vd = [(client, mb)]" "ce_self client = a"
    "env_heap e VNODE_MSGSIZMAX \<noteq> None"
  shows "\<exists>mb'. server_step vd
           (Sv_readable a e
              (Recv_data (datagram VNODE_MSG_CMDSIGNAL
                            [int32_tlv VNODE_TLV_CMDID cid, int32_tlv VNODE_TLV_SIGNUM signum])
                 None))
         = Inr (vd\<lparr>vd_clientlisthead := [(client, mb')]\<rparr>,
                cmdsignal_loop (srv_cmdlisthead (vd_server vd)) client
                  \<lparr>sg_cmdid = cid, sg_signum = signum\<rparr>)"
proof -
  let ?d = "datagram VNODE_MSG_CMDSIGNAL
              [int32_tlv VNODE_TLV_CMDID cid, int32_tlv VNODE_TLV_SIGNUM signum]"
  have wf: "wellformed_datagram ?d" and len: "length ?d = 32"
    by (rule wellformed_two_int32;
        simp add: VNODE_MSG_CMDSIGNAL_def VNODE_MSG_NONE_def VNODE_MSG_MAX_def)+
  obtain mb' stale where r: "vnode_recvmsg (env_heap e) (Recv_data ?d None) mb
                             = (int (length ?d), mb')"
    and m: "msg mb' = ?d @ stale"
    using vnode_recvmsg_wellformed[of mb "env_heap e" ?d None] assms(3) wf len
    by (auto simp: VNODE_MSGSIZMAX_def)
  have ne: "VNODE_MSG_CMDSIGNAL \<noteq> VNODE_MSG_CMDREQ"
    by (simp add: VNODE_MSG_CMDSIGNAL_def VNODE_MSG_CMDREQ_def)
  have sg: "vnode_recv_cmdsignal (vd_server vd) client mb'
            = Inr (vd_server vd, cmdsignal_loop (srv_cmdlisthead (vd_server vd)) client
                                   \<lparr>sg_cmdid = cid, sg_signum = signum\<rparr>)"
    by (simp add: vnode_recv_cmdsignal_def m parse_cmdsignal)
  have "server_step vd (Sv_readable a e (Recv_data ?d None))
        = Inr (vd\<lparr>vd_clientlisthead := [(client, mb')]\<rparr>,
                cmdsignal_loop (srv_cmdlisthead (vd_server vd)) client
                  \<lparr>sg_cmdid = cid, sg_signum = signum\<rparr>)"
    by (simp add: server_step_def assms(1,2) vnode_server_msg_cb_def r len m ne sg Let_def)
  then show ?thesis by blast
qed

text \<open>
  C6. The owner test of \<open>vnode_recv_cmdsignal\<close> compares an entry's \<open>data\<close> with
  the address of the requesting client entry, and \<open>vnode_server_delclient\<close> frees a
  client entry without touching the commands it started. So a client can signal a
  command it did not start. A first client is accepted (its entry at address 100),
  starts \<open>sleep\<close> (\<open>cmdid\<close> 0, pid 4242) and closes its connection: the entry is
  freed, the client queue is empty and the command stays queued with \<open>data = 100\<close>.
  A second client is accepted and \<open>malloc\<close> returns the freed address 100; it sends
  no \<open>CMDREQ\<close>, and on its \<open>CMDSIGNAL{cmdid 0, signum 9}\<close> the daemon calls
  \<open>kill(4242, 9)\<close>, where the claim has no signal delivered.
\<close>

theorem cmdsignal_after_address_reuse:
  "server_run \<lparr>vd_server = \<lparr>srv_cmdlisthead = []\<rparr>, vd_clientlisthead = []\<rparr>
     [Sv_accept 5 (Some 100) (\<lambda>n. Some (\<lambda>i. 0)),
      Sv_readable 100 (env_ok 4242)
        (Recv_data (datagram VNODE_MSG_CMDREQ
                      [int32_tlv VNODE_TLV_CMDID 0, cmdarg_tlv [115, 108, 101, 101, 112]]) None),
      Sv_readable 100 (env_ok 0) (Recv_data [] None)]
   = Inr (\<lparr>vd_server = \<lparr>srv_cmdlisthead = [\<lparr>cmdid = 0, pid = 4242, status = -1, data = 100\<rparr>]\<rparr>,
           vd_clientlisthead = []\<rparr>,
          [[],
           [Fork 4242 (Some [115, 108, 101, 101, 112, 0]) [[115, 108, 101, 101, 112, 0]],
            Sendmsg \<lparr>sm_fd = 5,
                     sm_iov = datagram VNODE_MSG_CMDREQACK
                                [int32_tlv VNODE_TLV_CMDID 0, int32_tlv VNODE_TLV_CMDPID 4242],
                     sm_rights = None\<rparr>],
           [Close 5]])
   \<and> (\<exists>mb. server_run \<lparr>vd_server = \<lparr>srv_cmdlisthead = []\<rparr>, vd_clientlisthead = []\<rparr>
         [Sv_accept 5 (Some 100) (\<lambda>n. Some (\<lambda>i. 0)),
          Sv_readable 100 (env_ok 4242)
            (Recv_data (datagram VNODE_MSG_CMDREQ
                          [int32_tlv VNODE_TLV_CMDID 0, cmdarg_tlv [115, 108, 101, 101, 112]]) None),
          Sv_readable 100 (env_ok 0) (Recv_data [] None),
          Sv_accept 5 (Some 100) (\<lambda>n. Some (\<lambda>i. 0)),
          Sv_readable 100 (env_ok 0)
            (Recv_data (datagram VNODE_MSG_CMDSIGNAL
                          [int32_tlv VNODE_TLV_CMDID 0, int32_tlv VNODE_TLV_SIGNUM 9]) None)]
       = Inr (\<lparr>vd_server = \<lparr>srv_cmdlisthead =
                                [\<lparr>cmdid = 0, pid = 4242, status = -1, data = 100\<rparr>]\<rparr>,
               vd_clientlisthead = [(\<lparr>ce_self = 100, clientfd = 5\<rparr>, mb)]\<rparr>,
              [[],
               [Fork 4242 (Some [115, 108, 101, 101, 112, 0]) [[115, 108, 101, 101, 112, 0]],
                Sendmsg \<lparr>sm_fd = 5,
                         sm_iov = datagram VNODE_MSG_CMDREQACK
                                    [int32_tlv VNODE_TLV_CMDID 0, int32_tlv VNODE_TLV_CMDPID 4242],
                         sm_rights = None\<rparr>],
               [Close 5],
               [],
               [Kill 4242 9]]))"
proof -
  let ?H = "\<lambda>n :: nat. Some (\<lambda>i :: nat. 0 :: u8)"
  let ?mb0 = "INIT_MSGBUF\<lparr>msg := map (\<lambda>i. 0) [0..<VNODE_MSGSIZMAX]\<rparr>"
  let ?c = "\<lparr>ce_self = 100, clientfd = 5\<rparr>"
  let ?cmd = "\<lparr>cmdid = 0 :: i32, pid = 4242 :: i32, status = -1 :: i32, data = 100 :: nat\<rparr>"
  let ?req = "Recv_data (datagram VNODE_MSG_CMDREQ
                      [int32_tlv VNODE_TLV_CMDID 0, cmdarg_tlv [115, 108, 101, 101, 112]]) None"
  let ?sig = "Recv_data (datagram VNODE_MSG_CMDSIGNAL
                          [int32_tlv VNODE_TLV_CMDID 0, int32_tlv VNODE_TLV_SIGNUM 9]) None"
  let ?ack = "Sendmsg \<lparr>sm_fd = 5,
                     sm_iov = datagram VNODE_MSG_CMDREQACK
                                [int32_tlv VNODE_TLV_CMDID 0, int32_tlv VNODE_TLV_CMDPID 4242],
                     sm_rights = None\<rparr>"
  let ?fork = "Fork 4242 (Some [115, 108, 101, 101, 112, 0]) [[115, 108, 101, 101, 112, 0]]"
  let ?vd0 = "\<lparr>vd_server = \<lparr>srv_cmdlisthead = []\<rparr>, vd_clientlisthead = []\<rparr>"
  let ?vd1 = "\<lparr>vd_server = \<lparr>srv_cmdlisthead = []\<rparr>, vd_clientlisthead = [(?c, ?mb0)]\<rparr>"
  let ?vd3 = "\<lparr>vd_server = \<lparr>srv_cmdlisthead = [?cmd]\<rparr>, vd_clientlisthead = []\<rparr>"
  let ?vd4 = "\<lparr>vd_server = \<lparr>srv_cmdlisthead = [?cmd]\<rparr>, vd_clientlisthead = [(?c, ?mb0)]\<rparr>"
  have s1: "server_step ?vd0 (Sv_accept 5 (Some 100) ?H) = Inr (?vd1, [])"
    using server_step_accept[of ?vd0 5 100] by simp
  have sl: "strlen [115, 108, 101, 101, 112 :: u8] = 5" by (simp add: strlen_def)
  have cs: "cstring [115, 108, 101, 101, 112 :: u8] = [115, 108, 101, 101, 112, 0]"
    by (simp add: cstring_def)
  have fit: "HDRSIZE + tlvs_len [int32_tlv VNODE_TLV_CMDID 0, cmdarg_tlv [115, 108, 101, 101, 112]]
             \<le> VNODE_MSGSIZMAX"
    by (simp add: tlvs_len_def int32_tlv_def cmdarg_tlv_def sl HDRSIZE_def TLVSIZE_def
        VNODE_MSGSIZMAX_def)
  obtain mb2 where s2: "server_step ?vd1 (Sv_readable 100 (env_ok 4242) ?req)
      = Inr (\<lparr>vd_server = \<lparr>srv_cmdlisthead = [?cmd]\<rparr>, vd_clientlisthead = [(?c, mb2)]\<rparr>,
             [?fork, ?ack])"
    using server_step_cmdreq[of ?vd1 ?c ?mb0 100 "[115, 108, 101, 101, 112]" 0 4242] fit
    by (auto simp: sl cs)
  have s3: "server_step \<lparr>vd_server = \<lparr>srv_cmdlisthead = [?cmd]\<rparr>,
                          vd_clientlisthead = [(?c, mb2)]\<rparr>
              (Sv_readable 100 (env_ok 0) (Recv_data [] None))
            = Inr (?vd3, [Close 5])"
    using server_step_peer_closed[of "\<lparr>vd_server = \<lparr>srv_cmdlisthead = [?cmd]\<rparr>,
                          vd_clientlisthead = [(?c, mb2)]\<rparr>" ?c mb2 100 "env_ok 0" None]
    by (simp add: env_ok_def)
  have s4: "server_step ?vd3 (Sv_accept 5 (Some 100) ?H) = Inr (?vd4, [])"
    using server_step_accept[of ?vd3 5 100] by simp
  obtain mb5 where s5: "server_step ?vd4 (Sv_readable 100 (env_ok 0) ?sig)
      = Inr (\<lparr>vd_server = \<lparr>srv_cmdlisthead = [?cmd]\<rparr>, vd_clientlisthead = [(?c, mb5)]\<rparr>,
             [Kill 4242 9])"
    using server_step_cmdsignal[of ?vd4 ?c ?mb0 100 "env_ok 0" 0 9]
    by (auto simp: env_ok_def)
  have a: "server_run ?vd0 [Sv_accept 5 (Some 100) ?H, Sv_readable 100 (env_ok 4242) ?req,
                            Sv_readable 100 (env_ok 0) (Recv_data [] None)]
           = Inr (?vd3, [[], [?fork, ?ack], [Close 5]])"
    by (simp add: s1 s2 s3)
  have b: "server_run ?vd3 [Sv_accept 5 (Some 100) ?H, Sv_readable 100 (env_ok 0) ?sig]
           = Inr (\<lparr>vd_server = \<lparr>srv_cmdlisthead = [?cmd]\<rparr>, vd_clientlisthead = [(?c, mb5)]\<rparr>,
                  [[], [Kill 4242 9]])"
    by (simp add: s4 s5)
  have c: "server_run ?vd0 ([Sv_accept 5 (Some 100) ?H, Sv_readable 100 (env_ok 4242) ?req,
                             Sv_readable 100 (env_ok 0) (Recv_data [] None)]
                            @ [Sv_accept 5 (Some 100) ?H, Sv_readable 100 (env_ok 0) ?sig])
           = Inr (\<lparr>vd_server = \<lparr>srv_cmdlisthead = [?cmd]\<rparr>, vd_clientlisthead = [(?c, mb5)]\<rparr>,
                  [[], [?fork, ?ack], [Close 5], [], [Kill 4242 9]])"
    unfolding server_run_append a by (simp add: s4 s5)
  have d: "server_run ?vd0 [Sv_accept 5 (Some 100) ?H, Sv_readable 100 (env_ok 4242) ?req,
                            Sv_readable 100 (env_ok 0) (Recv_data [] None),
                            Sv_accept 5 (Some 100) ?H, Sv_readable 100 (env_ok 0) ?sig]
           = Inr (\<lparr>vd_server = \<lparr>srv_cmdlisthead = [?cmd]\<rparr>, vd_clientlisthead = [(?c, mb5)]\<rparr>,
                  [[], [?fork, ?ack], [Close 5], [], [Kill 4242 9]])"
    using c by (simp del: server_run.simps)
  show ?thesis
    apply (rule conjI)
     apply (rule a)
    apply (rule exI[of _ mb5])
    apply (rule d)
    done
qed


end
